theory Spec2Isabelle
  imports Complex_Main
begin

section \<open>JavaScript values of the airscrew calculator\<close>

text \<open>
  The program \<^verbatim>\<open>air_screw.js\<close> computes with JavaScript numbers and, where an array is
  read out of range or \<^verbatim>\<open>interp\<close> falls off its loop, with \<^verbatim>\<open>undefined\<close>.
  A value is a finite number, one of the two infinities, NaN, or \<^verbatim>\<open>undefined\<close>.
  In the first sections finite numbers are taken as exact reals: rounding, overflow and
  the sign of zero of IEEE doubles are left out (a division by zero sees the divisor as
  +0), and \<^verbatim>\<open>Math.PI\<close>, \<^verbatim>\<open>Math.sqrt\<close>, \<^verbatim>\<open>Math.atan\<close> are the real \<open>pi\<close>, \<open>sqrt\<close>, \<open>arctan\<close>.
  Every arithmetic operator first converts \<^verbatim>\<open>undefined\<close> to NaN, as ToNumber does.
  The section on binary64 arithmetic gives the program a second time, with every
  operation rounded as IEEE 754 prescribes; where a claim rests on an identity of the
  reals, the two are compared.

  The program has no \<^verbatim>\<open>throw\<close> statement, and on inputs of the types used here (arrays
  of values, numbers, counts) none of its operations raises: reading an array out of
  range and arithmetic on \<^verbatim>\<open>undefined\<close> give values. Each function is therefore a total
  function to the value it returns, \<^verbatim>\<open>undefined\<close> included.
\<close>

datatype jsval = Fin real | PInf | NInf | NaN | Undefined

fun js_add :: "jsval \<Rightarrow> jsval \<Rightarrow> jsval" where
  "js_add (Fin x) (Fin y) = Fin (x + y)"
| "js_add (Fin x) PInf = PInf"
| "js_add (Fin x) NInf = NInf"
| "js_add PInf (Fin y) = PInf"
| "js_add PInf PInf = PInf"
| "js_add NInf (Fin y) = NInf"
| "js_add NInf NInf = NInf"
| "js_add _ _ = NaN"

fun js_neg :: "jsval \<Rightarrow> jsval" where
  "js_neg (Fin x) = Fin (- x)"
| "js_neg PInf = NInf"
| "js_neg NInf = PInf"
| "js_neg _ = NaN"

definition js_sub :: "jsval \<Rightarrow> jsval \<Rightarrow> jsval" where
  "js_sub a b = js_add a (js_neg b)"

text \<open>The infinity with the sign of a nonzero real; zero times infinity is NaN.\<close>

definition inf_times :: "real \<Rightarrow> jsval" where
  "inf_times x = (if x = 0 then NaN else if 0 < x then PInf else NInf)"

fun js_mul :: "jsval \<Rightarrow> jsval \<Rightarrow> jsval" where
  "js_mul (Fin x) (Fin y) = Fin (x * y)"
| "js_mul (Fin x) PInf = inf_times x"
| "js_mul (Fin x) NInf = inf_times (- x)"
| "js_mul PInf (Fin y) = inf_times y"
| "js_mul NInf (Fin y) = inf_times (- y)"
| "js_mul PInf PInf = PInf"
| "js_mul PInf NInf = NInf"
| "js_mul NInf PInf = NInf"
| "js_mul NInf NInf = PInf"
| "js_mul _ _ = NaN"

fun js_div :: "jsval \<Rightarrow> jsval \<Rightarrow> jsval" where
  "js_div (Fin x) (Fin y) = (if y = 0 then inf_times x else Fin (x / y))"
| "js_div (Fin x) PInf = Fin 0"
| "js_div (Fin x) NInf = Fin 0"
| "js_div PInf (Fin y) = (if 0 \<le> y then PInf else NInf)"
| "js_div NInf (Fin y) = (if 0 \<le> y then NInf else PInf)"
| "js_div _ _ = NaN"

text \<open>The comparison \<^verbatim>\<open>a > b\<close>: false as soon as one side is NaN or \<^verbatim>\<open>undefined\<close>.\<close>

fun js_gt :: "jsval \<Rightarrow> jsval \<Rightarrow> bool" where
  "js_gt (Fin x) (Fin y) = (y < x)"
| "js_gt (Fin x) NInf = True"
| "js_gt PInf (Fin y) = True"
| "js_gt PInf NInf = True"
| "js_gt _ _ = False"

fun js_sqrt :: "jsval \<Rightarrow> jsval" where
  "js_sqrt (Fin x) = (if x < 0 then NaN else Fin (sqrt x))"
| "js_sqrt PInf = PInf"
| "js_sqrt _ = NaN"

fun js_atan :: "jsval \<Rightarrow> jsval" where
  "js_atan (Fin x) = Fin (arctan x)"
| "js_atan PInf = Fin (pi / 2)"
| "js_atan NInf = Fin (- (pi / 2))"
| "js_atan _ = NaN"

text \<open>An array read \<^verbatim>\<open>A[i]\<close>: \<^verbatim>\<open>undefined\<close> beyond the last element.\<close>

definition js_nth :: "jsval list \<Rightarrow> nat \<Rightarrow> jsval" where
  "js_nth A i = (if i < length A then A ! i else Undefined)"

text \<open>The read \<^verbatim>\<open>A[A.length - 1]\<close>, which is \<^verbatim>\<open>A[-1]\<close>, \<^verbatim>\<open>undefined\<close>, on the empty array.\<close>

definition js_last :: "jsval list \<Rightarrow> jsval" where
  "js_last A = (if length A = 0 then Undefined else js_nth A (length A - 1))"

section \<open>interp: one-dimensional linear interpolation\<close>

text \<open>
  The loop of \<^verbatim>\<open>interp\<close>, entered with the counters \<open>i\<close> and \<open>i1\<close> (the source starts them
  at 0 and 1 and increments both). It returns from inside the loop at the first \<open>i\<close> with
  \<^verbatim>\<open>VX[i1] > X\<close>; when the loop ends the function has no return statement, which is
  \<^verbatim>\<open>undefined\<close>.
\<close>

function interp_loop :: "jsval list \<Rightarrow> jsval list \<Rightarrow> jsval \<Rightarrow> nat \<Rightarrow> nat \<Rightarrow> jsval" where
  "interp_loop VX VY X i i1 =
     (if i < length VX then
        (if js_gt (js_nth VX i1) X then
           (let dX = js_sub X (js_nth VX i);
                k = js_div (js_sub (js_nth VY i1) (js_nth VY i))
                           (js_sub (js_nth VX i1) (js_nth VX i))
            in js_add (js_nth VY i) (js_mul k dX))
         else interp_loop VX VY X (i + 1) (i1 + 1))
      else Undefined)"
  by pat_completeness auto
termination
  by (relation "measure (\<lambda>(VX, VY, X, i, i1). length VX - i)") auto

definition interp :: "jsval list \<Rightarrow> jsval list \<Rightarrow> jsval \<Rightarrow> jsval" where
  "interp VX VY X = interp_loop VX VY X 0 1"

section \<open>getSpeedDistribution: local velocities and angles of attack along the blade\<close>

record section_sample =
  range_s :: jsval
  localVelocity :: jsval
  localAoA :: jsval

text \<open>
  The loop of \<^verbatim>\<open>getSpeedDistribution\<close>, on the number of iterations still to run
  (the source counts \<open>i\<close> from 0 up to \<open>N\<close>): each iteration pushes the sample at
  \<open>localR\<close> and then adds \<open>dR\<close> to \<open>localR\<close>. The loop body is the same text in both
  program variants. The section count \<open>N\<close> is the length of an array at the only call.
\<close>

fun speed_loop :: "jsval \<Rightarrow> jsval \<Rightarrow> jsval \<Rightarrow> nat \<Rightarrow> jsval \<Rightarrow> section_sample list" where
  "speed_loop omega v0 dR 0 localR = []"
| "speed_loop omega v0 dR (Suc n) localR =
     (let localV = js_mul omega localR;
          totalV = js_sqrt (js_add (js_mul v0 v0) (js_mul localV localV));
          localAoA = js_neg (js_atan (js_div v0 localV))
      in \<lparr>range_s = localR, localVelocity = totalV,
          localAoA = js_mul localAoA (Fin 57.3)\<rparr>
         # speed_loop omega v0 dR n (js_add localR dR))"

text \<open>First variant: \<^verbatim>\<open>omega = 2 * Math.PI * RPM\<close>.\<close>

definition getSpeedDistribution_v1 :: "jsval \<Rightarrow> jsval \<Rightarrow> jsval \<Rightarrow> nat \<Rightarrow> section_sample list" where
  "getSpeedDistribution_v1 RPM R v0 N =
     (let omega = js_mul (js_mul (Fin 2) (Fin pi)) RPM;
          dR = js_div R (Fin (real N));
          localR = js_mul dR (Fin 0.5)
      in speed_loop omega v0 dR N localR)"

text \<open>Second variant: \<^verbatim>\<open>omega = 2 * Math.PI * RPM / 60\<close>.\<close>

definition getSpeedDistribution_v2 :: "jsval \<Rightarrow> jsval \<Rightarrow> jsval \<Rightarrow> nat \<Rightarrow> section_sample list" where
  "getSpeedDistribution_v2 RPM R v0 N =
     (let omega = js_div (js_mul (js_mul (Fin 2) (Fin pi)) RPM) (Fin 60);
          dR = js_div R (Fin (real N));
          localR = js_mul dR (Fin 0.5)
      in speed_loop omega v0 dR N localR)"

section \<open>getSingleBladeForces: the forces on one blade\<close>

record section_force =
  thrust :: jsval
  drag :: jsval
  torque :: jsval

record blade_summary =
  totalThrust :: jsval
  totalDrag :: jsval
  totalTorque :: jsval

record blade_forces =
  speedDistribution :: "section_sample list"
  forceDistribution :: "section_force list"
  summary :: blade_summary

text \<open>
  The body of the loop over the sections up to the push, first variant: the drag
  coefficient is \<^verbatim>\<open>Cx0 + aPolar * Cya * Cya\<close>.
\<close>

definition section_force_v1 ::
  "jsval list \<Rightarrow> jsval list \<Rightarrow> jsval list \<Rightarrow> jsval \<Rightarrow> jsval \<Rightarrow> jsval list \<Rightarrow> jsval list \<Rightarrow> jsval list
   \<Rightarrow> jsval \<Rightarrow> section_sample \<Rightarrow> section_force" where
  "section_force_v1 RX AX SX Cx0 Ro AX_CY CY POLAR dAlpha s =
     (let localQ = js_mul (js_mul (js_mul (Fin 0.5) Ro) (localVelocity s)) (localVelocity s);
          bladeSectionArea = interp RX SX (range_s s);
          bladeSectionAoA = interp RX AX (range_s s);
          localQS = js_mul bladeSectionArea localQ;
          totalAoA = js_add (js_add bladeSectionAoA (localAoA s)) dAlpha;
          Cya = interp AX_CY CY totalAoA;
          aPolar = interp AX_CY POLAR totalAoA;
          Cxa = js_add Cx0 (js_mul (js_mul aPolar Cya) Cya);
          localThrust = js_mul Cya localQS;
          localDrag = js_mul Cxa localQS;
          localTorque = js_mul localDrag (range_s s)
      in \<lparr>thrust = localThrust, drag = localDrag, torque = localTorque\<rparr>)"

text \<open>Second variant: the drag coefficient is read from the table \<open>CX\<close>.\<close>

definition section_force_v2 ::
  "jsval list \<Rightarrow> jsval list \<Rightarrow> jsval list \<Rightarrow> jsval \<Rightarrow> jsval list \<Rightarrow> jsval list \<Rightarrow> jsval list
   \<Rightarrow> jsval \<Rightarrow> section_sample \<Rightarrow> section_force" where
  "section_force_v2 RX AX SX Ro AX_CY CY CX dAlpha s =
     (let localQ = js_mul (js_mul (js_mul (Fin 0.5) Ro) (localVelocity s)) (localVelocity s);
          bladeSectionArea = interp RX SX (range_s s);
          bladeSectionAoA = interp RX AX (range_s s);
          localQS = js_mul bladeSectionArea localQ;
          totalAoA = js_add (js_add bladeSectionAoA (localAoA s)) dAlpha;
          Cya = interp AX_CY CY totalAoA;
          Cxa = interp AX_CY CX totalAoA;
          localThrust = js_mul Cya localQS;
          localDrag = js_mul Cxa localQS;
          localTorque = js_mul localDrag (range_s s)
      in \<lparr>thrust = localThrust, drag = localDrag, torque = localTorque\<rparr>)"

text \<open>
  The loop over the sections, with the variant's body as \<open>body\<close>. The source reads
  \<^verbatim>\<open>speedDistribution[i]\<close> for \<open>i\<close> from 0 up to \<open>N\<close>, and \<^verbatim>\<open>speedDistribution\<close> holds
  exactly \<open>N\<close> samples (lemma \<open>length_speed_loop\<close>), so the loop visits every sample once,
  in order. The state is \<^verbatim>\<open>forceDistribution\<close> and the three running totals; the total
  drag is updated as the source has it, \<^verbatim>\<open>totalDrag += totalDrag\<close>.
\<close>

fun forces_loop ::
  "(section_sample \<Rightarrow> section_force) \<Rightarrow> section_sample list
   \<Rightarrow> section_force list \<times> blade_summary \<Rightarrow> section_force list \<times> blade_summary" where
  "forces_loop body [] st = st"
| "forces_loop body (s # ss) (forces, tot) =
     (let f = body s
      in forces_loop body ss
           (forces @ [f],
            \<lparr>totalThrust = js_add (totalThrust tot) (thrust f),
             totalDrag = js_add (totalDrag tot) (totalDrag tot),
             totalTorque = js_add (totalTorque tot) (torque f)\<rparr>))"

definition init_totals :: blade_summary where
  "init_totals = \<lparr>totalThrust = Fin 0, totalDrag = Fin 0, totalTorque = Fin 0\<rparr>"

text \<open>
  The optional arguments \<open>VX\<close> and \<open>dAVX\<close> default to the empty array; an empty \<open>VX\<close>
  (length 0, falsy) gives \<open>dAlpha = 0\<close>.
\<close>

definition getSingleBladeForces_v1 ::
  "jsval list \<Rightarrow> jsval list \<Rightarrow> jsval list \<Rightarrow> jsval \<Rightarrow> jsval \<Rightarrow> jsval \<Rightarrow> jsval
   \<Rightarrow> jsval list \<Rightarrow> jsval list \<Rightarrow> jsval list \<Rightarrow> jsval list \<Rightarrow> jsval list \<Rightarrow> blade_forces" where
  "getSingleBladeForces_v1 RX AX SX Cx0 RPM v0 Ro AX_CY CY POLAR VX dAVX =
     (let N = length RX;
          R = js_last RX;
          dAlpha = (if length VX \<noteq> 0 then interp VX dAVX v0 else Fin 0);
          speedDistribution = getSpeedDistribution_v1 RPM R v0 N;
          st = forces_loop (section_force_v1 RX AX SX Cx0 Ro AX_CY CY POLAR dAlpha)
                 speedDistribution ([], init_totals)
      in \<lparr>speedDistribution = speedDistribution, forceDistribution = fst st,
          summary = snd st\<rparr>)"

definition getSingleBladeForces_v2 ::
  "jsval list \<Rightarrow> jsval list \<Rightarrow> jsval list \<Rightarrow> jsval \<Rightarrow> jsval \<Rightarrow> jsval
   \<Rightarrow> jsval list \<Rightarrow> jsval list \<Rightarrow> jsval list \<Rightarrow> jsval list \<Rightarrow> jsval list \<Rightarrow> blade_forces" where
  "getSingleBladeForces_v2 RX AX SX RPM v0 Ro AX_CY CY CX VX dAVX =
     (let N = length RX;
          R = js_last RX;
          dAlpha = (if length VX \<noteq> 0 then interp VX dAVX v0 else Fin 0);
          speedDistribution = getSpeedDistribution_v2 RPM R v0 N;
          st = forces_loop (section_force_v2 RX AX SX Ro AX_CY CY CX dAlpha)
                 speedDistribution ([], init_totals)
      in \<lparr>speedDistribution = speedDistribution, forceDistribution = fst st,
          summary = snd st\<rparr>)"

section \<open>getSpeedThrustPerformance: the sweep over the forward speeds\<close>

text \<open>
  The configuration object. The fields carry the source's names with the initial of
  their group appended (the plain names are the parameters of the functions above).
  The blade count and the number of speed steps are counts; the other scalars are
  numbers. The optional \<open>VX\<close> and \<open>dAVX\<close> are the empty array when left out.
\<close>

record geometry =
  nBlade_g :: nat
  RX_g :: "jsval list"
  SX_g :: "jsval list"
  AX_g :: "jsval list"
  VX_g :: "jsval list"
  dAVX_g :: "jsval list"

record aerodynamics_v1 =
  AX_CY_a :: "jsval list"
  Cx0_a :: jsval
  CY_a :: "jsval list"
  POLAR_a :: "jsval list"

record aerodynamics_v2 =
  AX_CY_b :: "jsval list"
  CY_b :: "jsval list"
  CX_b :: "jsval list"

record environment =
  RPM_e :: jsval
  v0_e :: jsval
  v1_e :: jsval
  nV_e :: nat
  Ro_e :: jsval

record 'a initData =
  geometry :: geometry
  aerodynamics :: 'a
  environment :: environment

record speed_point =
  V_sp :: jsval
  thrust_sp :: jsval
  torque_sp :: jsval
  power_sp :: jsval
  thrustCoeff_sp :: jsval
  thrust2power_sp :: jsval

text \<open>
  The loop over the forward speeds, on the number of iterations still to run (the
  source counts \<open>i\<close> from 0 up to \<open>nV + 1\<close>), with the variant's call of
  \<^verbatim>\<open>getSingleBladeForces\<close> at the speed \<open>V\<close> as \<open>blade\<close>. Each iteration pushes one point
  and then adds \<open>dV\<close> to \<open>V\<close>.
\<close>

fun sweep_loop ::
  "(jsval \<Rightarrow> blade_forces) \<Rightarrow> nat \<Rightarrow> jsval \<Rightarrow> jsval \<Rightarrow> jsval \<Rightarrow> jsval \<Rightarrow> nat \<Rightarrow> jsval
   \<Rightarrow> speed_point list" where
  "sweep_loop blade nBlade Ro omega area dV 0 V = []"
| "sweep_loop blade nBlade Ro omega area dV (Suc n) V =
     (let bladePerformance = blade V;
          totalThrust = totalThrust (summary bladePerformance);
          totalTorque = totalTorque (summary bladePerformance);
          Q = js_mul (js_mul (js_mul (Fin 0.5) Ro) V) V;
          thrust = js_mul totalThrust (Fin (real nBlade));
          torque = js_mul totalTorque (Fin (real nBlade));
          power = js_mul torque omega;
          thrustCoeff = js_div thrust (js_mul area Q)
      in \<lparr>V_sp = js_mul V (Fin 3.6), thrust_sp = thrust, torque_sp = torque,
          power_sp = power, thrustCoeff_sp = thrustCoeff,
          thrust2power_sp = js_div thrust power\<rparr>
         # sweep_loop blade nBlade Ro omega area dV n (js_add V dV))"

definition getSpeedThrustPerformance_v1 :: "aerodynamics_v1 initData \<Rightarrow> speed_point list" where
  "getSpeedThrustPerformance_v1 initData =
     (let g = geometry initData; a = aerodynamics initData; e = environment initData;
          omega = js_mul (js_mul (Fin 2) (Fin pi)) (RPM_e e);
          rad = js_last (RX_g g);
          area = js_mul (js_mul (Fin pi) rad) rad;
          dV = js_div (js_sub (v1_e e) (v0_e e)) (Fin (real (nV_e e)));
          nV' = nV_e e + 1
      in sweep_loop
           (\<lambda>V. getSingleBladeForces_v1 (RX_g g) (AX_g g) (SX_g g) (Cx0_a a) (RPM_e e) V
                  (Ro_e e) (AX_CY_a a) (CY_a a) (POLAR_a a) (VX_g g) (dAVX_g g))
           (nBlade_g g) (Ro_e e) omega area dV nV' (v0_e e))"

definition getSpeedThrustPerformance_v2 :: "aerodynamics_v2 initData \<Rightarrow> speed_point list" where
  "getSpeedThrustPerformance_v2 initData =
     (let g = geometry initData; a = aerodynamics initData; e = environment initData;
          omega = js_div (js_mul (js_mul (Fin 2) (Fin pi)) (RPM_e e)) (Fin 60);
          rad = js_last (RX_g g);
          area = js_mul (js_mul (Fin pi) rad) rad;
          dV = js_div (js_sub (v1_e e) (v0_e e)) (Fin (real (nV_e e)));
          nV' = nV_e e + 1
      in sweep_loop
           (\<lambda>V. getSingleBladeForces_v2 (RX_g g) (AX_g g) (SX_g g) (RPM_e e) V
                  (Ro_e e) (AX_CY_b a) (CY_b a) (CX_b a) (VX_g g) (dAVX_g g))
           (nBlade_g g) (Ro_e e) omega area dV nV' (v0_e e))"

section \<open>The program in binary64 arithmetic\<close>

text \<open>
  A JavaScript number is an IEEE 754 binary64 value and every operator rounds its exact
  result to the nearest such value, ties to the even significand. The functions of this
  section are the program once more, with that rounding at every operation; they decide
  which of the identities of exact arithmetic the program itself satisfies.

  \<open>rne\<close> rounds a real to the nearest integer, ties to even. \<open>expo\<close> is the binary
  exponent of a real, held at \<open>-1022\<close> below the normal range (gradual underflow).
  \<open>round53\<close> rounds a real to 53 significant bits at that exponent, and \<open>b64\<close> is the
  binary64 value of a real: the rounded real, or an infinity when the rounded real
  reaches \<open>2 ^ 1024\<close>. The sign of zero is left out, as before.
\<close>

definition rne :: "real \<Rightarrow> int" where
  "rne y = (let f = \<lfloor>y\<rfloor>; d = y - of_int f
            in if d < 1 / 2 then f else if 1 / 2 < d then f + 1
               else if even f then f else f + 1)"

definition expo :: "real \<Rightarrow> int" where
  "expo x = max \<lfloor>log 2 \<bar>x\<bar>\<rfloor> (- 1022)"

definition round53 :: "real \<Rightarrow> real" where
  "round53 x = (if x = 0 then 0 else
     (let u = 2 powi (expo x - 52)
      in of_int (rne (x / u)) * u))"

definition b64 :: "real \<Rightarrow> jsval" where
  "b64 x = (let r = round53 x
            in if 2 ^ 1024 \<le> \<bar>r\<bar> then (if 0 < x then PInf else NInf) else Fin r)"

text \<open>\<^verbatim>\<open>Math.PI\<close> is the binary64 value nearest to \<open>pi\<close>.\<close>

definition Math_PI :: jsval where
  "Math_PI = Fin (884279719003555 / 2 ^ 48)"

text \<open>
  The operators \<^verbatim>\<open>+\<close>, \<^verbatim>\<open>-\<close>, \<^verbatim>\<open>*\<close>, \<^verbatim>\<open>/\<close> on two finite numbers round the exact result; on
  every other pair of values they are the operators of the first section. \<^verbatim>\<open>Math.sqrt\<close>
  is correctly rounded, as IEEE 754 requires. \<^verbatim>\<open>Math.atan\<close> is approximated by the
  implementation: its value on a nonzero finite number is the parameter \<open>atn\<close>, its
  value at zero is zero, and at an infinity it is the binary64 value nearest to
  \<open>pi / 2\<close> with the sign of the argument.
\<close>

fun f_add :: "jsval \<Rightarrow> jsval \<Rightarrow> jsval" where
  "f_add (Fin x) (Fin y) = b64 (x + y)"
| "f_add a b = js_add a b"

definition f_sub :: "jsval \<Rightarrow> jsval \<Rightarrow> jsval" where
  "f_sub a b = f_add a (js_neg b)"

fun f_mul :: "jsval \<Rightarrow> jsval \<Rightarrow> jsval" where
  "f_mul (Fin x) (Fin y) = b64 (x * y)"
| "f_mul a b = js_mul a b"

fun f_div :: "jsval \<Rightarrow> jsval \<Rightarrow> jsval" where
  "f_div (Fin x) (Fin y) = (if y = 0 then inf_times x else b64 (x / y))"
| "f_div a b = js_div a b"

fun f_sqrt :: "jsval \<Rightarrow> jsval" where
  "f_sqrt (Fin x) = (if x < 0 then NaN else b64 (sqrt x))"
| "f_sqrt a = js_sqrt a"

fun f_atan :: "(real \<Rightarrow> real) \<Rightarrow> jsval \<Rightarrow> jsval" where
  "f_atan atn (Fin x) = (if x = 0 then Fin 0 else Fin (atn x))"
| "f_atan atn PInf = Fin (884279719003555 / 2 ^ 49)"
| "f_atan atn NInf = Fin (- (884279719003555 / 2 ^ 49))"
| "f_atan atn a = NaN"

text \<open>
  \<^verbatim>\<open>interp\<close>, \<^verbatim>\<open>getSpeedDistribution\<close>, \<^verbatim>\<open>getSingleBladeForces\<close> and
  \<^verbatim>\<open>getSpeedThrustPerformance\<close> with the rounding operators; the literals \<^verbatim>\<open>57.3\<close> and
  \<^verbatim>\<open>3.6\<close> are the binary64 values nearest to them (\<^verbatim>\<open>0.5\<close> and \<^verbatim>\<open>2\<close> are exact).
\<close>

function interp_loop_b64 :: "jsval list \<Rightarrow> jsval list \<Rightarrow> jsval \<Rightarrow> nat \<Rightarrow> nat \<Rightarrow> jsval" where
  "interp_loop_b64 VX VY X i i1 =
     (if i < length VX then
        (if js_gt (js_nth VX i1) X then
           (let dX = f_sub X (js_nth VX i);
                k = f_div (f_sub (js_nth VY i1) (js_nth VY i))
                          (f_sub (js_nth VX i1) (js_nth VX i))
            in f_add (js_nth VY i) (f_mul k dX))
         else interp_loop_b64 VX VY X (i + 1) (i1 + 1))
      else Undefined)"
  by pat_completeness auto
termination
  by (relation "measure (\<lambda>(VX, VY, X, i, i1). length VX - i)") auto

definition interp_b64 :: "jsval list \<Rightarrow> jsval list \<Rightarrow> jsval \<Rightarrow> jsval" where
  "interp_b64 VX VY X = interp_loop_b64 VX VY X 0 1"

fun speed_loop_b64 ::
  "(real \<Rightarrow> real) \<Rightarrow> jsval \<Rightarrow> jsval \<Rightarrow> jsval \<Rightarrow> nat \<Rightarrow> jsval \<Rightarrow> section_sample list" where
  "speed_loop_b64 atn omega v0 dR 0 localR = []"
| "speed_loop_b64 atn omega v0 dR (Suc n) localR =
     (let localV = f_mul omega localR;
          totalV = f_sqrt (f_add (f_mul v0 v0) (f_mul localV localV));
          localAoA = js_neg (f_atan atn (f_div v0 localV))
      in \<lparr>range_s = localR, localVelocity = totalV,
          localAoA = f_mul localAoA (b64 57.3)\<rparr>
         # speed_loop_b64 atn omega v0 dR n (f_add localR dR))"

definition getSpeedDistribution_v1_b64 ::
  "(real \<Rightarrow> real) \<Rightarrow> jsval \<Rightarrow> jsval \<Rightarrow> jsval \<Rightarrow> nat \<Rightarrow> section_sample list" where
  "getSpeedDistribution_v1_b64 atn RPM R v0 N =
     (let omega = f_mul (f_mul (Fin 2) Math_PI) RPM;
          dR = f_div R (Fin (real N));
          localR = f_mul dR (Fin 0.5)
      in speed_loop_b64 atn omega v0 dR N localR)"

definition getSpeedDistribution_v2_b64 ::
  "(real \<Rightarrow> real) \<Rightarrow> jsval \<Rightarrow> jsval \<Rightarrow> jsval \<Rightarrow> nat \<Rightarrow> section_sample list" where
  "getSpeedDistribution_v2_b64 atn RPM R v0 N =
     (let omega = f_div (f_mul (f_mul (Fin 2) Math_PI) RPM) (Fin 60);
          dR = f_div R (Fin (real N));
          localR = f_mul dR (Fin 0.5)
      in speed_loop_b64 atn omega v0 dR N localR)"

definition section_force_v1_b64 ::
  "jsval list \<Rightarrow> jsval list \<Rightarrow> jsval list \<Rightarrow> jsval \<Rightarrow> jsval \<Rightarrow> jsval list \<Rightarrow> jsval list \<Rightarrow> jsval list
   \<Rightarrow> jsval \<Rightarrow> section_sample \<Rightarrow> section_force" where
  "section_force_v1_b64 RX AX SX Cx0 Ro AX_CY CY POLAR dAlpha s =
     (let localQ = f_mul (f_mul (f_mul (Fin 0.5) Ro) (localVelocity s)) (localVelocity s);
          bladeSectionArea = interp_b64 RX SX (range_s s);
          bladeSectionAoA = interp_b64 RX AX (range_s s);
          localQS = f_mul bladeSectionArea localQ;
          totalAoA = f_add (f_add bladeSectionAoA (localAoA s)) dAlpha;
          Cya = interp_b64 AX_CY CY totalAoA;
          aPolar = interp_b64 AX_CY POLAR totalAoA;
          Cxa = f_add Cx0 (f_mul (f_mul aPolar Cya) Cya);
          localThrust = f_mul Cya localQS;
          localDrag = f_mul Cxa localQS;
          localTorque = f_mul localDrag (range_s s)
      in \<lparr>thrust = localThrust, drag = localDrag, torque = localTorque\<rparr>)"

definition section_force_v2_b64 ::
  "jsval list \<Rightarrow> jsval list \<Rightarrow> jsval list \<Rightarrow> jsval \<Rightarrow> jsval list \<Rightarrow> jsval list \<Rightarrow> jsval list
   \<Rightarrow> jsval \<Rightarrow> section_sample \<Rightarrow> section_force" where
  "section_force_v2_b64 RX AX SX Ro AX_CY CY CX dAlpha s =
     (let localQ = f_mul (f_mul (f_mul (Fin 0.5) Ro) (localVelocity s)) (localVelocity s);
          bladeSectionArea = interp_b64 RX SX (range_s s);
          bladeSectionAoA = interp_b64 RX AX (range_s s);
          localQS = f_mul bladeSectionArea localQ;
          totalAoA = f_add (f_add bladeSectionAoA (localAoA s)) dAlpha;
          Cya = interp_b64 AX_CY CY totalAoA;
          Cxa = interp_b64 AX_CY CX totalAoA;
          localThrust = f_mul Cya localQS;
          localDrag = f_mul Cxa localQS;
          localTorque = f_mul localDrag (range_s s)
      in \<lparr>thrust = localThrust, drag = localDrag, torque = localTorque\<rparr>)"

fun forces_loop_b64 ::
  "(section_sample \<Rightarrow> section_force) \<Rightarrow> section_sample list
   \<Rightarrow> section_force list \<times> blade_summary \<Rightarrow> section_force list \<times> blade_summary" where
  "forces_loop_b64 body [] st = st"
| "forces_loop_b64 body (s # ss) (forces, tot) =
     (let f = body s
      in forces_loop_b64 body ss
           (forces @ [f],
            \<lparr>totalThrust = f_add (totalThrust tot) (thrust f),
             totalDrag = f_add (totalDrag tot) (totalDrag tot),
             totalTorque = f_add (totalTorque tot) (torque f)\<rparr>))"

definition getSingleBladeForces_v1_b64 ::
  "(real \<Rightarrow> real) \<Rightarrow> jsval list \<Rightarrow> jsval list \<Rightarrow> jsval list \<Rightarrow> jsval \<Rightarrow> jsval \<Rightarrow> jsval \<Rightarrow> jsval
   \<Rightarrow> jsval list \<Rightarrow> jsval list \<Rightarrow> jsval list \<Rightarrow> jsval list \<Rightarrow> jsval list \<Rightarrow> blade_forces" where
  "getSingleBladeForces_v1_b64 atn RX AX SX Cx0 RPM v0 Ro AX_CY CY POLAR VX dAVX =
     (let N = length RX;
          R = js_last RX;
          dAlpha = (if length VX \<noteq> 0 then interp_b64 VX dAVX v0 else Fin 0);
          speedDistribution = getSpeedDistribution_v1_b64 atn RPM R v0 N;
          st = forces_loop_b64 (section_force_v1_b64 RX AX SX Cx0 Ro AX_CY CY POLAR dAlpha)
                 speedDistribution ([], init_totals)
      in \<lparr>speedDistribution = speedDistribution, forceDistribution = fst st,
          summary = snd st\<rparr>)"

definition getSingleBladeForces_v2_b64 ::
  "(real \<Rightarrow> real) \<Rightarrow> jsval list \<Rightarrow> jsval list \<Rightarrow> jsval list \<Rightarrow> jsval \<Rightarrow> jsval \<Rightarrow> jsval
   \<Rightarrow> jsval list \<Rightarrow> jsval list \<Rightarrow> jsval list \<Rightarrow> jsval list \<Rightarrow> jsval list \<Rightarrow> blade_forces" where
  "getSingleBladeForces_v2_b64 atn RX AX SX RPM v0 Ro AX_CY CY CX VX dAVX =
     (let N = length RX;
          R = js_last RX;
          dAlpha = (if length VX \<noteq> 0 then interp_b64 VX dAVX v0 else Fin 0);
          speedDistribution = getSpeedDistribution_v2_b64 atn RPM R v0 N;
          st = forces_loop_b64 (section_force_v2_b64 RX AX SX Ro AX_CY CY CX dAlpha)
                 speedDistribution ([], init_totals)
      in \<lparr>speedDistribution = speedDistribution, forceDistribution = fst st,
          summary = snd st\<rparr>)"

fun sweep_loop_b64 ::
  "(jsval \<Rightarrow> blade_forces) \<Rightarrow> nat \<Rightarrow> jsval \<Rightarrow> jsval \<Rightarrow> jsval \<Rightarrow> jsval \<Rightarrow> nat \<Rightarrow> jsval
   \<Rightarrow> speed_point list" where
  "sweep_loop_b64 blade nBlade Ro omega area dV 0 V = []"
| "sweep_loop_b64 blade nBlade Ro omega area dV (Suc n) V =
     (let bladePerformance = blade V;
          totalThrust = totalThrust (summary bladePerformance);
          totalTorque = totalTorque (summary bladePerformance);
          Q = f_mul (f_mul (f_mul (Fin 0.5) Ro) V) V;
          thrust = f_mul totalThrust (Fin (real nBlade));
          torque = f_mul totalTorque (Fin (real nBlade));
          power = f_mul torque omega;
          thrustCoeff = f_div thrust (f_mul area Q)
      in \<lparr>V_sp = f_mul V (b64 3.6), thrust_sp = thrust, torque_sp = torque,
          power_sp = power, thrustCoeff_sp = thrustCoeff,
          thrust2power_sp = f_div thrust power\<rparr>
         # sweep_loop_b64 blade nBlade Ro omega area dV n (f_add V dV))"

definition getSpeedThrustPerformance_v1_b64 ::
  "(real \<Rightarrow> real) \<Rightarrow> aerodynamics_v1 initData \<Rightarrow> speed_point list" where
  "getSpeedThrustPerformance_v1_b64 atn initData =
     (let g = geometry initData; a = aerodynamics initData; e = environment initData;
          omega = f_mul (f_mul (Fin 2) Math_PI) (RPM_e e);
          rad = js_last (RX_g g);
          area = f_mul (f_mul Math_PI rad) rad;
          dV = f_div (f_sub (v1_e e) (v0_e e)) (Fin (real (nV_e e)));
          nV' = nV_e e + 1
      in sweep_loop_b64
           (\<lambda>V. getSingleBladeForces_v1_b64 atn (RX_g g) (AX_g g) (SX_g g) (Cx0_a a) (RPM_e e) V
                  (Ro_e e) (AX_CY_a a) (CY_a a) (POLAR_a a) (VX_g g) (dAVX_g g))
           (nBlade_g g) (Ro_e e) omega area dV nV' (v0_e e))"

definition getSpeedThrustPerformance_v2_b64 ::
  "(real \<Rightarrow> real) \<Rightarrow> aerodynamics_v2 initData \<Rightarrow> speed_point list" where
  "getSpeedThrustPerformance_v2_b64 atn initData =
     (let g = geometry initData; a = aerodynamics initData; e = environment initData;
          omega = f_div (f_mul (f_mul (Fin 2) Math_PI) (RPM_e e)) (Fin 60);
          rad = js_last (RX_g g);
          area = f_mul (f_mul Math_PI rad) rad;
          dV = f_div (f_sub (v1_e e) (v0_e e)) (Fin (real (nV_e e)));
          nV' = nV_e e + 1
      in sweep_loop_b64
           (\<lambda>V. getSingleBladeForces_v2_b64 atn (RX_g g) (AX_g g) (SX_g g) (RPM_e e) V
                  (Ro_e e) (AX_CY_b a) (CY_b a) (CX_b a) (VX_g g) (dAVX_g g))
           (nBlade_g g) (Ro_e e) omega area dV nV' (v0_e e))"

section \<open>Inputs: the test configurations of the source and small examples\<close>

text \<open>
  The test configuration of the first variant (the 16-inch airscrew of the source).
\<close>

definition testAirScrew_v1 :: "aerodynamics_v1 initData" where
  "testAirScrew_v1 =
     \<lparr>geometry =
        \<lparr>nBlade_g = 6,
         RX_g = map Fin [0, 0.02, 0.04, 0.06, 0.08, 0.1, 0.12, 0.14, 0.16, 0.18, 0.2],
         SX_g = map Fin [0.0002, 0.0002, 0.0002, 0.0002, 0.0002, 0.0002, 0.0002, 0.0002,
                         0.0002, 0.0002, 0.0002],
         AX_g = map Fin [12.5, 12.5, 11.5, 9.5, 8.5, 8.5, 5.5, 5, 5, 5, 5],
         VX_g = map Fin [0, 25, 50, 75, 100, 125, 150, 175, 200, 225, 250, 275],
         dAVX_g = map Fin [6, 10, 14, 18, 22, 26, 30, 34, 38, 42, 46, 50]\<rparr>,
      aerodynamics =
        \<lparr>AX_CY_a = map Fin [- 60, - 30, - 20, - 15, - 10, - 8, - 6, - 4, 0, 4, 6, 8, 10, 15,
                            20, 30, 60],
         Cx0_a = Fin 0.045,
         CY_a = map Fin [- 0.4, - 0.8, - 1.05, - 0.95, - 0.8, - 0.64, - 0.48, - 0.32, 0, 0.32,
                         0.48, 0.64, 0.8, 0.95, 1.05, 0.8, 0.4],
         POLAR_a = map Fin [0.75, 0.25, 0.175, 0.135, 0.105, 0.085, 0.07, 0.065, 0.065, 0.065,
                            0.07, 0.085, 0.105, 0.135, 0.175, 0.25, 0.75]\<rparr>,
      environment =
        \<lparr>RPM_e = Fin 95, v0_e = Fin 0, v1_e = Fin 45, nV_e = 15, Ro_e = Fin 1.225\<rparr>\<rparr>"

text \<open>
  The test configuration of the second variant.
\<close>

definition testAirScrew_v2 :: "aerodynamics_v2 initData" where
  "testAirScrew_v2 =
     \<lparr>geometry =
        \<lparr>nBlade_g = 4,
         RX_g = map Fin [0, 0.1, 0.2, 0.3, 0.4, 0.5, 0.6, 0.7, 0.8, 0.9, 1.0],
         SX_g = map Fin [0.01, 0.01, 0.01, 0.01, 0.01, 0.01, 0.01, 0.01, 0.01, 0.01, 0.01],
         AX_g = map Fin [17.5, 15.5, 13.5, 11.5, 9.5, 7.5, 5.5, 3.5, 1.5, - 0.5, - 0.5],
         VX_g = map Fin [0, 40, 60, 80, 100, 120, 140],
         dAVX_g = map Fin [0, 0, 0, 0, 0, 0, 0]\<rparr>,
      aerodynamics =
        \<lparr>AX_CY_b = map Fin [- 32, - 28, - 24, - 20, - 16, - 8, 0, 8, 16, 20, 24, 28, 32],
         CY_b = map Fin [- 0.38239, - 0.30265, - 0.22263, - 0.13628, - 0.07003, 0.29496,
                         1.28453, 2.0334, 2.53601, 2.54411, 2.3579, 2.04756, 1.89981],
         CX_b = map Fin [0.40843, 0.34353, 0.27836, 0.22452, 0.18081, 0.09877, 0.07718,
                         0.141, 0.24166, 0.30899, 0.38833, 0.49155, 0.57683]\<rparr>,
      environment =
        \<lparr>RPM_e = Fin 2500, v0_e = Fin 0, v1_e = Fin 60, nV_e = 15, Ro_e = Fin 1.225\<rparr>\<rparr>"

text \<open>
  The call of \<^verbatim>\<open>getSingleBladeForces\<close> that the sweep makes for the test configuration at the
  forward speed \<open>V\<close>, in each variant.
\<close>

definition testBlade_v1 :: "jsval \<Rightarrow> blade_forces" where
  "testBlade_v1 V =
     getSingleBladeForces_v1 (RX_g (geometry testAirScrew_v1)) (AX_g (geometry testAirScrew_v1))
       (SX_g (geometry testAirScrew_v1)) (Cx0_a (aerodynamics testAirScrew_v1))
       (RPM_e (environment testAirScrew_v1)) V (Ro_e (environment testAirScrew_v1))
       (AX_CY_a (aerodynamics testAirScrew_v1)) (CY_a (aerodynamics testAirScrew_v1))
       (POLAR_a (aerodynamics testAirScrew_v1)) (VX_g (geometry testAirScrew_v1))
       (dAVX_g (geometry testAirScrew_v1))"

definition testBlade_v2 :: "jsval \<Rightarrow> blade_forces" where
  "testBlade_v2 V =
     getSingleBladeForces_v2 (RX_g (geometry testAirScrew_v2)) (AX_g (geometry testAirScrew_v2))
       (SX_g (geometry testAirScrew_v2))
       (RPM_e (environment testAirScrew_v2)) V (Ro_e (environment testAirScrew_v2))
       (AX_CY_b (aerodynamics testAirScrew_v2)) (CY_b (aerodynamics testAirScrew_v2))
       (CX_b (aerodynamics testAirScrew_v2)) (VX_g (geometry testAirScrew_v2))
       (dAVX_g (geometry testAirScrew_v2))"

text \<open>
  The first test configuration with the ends of the speed range exchanged.
\<close>

definition testAirScrew_reversed :: "aerodynamics_v1 initData" where
  "testAirScrew_reversed =
     testAirScrew_v1\<lparr>environment := (environment testAirScrew_v1)\<lparr>v0_e := Fin 45, v1_e := Fin 0\<rparr>\<rparr>"

text \<open>
  Small inputs for hand evaluation: a blade of two sections with tip radius 1, unit
  section area, no twist, lift coefficient 1 and drag coefficient 1 at every angle, and
  \<open>nb\<close> blades; and a configuration with no blade, one radial station at 0 and no speed
  step.
\<close>

definition unitScrew_v1 :: "nat \<Rightarrow> aerodynamics_v1 initData" where
  "unitScrew_v1 nb =
     \<lparr>geometry = \<lparr>nBlade_g = nb, RX_g = [Fin 0, Fin 1], SX_g = [Fin 1, Fin 1],
                   AX_g = [Fin 0, Fin 0], VX_g = [], dAVX_g = []\<rparr>,
      aerodynamics = \<lparr>AX_CY_a = [Fin (- 200), Fin 200], Cx0_a = Fin 1,
                       CY_a = [Fin 1, Fin 1], POLAR_a = [Fin 0, Fin 0]\<rparr>,
      environment = \<lparr>RPM_e = Fin 1, v0_e = Fin 1, v1_e = Fin 2, nV_e = 1, Ro_e = Fin 2\<rparr>\<rparr>"

definition unitScrew_v2 :: "nat \<Rightarrow> aerodynamics_v2 initData" where
  "unitScrew_v2 nb =
     \<lparr>geometry = \<lparr>nBlade_g = nb, RX_g = [Fin 0, Fin 1], SX_g = [Fin 1, Fin 1],
                   AX_g = [Fin 0, Fin 0], VX_g = [], dAVX_g = []\<rparr>,
      aerodynamics = \<lparr>AX_CY_b = [Fin (- 200), Fin 200], CY_b = [Fin 1, Fin 1],
                       CX_b = [Fin 1, Fin 1]\<rparr>,
      environment = \<lparr>RPM_e = Fin 60, v0_e = Fin 1, v1_e = Fin 2, nV_e = 1, Ro_e = Fin 2\<rparr>\<rparr>"

definition degenerateScrew :: "aerodynamics_v1 initData" where
  "degenerateScrew =
     \<lparr>geometry = \<lparr>nBlade_g = 0, RX_g = [Fin 0], SX_g = [Fin 1],
                   AX_g = [Fin 0], VX_g = [], dAVX_g = []\<rparr>,
      aerodynamics = \<lparr>AX_CY_a = [Fin (- 90), Fin 90], Cx0_a = Fin 0,
                       CY_a = [Fin (- 1), Fin 1], POLAR_a = [Fin 0, Fin 0]\<rparr>,
      environment = \<lparr>RPM_e = Fin 1, v0_e = Fin 0, v1_e = Fin 0, nV_e = 0, Ro_e = Fin 1\<rparr>\<rparr>"

text \<open>
  Inputs for evaluation in binary64 arithmetic: the two-section blade above at
  rotational speed 1 with \<open>nb\<close> blades, swept from 0 to 1 m/s in ten steps; and the same
  airscrew swept from \<open>2 ^ 53\<close> to \<open>2 ^ 53 + 2\<close> m/s in two steps.
\<close>

definition staticScrew :: "nat \<Rightarrow> aerodynamics_v1 initData" where
  "staticScrew nb =
     \<lparr>geometry = \<lparr>nBlade_g = nb, RX_g = [Fin 0, Fin 1], SX_g = [Fin 1, Fin 1],
                   AX_g = [Fin 0, Fin 0], VX_g = [], dAVX_g = []\<rparr>,
      aerodynamics = \<lparr>AX_CY_a = [Fin (- 90), Fin 90], Cx0_a = Fin 1,
                       CY_a = [Fin 1, Fin 1], POLAR_a = [Fin 0, Fin 0]\<rparr>,
      environment = \<lparr>RPM_e = Fin 1, v0_e = Fin 0, v1_e = Fin 1, nV_e = 10, Ro_e = Fin 2\<rparr>\<rparr>"

definition largeSpeedScrew :: "aerodynamics_v1 initData" where
  "largeSpeedScrew =
     (staticScrew 1)\<lparr>environment :=
        \<lparr>RPM_e = Fin 1, v0_e = Fin 9007199254740992, v1_e = Fin 9007199254740994,
         nV_e = 2, Ro_e = Fin 2\<rparr>\<rparr>"

section \<open>Facts about the arithmetic\<close>

lemma js_add_defined: "js_add a b \<noteq> Undefined"
  by (cases a; cases b) auto

section \<open>Facts about interp\<close>

lemma js_nth_map_Fin: "i < length xs \<Longrightarrow> js_nth (map Fin xs) i = Fin (xs ! i)"
  by (simp add: js_nth_def)

lemma js_sub_Fin: "js_sub (Fin a) (Fin b) = Fin (a - b)"
  by (simp add: js_sub_def)

lemma interp_loop_none:
  "(\<And>j. i \<le> j \<Longrightarrow> j < length VX \<Longrightarrow> \<not> js_gt (js_nth VX (j + 1)) X)
   \<Longrightarrow> interp_loop VX VY X i (i + 1) = Undefined"
proof (induction "length VX - i" arbitrary: i)
  case 0
  then show ?case by simp
next
  case (Suc n)
  have lt: "i < length VX" using Suc.hyps(2) by simp
  have no: "\<not> js_gt (js_nth VX (i + 1)) X" using Suc.prems[of i] lt by simp
  have "interp_loop VX VY X (i + 1) (i + 1 + 1) = Undefined"
    using Suc.hyps(2) Suc.prems by (intro Suc.hyps(1)) auto
  then show ?case using lt no by simp
qed

lemma interp_loop_found:
  "i \<le> j \<Longrightarrow> j < length VX \<Longrightarrow> js_gt (js_nth VX (j + 1)) X
   \<Longrightarrow> (\<And>m. i \<le> m \<Longrightarrow> m < j \<Longrightarrow> \<not> js_gt (js_nth VX (m + 1)) X)
   \<Longrightarrow> interp_loop VX VY X i (i + 1) =
       js_add (js_nth VY j)
         (js_mul (js_div (js_sub (js_nth VY (j + 1)) (js_nth VY j))
                         (js_sub (js_nth VX (j + 1)) (js_nth VX j)))
                 (js_sub X (js_nth VX j)))"
proof (induction "j - i" arbitrary: i)
  case 0
  then have "i = j" by simp
  then show ?case using 0 by (simp add: Let_def)
next
  case (Suc n)
  have lt: "i < j" using Suc.hyps(2) by simp
  have no: "\<not> js_gt (js_nth VX (i + 1)) X" using Suc.prems(4)[of i] lt by simp
  have "interp_loop VX VY X (i + 1) (i + 1 + 1) =
       js_add (js_nth VY j)
         (js_mul (js_div (js_sub (js_nth VY (j + 1)) (js_nth VY j))
                         (js_sub (js_nth VX (j + 1)) (js_nth VX j)))
                 (js_sub X (js_nth VX j)))"
    using Suc.hyps(2) Suc.prems by (intro Suc.hyps(1)) auto
  then show ?case using lt no Suc.prems(2) by simp
qed

lemma interp_undefined_iff:
  "interp VX VY X = Undefined \<longleftrightarrow> (\<forall>j < length VX. \<not> js_gt (js_nth VX (j + 1)) X)"
proof
  assume u: "interp VX VY X = Undefined"
  show "\<forall>j < length VX. \<not> js_gt (js_nth VX (j + 1)) X"
  proof (rule ccontr)
    assume "\<not> ?thesis"
    then obtain j where j: "j < length VX \<and> js_gt (js_nth VX (j + 1)) X" by blast
    define k where "k = (LEAST j. j < length VX \<and> js_gt (js_nth VX (j + 1)) X)"
    have k: "k < length VX \<and> js_gt (js_nth VX (k + 1)) X"
      unfolding k_def using j by (rule LeastI)
    have m: "\<And>m. m < k \<Longrightarrow> \<not> (m < length VX \<and> js_gt (js_nth VX (m + 1)) X)"
      unfolding k_def by (rule not_less_Least)
    have "interp_loop VX VY X 0 (0 + 1) \<noteq> Undefined"
      using k m by (subst interp_loop_found[of 0 k]) (auto simp: js_add_defined)
    then show False using u by (simp add: interp_def)
  qed
next
  assume "\<forall>j < length VX. \<not> js_gt (js_nth VX (j + 1)) X"
  then have "interp_loop VX VY X 0 (0 + 1) = Undefined"
    by (intro interp_loop_none) auto
  then show "interp VX VY X = Undefined" by (simp add: interp_def)
qed

lemma sorted_wrt_nth_less:
  "sorted_wrt (<) (xs::real list) \<Longrightarrow> i < j \<Longrightarrow> j < length xs \<Longrightarrow> xs ! i < xs ! j"
  by (simp add: sorted_wrt_iff_nth_less)

lemma interp_Fin_first:
  assumes "sorted_wrt (<) xs" "length ys = length xs"
    and "i + 1 < length xs" "q < xs ! (i + 1)" "\<And>j. j < i \<Longrightarrow> xs ! (j + 1) \<le> q"
  shows "interp (map Fin xs) (map Fin ys) (Fin q) =
         Fin (ys ! i + (ys ! (i + 1) - ys ! i) / (xs ! (i + 1) - xs ! i) * (q - xs ! i))"
proof -
  have ne: "xs ! (i + 1) - xs ! i \<noteq> 0"
    using sorted_wrt_nth_less[OF assms(1), of i "i + 1"] assms(3) by simp
  have "interp_loop (map Fin xs) (map Fin ys) (Fin q) 0 (0 + 1) =
       js_add (js_nth (map Fin ys) i)
         (js_mul (js_div (js_sub (js_nth (map Fin ys) (i + 1)) (js_nth (map Fin ys) i))
                         (js_sub (js_nth (map Fin xs) (i + 1)) (js_nth (map Fin xs) i)))
                 (js_sub (Fin q) (js_nth (map Fin xs) i)))"
  proof (rule interp_loop_found)
    show "0 \<le> i" by simp
    show "i < length (map Fin xs)" using assms(3) by simp
    show "js_gt (js_nth (map Fin xs) (i + 1)) (Fin q)"
      using assms(3,4) by (simp add: js_nth_map_Fin)
    fix m assume "m < i"
    then show "\<not> js_gt (js_nth (map Fin xs) (m + 1)) (Fin q)"
      using assms(3) assms(5)[of m] by (simp add: js_nth_map_Fin)
  qed
  then show ?thesis
    using assms(2,3) ne by (simp add: interp_def js_nth_map_Fin js_sub_Fin)
qed

lemma first_segment_exists:
  assumes "2 \<le> length (xs::real list)" "q < last xs"
  shows "\<exists>i. i + 1 < length xs \<and> q < xs ! (i + 1) \<and> (\<forall>j<i. xs ! (j + 1) \<le> q)"
proof -
  let ?P = "\<lambda>i. i + 1 < length xs \<and> q < xs ! (i + 1)"
  have "xs \<noteq> []" using assms(1) by auto
  moreover have "length xs - 2 + 1 = length xs - 1" using assms(1) by arith
  ultimately have "last xs = xs ! (length xs - 2 + 1)"
    by (simp add: last_conv_nth)
  then have ex: "?P (length xs - 2)" using assms by simp
  define k where "k = (LEAST i. ?P i)"
  have k: "?P k" unfolding k_def using ex by (rule LeastI)
  have "\<And>j. j < k \<Longrightarrow> \<not> ?P j" unfolding k_def by (rule not_less_Least)
  then have "\<forall>j<k. xs ! (j + 1) \<le> q" using k by (auto simp: not_less)
  then show ?thesis using k by blast
qed

section \<open>The claims about interp\<close>

text \<open>
  Claim C3. For a breakpoint table with strictly increasing x-values, at least two
  points and as many y-values, and a query \<open>q\<close> strictly below the last breakpoint,
  \<^verbatim>\<open>interp\<close> returns \<open>y[i] + (y[i+1] - y[i]) / (x[i+1] - x[i]) * (q - x[i])\<close> at the first
  index \<open>i\<close> with \<open>x[i+1] > q\<close>; a query below \<open>x[1]\<close> uses the indices 0 and 1. The
  witness is the table \<open>x = [0, 1]\<close>, \<open>y = [0, 10]\<close>: 5 at 0.5 and 0 at 0.
\<close>

theorem interp_first_segment:
  assumes "sorted_wrt (<) xs" "2 \<le> length xs" "length ys = length xs" "q < last xs"
  shows "(\<exists>i. i + 1 < length xs \<and> q < xs ! (i + 1) \<and> (\<forall>j<i. xs ! (j + 1) \<le> q) \<and>
            interp (map Fin xs) (map Fin ys) (Fin q) =
            Fin (ys ! i + (ys ! (i + 1) - ys ! i) / (xs ! (i + 1) - xs ! i) * (q - xs ! i))) \<and>
         (q < xs ! 1 \<longrightarrow>
            interp (map Fin xs) (map Fin ys) (Fin q) =
            Fin (ys ! 0 + (ys ! 1 - ys ! 0) / (xs ! 1 - xs ! 0) * (q - xs ! 0)))"
proof
  obtain i where i: "i + 1 < length xs" "q < xs ! (i + 1)" "\<forall>j<i. xs ! (j + 1) \<le> q"
    using first_segment_exists[OF assms(2,4)] by blast
  have "interp (map Fin xs) (map Fin ys) (Fin q) =
        Fin (ys ! i + (ys ! (i + 1) - ys ! i) / (xs ! (i + 1) - xs ! i) * (q - xs ! i))"
    using i by (intro interp_Fin_first[OF assms(1,3)]) auto
  then show "\<exists>i. i + 1 < length xs \<and> q < xs ! (i + 1) \<and> (\<forall>j<i. xs ! (j + 1) \<le> q) \<and>
            interp (map Fin xs) (map Fin ys) (Fin q) =
            Fin (ys ! i + (ys ! (i + 1) - ys ! i) / (xs ! (i + 1) - xs ! i) * (q - xs ! i))"
    using i by blast
next
  show "q < xs ! 1 \<longrightarrow>
            interp (map Fin xs) (map Fin ys) (Fin q) =
            Fin (ys ! 0 + (ys ! 1 - ys ! 0) / (xs ! 1 - xs ! 0) * (q - xs ! 0))"
  proof
    assume "q < xs ! 1"
    then show "interp (map Fin xs) (map Fin ys) (Fin q) =
            Fin (ys ! 0 + (ys ! 1 - ys ! 0) / (xs ! 1 - xs ! 0) * (q - xs ! 0))"
      using interp_Fin_first[OF assms(1,3), of 0 q] assms(2) by simp
  qed
qed

theorem interp_first_segment_witness:
  "sorted_wrt (<) [0, 1 :: real] \<and> 2 \<le> length [0, 1 :: real] \<and>
   length [0, 10 :: real] = length [0, 1 :: real] \<and> (1 / 2 :: real) < last [0, 1] \<and>
   (0 :: real) < last [0, 1] \<and>
   interp [Fin 0, Fin 1] [Fin 0, Fin 10] (Fin (1 / 2)) = Fin 5 \<and>
   interp [Fin 0, Fin 1] [Fin 0, Fin 10] (Fin 0) = Fin 0"
  using interp_first_segment[of "[0, 1]" "[0, 10]" "1 / 2"]
        interp_first_segment[of "[0, 1]" "[0, 10]" 0]
  by simp

text \<open>
  Claim C4, amended. For a breakpoint table with strictly increasing x-values, at least
  two points and as many y-values, \<^verbatim>\<open>interp\<close> returns \<^verbatim>\<open>undefined\<close> exactly when the
  query is greater than or equal to the last breakpoint, and a finite number for every
  query strictly below it. At the last breakpoint itself there is no value: the test
  \<^verbatim>\<open>VX[i1] > X\<close> is strict.
\<close>

theorem interp_no_value_iff:
  assumes "sorted_wrt (<) xs" "2 \<le> length xs" "length ys = length xs"
  shows "(interp (map Fin xs) (map Fin ys) (Fin q) = Undefined \<longleftrightarrow> last xs \<le> q) \<and>
         (q < last xs \<longrightarrow> (\<exists>r. interp (map Fin xs) (map Fin ys) (Fin q) = Fin r))"
proof -
  have fin: "\<exists>r. interp (map Fin xs) (map Fin ys) (Fin q) = Fin r" if lt: "q < last xs"
  proof -
    obtain i where i: "i + 1 < length xs" "q < xs ! (i + 1)" "\<forall>j<i. xs ! (j + 1) \<le> q"
      using first_segment_exists[OF assms(2) lt] by blast
    then show ?thesis
      using interp_Fin_first[OF assms(1,3), of i q] by auto
  qed
  have und: "interp (map Fin xs) (map Fin ys) (Fin q) = Undefined" if "last xs \<le> q"
  proof -
    have "\<not> js_gt (js_nth (map Fin xs) (j + 1)) (Fin q)" for j
    proof (cases "j + 1 < length xs")
      case True
      have "xs ! (j + 1) \<le> xs ! (length xs - 1)"
      proof (cases "j + 1 = length xs - 1")
        case True
        then show ?thesis by simp
      next
        case False
        then have "j + 1 < length xs - 1" using \<open>j + 1 < length xs\<close> by arith
        then have "xs ! (j + 1) < xs ! (length xs - 1)"
          by (intro sorted_wrt_nth_less[OF assms(1)]) auto
        then show ?thesis by simp
      qed
      moreover have "last xs = xs ! (length xs - 1)"
        using True by (intro last_conv_nth) auto
      ultimately show ?thesis using that True by (simp add: js_nth_map_Fin)
    next
      case False
      then show ?thesis by (simp add: js_nth_def)
    qed
    then show ?thesis by (simp add: interp_undefined_iff)
  qed
  show ?thesis using fin und by (metis jsval.distinct(7) not_le)
qed

text \<open>
  The claim C4 as stated fails at the last breakpoint: 1 does not exceed the last
  breakpoint of \<open>x = [0, 1]\<close>, and \<^verbatim>\<open>interp\<close> returns \<^verbatim>\<open>undefined\<close> there.
\<close>

theorem interp_last_breakpoint_counterexample:
  "\<not> (1 :: real) > last [0, 1] \<and> interp [Fin 0, Fin 1] [Fin 0, Fin 10] (Fin 1) = Undefined"
  by (simp add: interp_def js_nth_def)

theorem interp_no_value_iff_witness:
  "sorted_wrt (<) [0, 1, 2 :: real] \<and> 2 \<le> length [0, 1, 2 :: real] \<and>
   length [5, 7, 9 :: real] = length [0, 1, 2 :: real] \<and>
   interp [Fin 0, Fin 1, Fin 2] [Fin 5, Fin 7, Fin 9] (Fin 2) = Undefined \<and>
   interp [Fin 0, Fin 1, Fin 2] [Fin 5, Fin 7, Fin 9] (Fin 3) = Undefined \<and>
   (\<exists>r. interp [Fin 0, Fin 1, Fin 2] [Fin 5, Fin 7, Fin 9] (Fin (3 / 2)) = Fin r)"
  using interp_no_value_iff[of "[0, 1, 2]" "[5, 7, 9]" 2]
        interp_no_value_iff[of "[0, 1, 2]" "[5, 7, 9]" 3]
        interp_no_value_iff[of "[0, 1, 2]" "[5, 7, 9]" "3 / 2"]
  by simp

section \<open>getSpeedDistribution and getSingleBladeForces\<close>

lemma length_speed_loop: "length (speed_loop omega v0 dR n localR) = n"
  by (induction n arbitrary: localR) (simp_all add: Let_def)

lemma forces_loop_fst: "fst (forces_loop body ss (fd, tot)) = fd @ map body ss"
  by (induction ss arbitrary: fd tot) (simp_all add: Let_def)

lemma forces_loop_totalDrag:
  "totalDrag tot = Fin 0 \<Longrightarrow> totalDrag (snd (forces_loop body ss (fd, tot))) = Fin 0"
  by (induction ss arbitrary: fd tot) (simp_all add: Let_def)

lemma forces_loop_totalThrust:
  "totalThrust (snd (forces_loop body ss (fd, tot))) =
   foldl js_add (totalThrust tot) (map (\<lambda>s. thrust (body s)) ss)"
  by (induction ss arbitrary: fd tot) (simp_all add: Let_def)

lemma forces_loop_totalTorque:
  "totalTorque (snd (forces_loop body ss (fd, tot))) =
   foldl js_add (totalTorque tot) (map (\<lambda>s. torque (body s)) ss)"
  by (induction ss arbitrary: fd tot) (simp_all add: Let_def)

text \<open>
  Claim C1. In both program variants the summary returned by \<^verbatim>\<open>getSingleBladeForces\<close>
  has \<^verbatim>\<open>totalDrag\<close> equal to 0, whatever the input: the accumulator starts at 0 and
  every iteration adds it to itself.
\<close>

theorem totalDrag_always_zero:
  "totalDrag (summary (getSingleBladeForces_v1 RX AX SX Cx0 RPM v0 Ro AX_CY CY POLAR VX dAVX)) = Fin 0 \<and>
   totalDrag (summary (getSingleBladeForces_v2 RX AX SX RPM v0 Ro AX_CY CY CX VX dAVX)) = Fin 0"
  by (simp add: getSingleBladeForces_v1_def getSingleBladeForces_v2_def Let_def
      forces_loop_totalDrag init_totals_def)

lemma omega_convention:
  "js_div (js_mul (Fin c) (js_mul (Fin 60) RPM)) (Fin 60) = js_mul (Fin c) RPM"
  by (cases RPM) (simp_all add: inf_times_def)












section \<open>Facts about the sweep\<close>

lemma length_sweep_loop: "length (sweep_loop blade nBlade Ro omega area dV n V) = n"
  by (induction n arbitrary: V) (simp_all add: Let_def)

lemma sweep_loop_V:
  "i < n \<Longrightarrow> V_sp (sweep_loop blade nBlade Ro omega area (Fin d) n (Fin a) ! i) =
     Fin ((a + real i * d) * 3.6)"
proof (induction n arbitrary: a i)
  case 0
  then show ?case by simp
next
  case (Suc n)
  show ?case
  proof (cases i)
    case 0
    then show ?thesis by (simp add: Let_def)
  next
    case (Suc j)
    then have "j < n" using Suc.prems by simp
    then have "V_sp (sweep_loop blade nBlade Ro omega area (Fin d) n (Fin (a + d)) ! j) =
       Fin ((a + d + real j * d) * 3.6)"
      by (rule Suc.IH)
    then show ?thesis using Suc by (simp add: Let_def algebra_simps)
  qed
qed

lemma sweep_v1:
  "getSpeedThrustPerformance_v1 cfg =
   sweep_loop
     (\<lambda>V. getSingleBladeForces_v1 (RX_g (geometry cfg)) (AX_g (geometry cfg)) (SX_g (geometry cfg))
            (Cx0_a (aerodynamics cfg)) (RPM_e (environment cfg)) V (Ro_e (environment cfg))
            (AX_CY_a (aerodynamics cfg)) (CY_a (aerodynamics cfg)) (POLAR_a (aerodynamics cfg))
            (VX_g (geometry cfg)) (dAVX_g (geometry cfg)))
     (nBlade_g (geometry cfg)) (Ro_e (environment cfg))
     (js_mul (js_mul (Fin 2) (Fin pi)) (RPM_e (environment cfg)))
     (js_mul (js_mul (Fin pi) (js_last (RX_g (geometry cfg)))) (js_last (RX_g (geometry cfg))))
     (js_div (js_sub (v1_e (environment cfg)) (v0_e (environment cfg)))
             (Fin (real (nV_e (environment cfg)))))
     (nV_e (environment cfg) + 1) (v0_e (environment cfg))"
  by (simp add: getSpeedThrustPerformance_v1_def Let_def del: js_mul.simps)

lemma sweep_v2:
  "getSpeedThrustPerformance_v2 cfg =
   sweep_loop
     (\<lambda>V. getSingleBladeForces_v2 (RX_g (geometry cfg)) (AX_g (geometry cfg)) (SX_g (geometry cfg))
            (RPM_e (environment cfg)) V (Ro_e (environment cfg))
            (AX_CY_b (aerodynamics cfg)) (CY_b (aerodynamics cfg)) (CX_b (aerodynamics cfg))
            (VX_g (geometry cfg)) (dAVX_g (geometry cfg)))
     (nBlade_g (geometry cfg)) (Ro_e (environment cfg))
     (js_div (js_mul (js_mul (Fin 2) (Fin pi)) (RPM_e (environment cfg))) (Fin 60))
     (js_mul (js_mul (Fin pi) (js_last (RX_g (geometry cfg)))) (js_last (RX_g (geometry cfg))))
     (js_div (js_sub (v1_e (environment cfg)) (v0_e (environment cfg)))
             (Fin (real (nV_e (environment cfg)))))
     (nV_e (environment cfg) + 1) (v0_e (environment cfg))"
  by (simp add: getSpeedThrustPerformance_v2_def Let_def del: js_mul.simps)

lemma sweep_speeds:
  assumes "P = sweep_loop blade nBlade Ro omega area (js_div (js_sub (Fin b) (Fin a)) (Fin (real n)))
                 (n + 1) (Fin a)"
    and "1 \<le> n"
  shows "length P = n + 1"
    and "V_sp (P ! 0) = Fin (a * 3.6)"
    and "V_sp (P ! n) = Fin (b * 3.6)"
    and "i < n \<Longrightarrow> V_sp (P ! i) = Fin ((a + real i * ((b - a) / real n)) * 3.6) \<and>
          V_sp (P ! (i + 1)) = Fin ((a + real i * ((b - a) / real n) + (b - a) / real n) * 3.6)"
proof -
  have n0: "real n \<noteq> 0" using assms(2) by simp
  have P: "P = sweep_loop blade nBlade Ro omega area (Fin ((b - a) / real n)) (n + 1) (Fin a)"
    using assms(1) n0 by (simp add: js_sub_Fin)
  show "length P = n + 1" unfolding P by (rule length_sweep_loop)
  show "V_sp (P ! 0) = Fin (a * 3.6)"
    unfolding P using sweep_loop_V[of 0 "n + 1"] by simp
  have "V_sp (P ! n) = Fin ((a + real n * ((b - a) / real n)) * 3.6)"
    unfolding P by (rule sweep_loop_V) simp
  then show "V_sp (P ! n) = Fin (b * 3.6)" using n0 by simp
  show "V_sp (P ! i) = Fin ((a + real i * ((b - a) / real n)) * 3.6) \<and>
          V_sp (P ! (i + 1)) = Fin ((a + real i * ((b - a) / real n) + (b - a) / real n) * 3.6)"
    if "i < n"
  proof -
    have "V_sp (P ! i) = Fin ((a + real i * ((b - a) / real n)) * 3.6)"
      unfolding P using that by (intro sweep_loop_V) simp
    moreover have "V_sp (P ! (i + 1)) = Fin ((a + real (i + 1) * ((b - a) / real n)) * 3.6)"
      unfolding P using that by (intro sweep_loop_V) simp
    moreover have "a + real (i + 1) * d = a + real i * d + d" for d :: real
      by (simp add: algebra_simps)
    ultimately show ?thesis by (simp only:)
  qed
qed

lemma sweep_speeds_order:
  assumes "P = sweep_loop blade nBlade Ro omega area (js_div (js_sub (Fin b) (Fin a)) (Fin (real n)))
                 (n + 1) (Fin a)"
    and "1 \<le> n"
  shows "length P = n + 1 \<and> V_sp (P ! 0) = Fin (a * 3.6) \<and> V_sp (P ! n) = Fin (b * 3.6) \<and>
         (\<forall>i<n. \<exists>x y. V_sp (P ! i) = Fin (x * 3.6) \<and> V_sp (P ! (i + 1)) = Fin (y * 3.6) \<and>
                   y - x = (b - a) / real n \<and>
                   (a \<le> b \<longrightarrow> x \<le> y) \<and> (a < b \<longrightarrow> x < y) \<and> (b < a \<longrightarrow> y < x))"
proof -
  have step: "a \<le> b \<longrightarrow> 0 \<le> (b - a) / real n" "a < b \<longrightarrow> 0 < (b - a) / real n"
    "b < a \<longrightarrow> (b - a) / real n < 0"
    using assms(2) by (simp_all add: divide_less_0_iff)
  have "\<exists>x y. V_sp (P ! i) = Fin (x * 3.6) \<and> V_sp (P ! (i + 1)) = Fin (y * 3.6) \<and>
                   y - x = (b - a) / real n \<and>
                   (a \<le> b \<longrightarrow> x \<le> y) \<and> (a < b \<longrightarrow> x < y) \<and> (b < a \<longrightarrow> y < x)" if "i < n" for i
    using sweep_speeds(4)[OF assms(1,2) that] step
    by (intro exI[of _ "a + real i * ((b - a) / real n)"]
              exI[of _ "a + real i * ((b - a) / real n) + (b - a) / real n"]) simp
  then show ?thesis
    using sweep_speeds(1,2,3)[OF assms(1,2)] by blast
qed

lemma js_mul_scale_assoc:
  "0 < k \<Longrightarrow> js_mul a (Fin (x * k)) = js_mul (js_mul a (Fin x)) (Fin k)"
  by (cases a) (auto simp: inf_times_def zero_less_mult_iff mult_less_0_iff)

lemma js_mul_scale_commute:
  "0 < k \<Longrightarrow> js_mul (js_mul a (Fin k)) w = js_mul (js_mul a w) (Fin k)"
  by (cases a; cases w)
     (auto simp: inf_times_def zero_less_mult_iff mult_less_0_iff not_less)

lemma js_div_scale_num:
  "0 < k \<Longrightarrow> js_div (js_mul t (Fin k)) d = js_mul (js_div t d) (Fin k)"
  by (cases t; cases d)
     (auto simp: inf_times_def zero_less_mult_iff mult_less_0_iff not_less)

lemma js_div_scale_both:
  "0 < k \<Longrightarrow> js_div (js_mul t (Fin k)) (js_mul p (Fin k)) = js_div t p"
  by (cases t; cases p)
     (auto simp: inf_times_def zero_less_mult_iff mult_less_0_iff not_less
        zero_le_mult_iff)

lemma sweep_loop_scale:
  assumes "0 < k"
  shows "map V_sp (sweep_loop blade (nB * k) Ro om area dV n V) =
         map V_sp (sweep_loop blade nB Ro om area dV n V)"
    and "map thrust_sp (sweep_loop blade (nB * k) Ro om area dV n V) =
         map (\<lambda>p. js_mul (thrust_sp p) (Fin (real k))) (sweep_loop blade nB Ro om area dV n V)"
    and "map torque_sp (sweep_loop blade (nB * k) Ro om area dV n V) =
         map (\<lambda>p. js_mul (torque_sp p) (Fin (real k))) (sweep_loop blade nB Ro om area dV n V)"
    and "map power_sp (sweep_loop blade (nB * k) Ro om area dV n V) =
         map (\<lambda>p. js_mul (power_sp p) (Fin (real k))) (sweep_loop blade nB Ro om area dV n V)"
    and "map thrustCoeff_sp (sweep_loop blade (nB * k) Ro om area dV n V) =
         map (\<lambda>p. js_mul (thrustCoeff_sp p) (Fin (real k)))
             (sweep_loop blade nB Ro om area dV n V)"
    and "map thrust2power_sp (sweep_loop blade (nB * k) Ro om area dV n V) =
         map thrust2power_sp (sweep_loop blade nB Ro om area dV n V)"
proof -
  have k: "0 < real k" using assms by simp
  note ar = js_mul_scale_assoc[OF k] js_mul_scale_commute[OF k] js_div_scale_num[OF k]
    js_div_scale_both[OF k]
  show "map V_sp (sweep_loop blade (nB * k) Ro om area dV n V) =
         map V_sp (sweep_loop blade nB Ro om area dV n V)"
    by (induction n arbitrary: V) (simp_all add: Let_def)
  show "map thrust_sp (sweep_loop blade (nB * k) Ro om area dV n V) =
         map (\<lambda>p. js_mul (thrust_sp p) (Fin (real k))) (sweep_loop blade nB Ro om area dV n V)"
    by (induction n arbitrary: V) (simp_all add: Let_def ar)
  show "map torque_sp (sweep_loop blade (nB * k) Ro om area dV n V) =
         map (\<lambda>p. js_mul (torque_sp p) (Fin (real k))) (sweep_loop blade nB Ro om area dV n V)"
    by (induction n arbitrary: V) (simp_all add: Let_def ar)
  show "map power_sp (sweep_loop blade (nB * k) Ro om area dV n V) =
         map (\<lambda>p. js_mul (power_sp p) (Fin (real k))) (sweep_loop blade nB Ro om area dV n V)"
    by (induction n arbitrary: V) (simp_all add: Let_def ar)
  show "map thrustCoeff_sp (sweep_loop blade (nB * k) Ro om area dV n V) =
         map (\<lambda>p. js_mul (thrustCoeff_sp p) (Fin (real k)))
             (sweep_loop blade nB Ro om area dV n V)"
    by (induction n arbitrary: V) (simp_all add: Let_def ar)
  show "map thrust2power_sp (sweep_loop blade (nB * k) Ro om area dV n V) =
         map thrust2power_sp (sweep_loop blade nB Ro om area dV n V)"
    by (induction n arbitrary: V)
       (simp_all add: Let_def js_mul_scale_assoc[OF k] js_mul_scale_commute[OF k]
          js_div_scale_both[OF k])
qed

section \<open>Facts about absent values\<close>

lemma js_add_NaN: "js_add a NaN = NaN" "js_add NaN a = NaN"
  "js_add a Undefined = NaN" "js_add Undefined a = NaN"
  by (cases a; simp)+

lemma js_mul_NaN: "js_mul a NaN = NaN" "js_mul NaN a = NaN"
  "js_mul a Undefined = NaN" "js_mul Undefined a = NaN"
  by (cases a; simp)+

lemma js_gt_NaN: "\<not> js_gt a NaN"
  by (cases a) simp_all

lemma interp_NaN: "interp VX VY NaN = Undefined"
  by (simp add: interp_undefined_iff js_gt_NaN)

lemma interp_undefined_table:
  "interp VX VY X = Undefined \<Longrightarrow> interp VX VZ X = Undefined"
  by (simp add: interp_undefined_iff)

lemma foldl_js_add_NaN: "foldl js_add NaN xs = NaN"
  by (induction xs) (simp_all add: js_add_NaN)

lemma foldl_js_add_mem_NaN: "NaN \<in> set xs \<Longrightarrow> foldl js_add a xs = NaN"
proof (induction xs arbitrary: a)
  case Nil
  then show ?case by simp
next
  case (Cons x xs)
  show ?case
  proof (cases "x = NaN")
    case True
    then show ?thesis by (simp add: js_add_NaN foldl_js_add_NaN)
  next
    case False
    then show ?thesis using Cons by simp
  qed
qed

lemma section_force_v1_undefined:
  assumes "interp RX SX (range_s s) = Undefined \<or> interp RX AX (range_s s) = Undefined \<or>
           dAlpha = Undefined \<or>
           interp AX_CY CY (js_add (js_add (interp RX AX (range_s s)) (localAoA s)) dAlpha) = Undefined \<or>
           interp AX_CY POLAR (js_add (js_add (interp RX AX (range_s s)) (localAoA s)) dAlpha) = Undefined"
  shows "section_force_v1 RX AX SX Cx0 Ro AX_CY CY POLAR dAlpha s =
         \<lparr>thrust = NaN, drag = NaN, torque = NaN\<rparr>"
proof -
  consider (area) "interp RX SX (range_s s) = Undefined"
    | (coef) "interp AX_CY CY (js_add (js_add (interp RX AX (range_s s)) (localAoA s)) dAlpha) = Undefined"
    using assms by (auto simp: js_add_NaN interp_NaN intro: interp_undefined_table)
  then show ?thesis
  proof cases
    case area
    then show ?thesis by (simp add: section_force_v1_def Let_def js_mul_NaN)
  next
    case coef
    then have "interp AX_CY POLAR (js_add (js_add (interp RX AX (range_s s)) (localAoA s)) dAlpha) = Undefined"
      by (rule interp_undefined_table)
    then show ?thesis using coef by (simp add: section_force_v1_def Let_def js_mul_NaN js_add_NaN)
  qed
qed

lemma section_force_v2_undefined:
  assumes "interp RX SX (range_s s) = Undefined \<or> interp RX AX (range_s s) = Undefined \<or>
           dAlpha = Undefined \<or>
           interp AX_CY CY (js_add (js_add (interp RX AX (range_s s)) (localAoA s)) dAlpha) = Undefined \<or>
           interp AX_CY CX (js_add (js_add (interp RX AX (range_s s)) (localAoA s)) dAlpha) = Undefined"
  shows "section_force_v2 RX AX SX Ro AX_CY CY CX dAlpha s =
         \<lparr>thrust = NaN, drag = NaN, torque = NaN\<rparr>"
proof -
  consider (area) "interp RX SX (range_s s) = Undefined"
    | (coef) "interp AX_CY CY (js_add (js_add (interp RX AX (range_s s)) (localAoA s)) dAlpha) = Undefined"
    using assms by (auto simp: js_add_NaN interp_NaN intro: interp_undefined_table)
  then show ?thesis
  proof cases
    case area
    then show ?thesis by (simp add: section_force_v2_def Let_def js_mul_NaN)
  next
    case coef
    then have "interp AX_CY CX (js_add (js_add (interp RX AX (range_s s)) (localAoA s)) dAlpha) = Undefined"
      by (rule interp_undefined_table)
    then show ?thesis using coef by (simp add: section_force_v2_def Let_def js_mul_NaN js_add_NaN)
  qed
qed

lemma forces_loop_NaN:
  assumes "i < length ss" "body (ss ! i) = \<lparr>thrust = NaN, drag = NaN, torque = NaN\<rparr>"
  shows "fst (forces_loop body ss ([], init_totals)) ! i = \<lparr>thrust = NaN, drag = NaN, torque = NaN\<rparr>"
    and "totalThrust (snd (forces_loop body ss ([], init_totals))) = NaN"
    and "totalTorque (snd (forces_loop body ss ([], init_totals))) = NaN"
proof -
  show "fst (forces_loop body ss ([], init_totals)) ! i = \<lparr>thrust = NaN, drag = NaN, torque = NaN\<rparr>"
    using assms by (simp add: forces_loop_fst)
  have "thrust (body (ss ! i)) \<in> set (map (\<lambda>s. thrust (body s)) ss)"
    using assms(1) by (auto intro!: image_eqI[where x = "ss ! i"])
  then have "NaN \<in> set (map (\<lambda>s. thrust (body s)) ss)" using assms(2) by simp
  then show "totalThrust (snd (forces_loop body ss ([], init_totals))) = NaN"
    unfolding forces_loop_totalThrust by (rule foldl_js_add_mem_NaN)
  have "torque (body (ss ! i)) \<in> set (map (\<lambda>s. torque (body s)) ss)"
    using assms(1) by (auto intro!: image_eqI[where x = "ss ! i"])
  then have "NaN \<in> set (map (\<lambda>s. torque (body s)) ss)" using assms(2) by simp
  then show "totalTorque (snd (forces_loop body ss ([], init_totals))) = NaN"
    unfolding forces_loop_totalTorque by (rule foldl_js_add_mem_NaN)
qed

lemma speedDistribution_v1:
  "speedDistribution (getSingleBladeForces_v1 RX AX SX Cx0 RPM v0 Ro AX_CY CY POLAR VX dAVX) =
   getSpeedDistribution_v1 RPM (js_last RX) v0 (length RX)"
  by (simp add: getSingleBladeForces_v1_def Let_def)

lemma speedDistribution_v2:
  "speedDistribution (getSingleBladeForces_v2 RX AX SX RPM v0 Ro AX_CY CY CX VX dAVX) =
   getSpeedDistribution_v2 RPM (js_last RX) v0 (length RX)"
  by (simp add: getSingleBladeForces_v2_def Let_def)

lemma length_getSpeedDistribution:
  "length (getSpeedDistribution_v1 RPM R v0 N) = N"
  "length (getSpeedDistribution_v2 RPM R v0 N) = N"
  by (simp_all add: getSpeedDistribution_v1_def getSpeedDistribution_v2_def Let_def
      length_speed_loop)

lemma blade_v1_undefined:
  assumes "i < length RX"
    and "B = getSingleBladeForces_v1 RX AX SX Cx0 RPM v0 Ro AX_CY CY POLAR VX dAVX"
    and "section_force_v1 RX AX SX Cx0 Ro AX_CY CY POLAR
           (if length VX \<noteq> 0 then interp VX dAVX v0 else Fin 0) (speedDistribution B ! i) =
         \<lparr>thrust = NaN, drag = NaN, torque = NaN\<rparr>"
  shows "forceDistribution B ! i = \<lparr>thrust = NaN, drag = NaN, torque = NaN\<rparr> \<and>
         totalThrust (summary B) = NaN \<and> totalTorque (summary B) = NaN"
proof -
  have i: "i < length (getSpeedDistribution_v1 RPM (js_last RX) v0 (length RX))"
    using assms(1) by (simp add: length_getSpeedDistribution)
  have b: "section_force_v1 RX AX SX Cx0 Ro AX_CY CY POLAR
           (if length VX \<noteq> 0 then interp VX dAVX v0 else Fin 0)
           (getSpeedDistribution_v1 RPM (js_last RX) v0 (length RX) ! i) =
         \<lparr>thrust = NaN, drag = NaN, torque = NaN\<rparr>"
    using assms(3) unfolding assms(2) speedDistribution_v1 .
  show ?thesis
    unfolding assms(2) getSingleBladeForces_v1_def Let_def
    using forces_loop_NaN[of i "getSpeedDistribution_v1 RPM (js_last RX) v0 (length RX)"
        "section_force_v1 RX AX SX Cx0 Ro AX_CY CY POLAR
           (if length VX \<noteq> 0 then interp VX dAVX v0 else Fin 0)", OF i b]
    by simp
qed

lemma blade_v2_undefined:
  assumes "i < length RX"
    and "B = getSingleBladeForces_v2 RX AX SX RPM v0 Ro AX_CY CY CX VX dAVX"
    and "section_force_v2 RX AX SX Ro AX_CY CY CX
           (if length VX \<noteq> 0 then interp VX dAVX v0 else Fin 0) (speedDistribution B ! i) =
         \<lparr>thrust = NaN, drag = NaN, torque = NaN\<rparr>"
  shows "forceDistribution B ! i = \<lparr>thrust = NaN, drag = NaN, torque = NaN\<rparr> \<and>
         totalThrust (summary B) = NaN \<and> totalTorque (summary B) = NaN"
proof -
  have i: "i < length (getSpeedDistribution_v2 RPM (js_last RX) v0 (length RX))"
    using assms(1) by (simp add: length_getSpeedDistribution)
  have b: "section_force_v2 RX AX SX Ro AX_CY CY CX
           (if length VX \<noteq> 0 then interp VX dAVX v0 else Fin 0)
           (getSpeedDistribution_v2 RPM (js_last RX) v0 (length RX) ! i) =
         \<lparr>thrust = NaN, drag = NaN, torque = NaN\<rparr>"
    using assms(3) unfolding assms(2) speedDistribution_v2 .
  show ?thesis
    unfolding assms(2) getSingleBladeForces_v2_def Let_def
    using forces_loop_NaN[of i "getSpeedDistribution_v2 RPM (js_last RX) v0 (length RX)"
        "section_force_v2 RX AX SX Ro AX_CY CY CX
           (if length VX \<noteq> 0 then interp VX dAVX v0 else Fin 0)", OF i b]
    by simp
qed

section \<open>Facts about the inputs\<close>

lemma testAirScrew_v1_pitch_300:
  "length (RX_g (geometry testAirScrew_v1)) = 11"
  "VX_g (geometry testAirScrew_v1) \<noteq> []"
  "js_last (VX_g (geometry testAirScrew_v1)) = Fin 275"
  "interp (VX_g (geometry testAirScrew_v1)) (dAVX_g (geometry testAirScrew_v1)) (Fin 300) = Undefined"
  by (simp_all add: testAirScrew_v1_def interp_def js_nth_def js_last_def)

lemma testAirScrew_v2_pitch_150:
  "length (RX_g (geometry testAirScrew_v2)) = 11"
  "VX_g (geometry testAirScrew_v2) \<noteq> []"
  "js_last (VX_g (geometry testAirScrew_v2)) = Fin 140"
  "interp (VX_g (geometry testAirScrew_v2)) (dAVX_g (geometry testAirScrew_v2)) (Fin 150) = Undefined"
  by (simp_all add: testAirScrew_v2_def interp_def js_nth_def js_last_def)

lemma testAirScrew_v1_env:
  "nV_e (environment testAirScrew_v1) = 15" "v0_e (environment testAirScrew_v1) = Fin 0"
  "v1_e (environment testAirScrew_v1) = Fin 45"
  by (simp_all add: testAirScrew_v1_def)

lemma testAirScrew_v2_env:
  "nV_e (environment testAirScrew_v2) = 15" "v0_e (environment testAirScrew_v2) = Fin 0"
  "v1_e (environment testAirScrew_v2) = Fin 60"
  by (simp_all add: testAirScrew_v2_def)

lemma aoa_below_200: "- (arctan x * 573 / 10) < 200"
  using arctan_bounded[of x] pi_less_4 by auto

lemma unitScrew_sqrt_args: "\<not> 1 + pi * pi / 4 < 0" "\<not> 1 + 9 * (pi * pi) / 4 < 0"
  by (simp_all add: not_less add_nonneg_nonneg)

lemma unitScrew_v1_thrustCoeff:
  "thrustCoeff_sp (getSpeedThrustPerformance_v1 (unitScrew_v1 nb) ! 0) =
     Fin ((2 + 5 * (pi * pi) / 2) * real nb / pi)"
  by (simp add: getSpeedThrustPerformance_v1_def unitScrew_v1_def getSingleBladeForces_v1_def
      getSpeedDistribution_v1_def Let_def numeral_2_eq_2 js_last_def js_nth_def
      section_force_v1_def interp_def init_totals_def js_sub_def aoa_below_200 unitScrew_sqrt_args)

section \<open>The claims about getSingleBladeForces under absent values\<close>

text \<open>
  Claim C2, amended. In both variants of \<^verbatim>\<open>getSingleBladeForces\<close> (\<open>D\<close> is the table
  \<open>POLAR\<close> of the first and \<open>CX\<close> of the second), when for a section \<open>i\<close> one of the
  interpolation queries (section area, twist, pitch correction, lift coefficient, drag or
  polar coefficient) has no value, the function still returns: that section's thrust,
  drag and torque are NaN, and so are the total thrust and the total torque. No error
  reaches the caller.
\<close>

theorem out_of_range_propagates_NaN:
  assumes "i < length RX"
    and "B = getSingleBladeForces_v1 RX AX SX Cx0 RPM v0 Ro AX_CY CY D VX dAVX \<or>
         B = getSingleBladeForces_v2 RX AX SX RPM v0 Ro AX_CY CY D VX dAVX"
    and "s = speedDistribution B ! i"
    and "dAlpha = (if length VX \<noteq> 0 then interp VX dAVX v0 else Fin 0)"
    and "totalAoA = js_add (js_add (interp RX AX (range_s s)) (localAoA s)) dAlpha"
    and "interp RX SX (range_s s) = Undefined \<or> interp RX AX (range_s s) = Undefined \<or>
         dAlpha = Undefined \<or> interp AX_CY CY totalAoA = Undefined \<or>
         interp AX_CY D totalAoA = Undefined"
  shows "forceDistribution B ! i = \<lparr>thrust = NaN, drag = NaN, torque = NaN\<rparr> \<and>
         totalThrust (summary B) = NaN \<and> totalTorque (summary B) = NaN"
  using assms(2)
proof
  assume B: "B = getSingleBladeForces_v1 RX AX SX Cx0 RPM v0 Ro AX_CY CY D VX dAVX"
  have "section_force_v1 RX AX SX Cx0 Ro AX_CY CY D dAlpha s =
         \<lparr>thrust = NaN, drag = NaN, torque = NaN\<rparr>"
    using assms(6) unfolding assms(5) by (rule section_force_v1_undefined)
  then show ?thesis
    unfolding assms(3,4) by (rule blade_v1_undefined[OF assms(1) B])
next
  assume B: "B = getSingleBladeForces_v2 RX AX SX RPM v0 Ro AX_CY CY D VX dAVX"
  have "section_force_v2 RX AX SX Ro AX_CY CY D dAlpha s =
         \<lparr>thrust = NaN, drag = NaN, torque = NaN\<rparr>"
    using assms(6) unfolding assms(5) by (rule section_force_v2_undefined)
  then show ?thesis
    unfolding assms(3,4) by (rule blade_v2_undefined[OF assms(1) B])
qed

text \<open>
  The claim C2 as stated fails on the first test configuration at forward speed 300,
  beyond the last breakpoint 275 of its pitch table: the call returns a summary of NaN
  totals.
\<close>

theorem out_of_range_silent_counterexample:
  "js_gt (Fin 300) (js_last (VX_g (geometry testAirScrew_v1))) \<and>
   forceDistribution (testBlade_v1 (Fin 300)) ! 0 = \<lparr>thrust = NaN, drag = NaN, torque = NaN\<rparr> \<and>
   summary (testBlade_v1 (Fin 300)) =
     \<lparr>totalThrust = NaN, totalDrag = Fin 0, totalTorque = NaN\<rparr>"
proof -
  have i: "0 < length (RX_g (geometry testAirScrew_v1))"
    by (simp add: testAirScrew_v1_pitch_300)
  have "section_force_v1 (RX_g (geometry testAirScrew_v1)) (AX_g (geometry testAirScrew_v1))
       (SX_g (geometry testAirScrew_v1)) (Cx0_a (aerodynamics testAirScrew_v1))
       (Ro_e (environment testAirScrew_v1))
       (AX_CY_a (aerodynamics testAirScrew_v1)) (CY_a (aerodynamics testAirScrew_v1))
       (POLAR_a (aerodynamics testAirScrew_v1))
       (if length (VX_g (geometry testAirScrew_v1)) \<noteq> 0
        then interp (VX_g (geometry testAirScrew_v1)) (dAVX_g (geometry testAirScrew_v1)) (Fin 300)
        else Fin 0)
       (speedDistribution (testBlade_v1 (Fin 300)) ! 0) =
       \<lparr>thrust = NaN, drag = NaN, torque = NaN\<rparr>"
    by (rule section_force_v1_undefined) (simp add: testAirScrew_v1_pitch_300)
  then have "forceDistribution (testBlade_v1 (Fin 300)) ! 0 =
        \<lparr>thrust = NaN, drag = NaN, torque = NaN\<rparr> \<and>
      totalThrust (summary (testBlade_v1 (Fin 300))) = NaN \<and>
      totalTorque (summary (testBlade_v1 (Fin 300))) = NaN"
    by (rule blade_v1_undefined[OF i testBlade_v1_def])
  moreover have "totalDrag (summary (testBlade_v1 (Fin 300))) = Fin 0"
    by (simp add: testBlade_v1_def getSingleBladeForces_v1_def Let_def forces_loop_totalDrag
        init_totals_def)
  moreover have "summary (testBlade_v1 (Fin 300)) =
     \<lparr>totalThrust = totalThrust (summary (testBlade_v1 (Fin 300))),
      totalDrag = totalDrag (summary (testBlade_v1 (Fin 300))),
      totalTorque = totalTorque (summary (testBlade_v1 (Fin 300)))\<rparr>"
    by simp
  ultimately show ?thesis by (simp add: testAirScrew_v1_pitch_300)
qed

theorem out_of_range_propagates_NaN_witness:
  "0 < length (RX_g (geometry testAirScrew_v2)) \<and>
   js_gt (Fin 150) (js_last (VX_g (geometry testAirScrew_v2))) \<and>
   interp (VX_g (geometry testAirScrew_v2)) (dAVX_g (geometry testAirScrew_v2)) (Fin 150) = Undefined \<and>
   forceDistribution (testBlade_v2 (Fin 150)) ! 0 = \<lparr>thrust = NaN, drag = NaN, torque = NaN\<rparr> \<and>
   totalThrust (summary (testBlade_v2 (Fin 150))) = NaN \<and>
   totalTorque (summary (testBlade_v2 (Fin 150))) = NaN"
proof -
  have i: "0 < length (RX_g (geometry testAirScrew_v2))"
    by (simp add: testAirScrew_v2_pitch_150)
  have d: "(if length (VX_g (geometry testAirScrew_v2)) \<noteq> 0
        then interp (VX_g (geometry testAirScrew_v2)) (dAVX_g (geometry testAirScrew_v2)) (Fin 150)
        else Fin 0) = Undefined"
    by (simp add: testAirScrew_v2_pitch_150)
  show ?thesis
    using i testAirScrew_v2_pitch_150(3,4)
      out_of_range_propagates_NaN[OF i disjI2[OF testBlade_v2_def] refl refl refl
        disjI2[OF disjI2[OF disjI1[OF d]]]]
    by simp
qed

section \<open>Facts about rounding to binary64\<close>

lemma rne_eq: "of_int m - 1 / 2 < y \<Longrightarrow> y < of_int m + 1 / 2 \<Longrightarrow> rne y = m"
proof -
  assume a: "of_int m - 1 / 2 < y" "y < of_int m + 1 / 2"
  show ?thesis
  proof (cases "of_int m \<le> y")
    case True
    then have "\<lfloor>y\<rfloor> = m" using a by (intro floor_unique) auto
    then show ?thesis using a by (simp add: rne_def Let_def)
  next
    case False
    then have "\<lfloor>y\<rfloor> = m - 1" using a by (intro floor_unique) auto
    then show ?thesis using a by (simp add: rne_def Let_def)
  qed
qed

lemma rne_of_int: "rne (of_int m) = m"
  by (rule rne_eq) simp_all

lemma rne_abs_le: "\<bar>y\<bar> \<le> of_int n \<Longrightarrow> \<bar>rne y\<bar> \<le> n"
  unfolding rne_def Let_def by (auto split: if_splits; linarith)

lemma rne_near: "\<bar>of_int (rne y) - y\<bar> \<le> 1 / 2"
  unfolding rne_def Let_def by (auto split: if_splits; linarith)

lemma rne_mono: "s \<le> t \<Longrightarrow> rne s \<le> rne t"
proof (rule ccontr)
  assume st: "s \<le> t" and "\<not> rne s \<le> rne t"
  define m where "m = rne t"
  define k where "k = rne s"
  have "m + 1 \<le> k" using \<open>\<not> rne s \<le> rne t\<close> by (simp add: m_def k_def)
  then have gap: "real_of_int m + 1 \<le> of_int k" by linarith
  have ns: "\<bar>of_int k - s\<bar> \<le> 1 / 2" and nt: "\<bar>of_int m - t\<bar> \<le> 1 / 2"
    unfolding m_def k_def by (rule rne_near)+
  from gap ns nt st have s: "s = of_int m + 1 / 2" and t: "t = of_int m + 1 / 2"
    and eq: "real_of_int k = of_int m + 1"
    by linarith+
  have "s = t" using s t by simp
  then have "k = m" by (simp add: m_def k_def)
  then show False using eq by simp
qed

lemma rne_minus: "rne (- y) = - rne y"
proof (cases "y = of_int \<lfloor>y\<rfloor>")
  case True
  then obtain m where "y = of_int m" by blast
  then show ?thesis using rne_of_int[of m] rne_of_int[of "- m"] by simp
next
  case False
  then have lt: "of_int \<lfloor>y\<rfloor> < y" using of_int_floor_le[of y] by linarith
  have up: "y < of_int \<lfloor>y\<rfloor> + 1" by (rule real_of_int_floor_add_one_gt)
  have fl: "\<lfloor>- y\<rfloor> = - \<lfloor>y\<rfloor> - 1"
  proof (rule floor_unique)
    show "of_int (- \<lfloor>y\<rfloor> - 1) \<le> - y"
      unfolding of_int_diff of_int_minus of_int_1 using up by linarith
    show "- y < of_int (- \<lfloor>y\<rfloor> - 1) + 1"
      unfolding of_int_diff of_int_minus of_int_1 using lt by linarith
  qed
  have d: "- y - of_int \<lfloor>- y\<rfloor> = 1 - (y - of_int \<lfloor>y\<rfloor>)" unfolding fl by simp
  show ?thesis
    unfolding rne_def[of "- y"] rne_def[of y] Let_def d
    unfolding fl by (auto split: if_splits)
qed

lemma rne_0: "rne 0 = 0"
  using rne_of_int[of 0] by simp

lemma round53_expo:
  "round53 x = (if x = 0 then 0 else of_int (rne (x / 2 powi (expo x - 52))) * 2 powi (expo x - 52))"
  by (simp add: round53_def Let_def)

lemma ulp_scale:
  "(2::real) powi (e + 1) = 2 ^ 53 * 2 powi (e - 52)"
  "(2::real) powi e = 2 ^ 52 * 2 powi (e - 52)"
proof -
  have "(2::real) powi (53 + (e - 52)) = 2 powi 53 * 2 powi (e - 52)"
    by (rule power_int_add) simp
  moreover have "53 + (e - 52) = e + 1" by simp
  ultimately show "(2::real) powi (e + 1) = 2 ^ 53 * 2 powi (e - 52)" by simp
  have "(2::real) powi (52 + (e - 52)) = 2 powi 52 * 2 powi (e - 52)"
    by (rule power_int_add) simp
  moreover have "52 + (e - 52) = e" by simp
  ultimately show "(2::real) powi e = 2 ^ 52 * 2 powi (e - 52)" by simp
qed

lemma powi_floor_log:
  assumes "0 < x"
  shows "2 powi \<lfloor>log 2 x\<rfloor> \<le> x" "x < 2 powi (\<lfloor>log 2 x\<rfloor> + 1)"
proof -
  define e where "e = \<lfloor>log 2 x\<rfloor>"
  have p1: "2 powr (of_int e) = (2::real) powi e" by (rule powr_real_of_int') simp_all
  have p2: "2 powr (of_int e + 1) = (2::real) powi (e + 1)"
    using powr_real_of_int'[of 2 "e + 1"] by simp
  have "\<lfloor>log 2 x\<rfloor> = e" by (simp add: e_def)
  then have "2 powr (of_int e) \<le> x \<and> x < 2 powr (of_int e + 1)"
    using assms by (subst (asm) floor_log_eq_powr_iff) simp_all
  then have "2 powi e \<le> x \<and> x < 2 powi (e + 1)"
    unfolding p1 p2 .
  then show "2 powi \<lfloor>log 2 x\<rfloor> \<le> x" "x < 2 powi (\<lfloor>log 2 x\<rfloor> + 1)"
    unfolding e_def by simp_all
qed

lemma expo_ge: "- 1022 \<le> expo x"
  by (simp add: expo_def)

lemma expo_minus: "expo (- x) = expo x"
  by (simp add: expo_def)

lemma expo_upper: "0 < x \<Longrightarrow> x < 2 powi (expo x + 1)"
proof -
  assume x: "0 < x"
  have "x < 2 powi (\<lfloor>log 2 x\<rfloor> + 1)" using x by (rule powi_floor_log)
  also have "\<dots> \<le> 2 powi (expo x + 1)"
    using x by (intro power_int_increasing) (simp_all add: expo_def)
  finally show ?thesis .
qed

lemma expo_lower: "0 < x \<Longrightarrow> - 1022 < expo x \<Longrightarrow> 2 powi (expo x) \<le> x"
proof -
  assume x: "0 < x" and e: "- 1022 < expo x"
  then have "expo x = \<lfloor>log 2 x\<rfloor>" by (simp add: expo_def max_def split: if_splits)
  then show ?thesis using powi_floor_log(1)[OF x] by simp
qed

lemma expo_mono: "0 < x \<Longrightarrow> x \<le> y \<Longrightarrow> expo x \<le> expo y"
proof -
  assume x: "0 < x" and xy: "x \<le> y"
  then have "log 2 x \<le> log 2 y" by simp
  then have "\<lfloor>log 2 x\<rfloor> \<le> \<lfloor>log 2 y\<rfloor>" by (rule floor_mono)
  then show ?thesis using x xy by (simp add: expo_def)
qed

lemma expo_eq: "- 1022 \<le> e \<Longrightarrow> 2 powi e \<le> x \<Longrightarrow> x < 2 powi (e + 1) \<Longrightarrow> expo x = e"
proof -
  assume e: "- 1022 \<le> e" and lo: "2 powi e \<le> x" and hi: "x < 2 powi (e + 1)"
  have "(0::real) < 2 powi e" by simp
  then have pos: "0 < x" using lo by linarith
  have p1: "2 powr (of_int e) = (2::real) powi e" by (rule powr_real_of_int') simp_all
  have p2: "2 powr (of_int e + 1) = (2::real) powi (e + 1)"
    using powr_real_of_int'[of 2 "e + 1"] by simp
  have "2 powr (of_int e) \<le> x \<and> x < 2 powr (of_int e + 1)"
    unfolding p1 p2 using lo hi by simp
  then have "\<lfloor>log 2 x\<rfloor> = e"
    using pos by (subst floor_log_eq_powr_iff) simp_all
  then show ?thesis using e pos by (simp add: expo_def)
qed

lemma expo_subnormal: "0 < x \<Longrightarrow> x < 2 powi (- 1022) \<Longrightarrow> expo x = - 1022"
proof -
  assume x: "0 < x" and lt: "x < 2 powi (- 1022)"
  have "\<not> - 1022 < expo x"
  proof
    assume e: "- 1022 < expo x"
    have "(2::real) powi (- 1022) \<le> 2 powi (expo x)"
      using e by (intro power_int_increasing) simp_all
    also have "\<dots> \<le> x" using x e by (rule expo_lower)
    finally show False using lt by simp
  qed
  then show ?thesis using expo_ge[of x] by linarith
qed

lemma round53_0: "round53 0 = 0"
  by (simp add: round53_def)

lemma round53_minus: "round53 (- x) = - round53 x"
  by (simp add: round53_expo expo_minus rne_minus)

lemma round53_nonneg: "0 \<le> x \<Longrightarrow> 0 \<le> round53 x"
proof -
  assume x: "0 \<le> x"
  have "0 \<le> x / 2 powi (expo x - 52)" using x by simp
  then have "rne 0 \<le> rne (x / 2 powi (expo x - 52))" by (rule rne_mono)
  then have "0 \<le> rne (x / 2 powi (expo x - 52))" by (simp add: rne_0)
  then show ?thesis by (simp add: round53_expo)
qed

lemma round53_upper: "0 < x \<Longrightarrow> round53 x \<le> 2 powi (expo x + 1)"
proof -
  assume x: "0 < x"
  define u :: real where "u = 2 powi (expo x - 52)"
  have upos: "0 < u" by (simp add: u_def)
  have "x \<le> 2 ^ 53 * u" using expo_upper[OF x] unfolding ulp_scale(1) u_def by simp
  then have "x / u \<le> of_int (2 ^ 53)" using upos by (simp add: field_simps)
  then have "rne (x / u) \<le> rne (of_int (2 ^ 53))" by (rule rne_mono)
  then have "rne (x / u) \<le> 2 ^ 53" unfolding rne_of_int .
  then have "real_of_int (rne (x / u)) \<le> of_int (2 ^ 53)" by (rule of_int_le_iff[THEN iffD2])
  then have "real_of_int (rne (x / u)) \<le> 2 ^ 53" by simp
  then have "of_int (rne (x / u)) * u \<le> 2 ^ 53 * u" using upos by (simp add: mult_right_mono)
  then show ?thesis using x unfolding ulp_scale(1) by (simp add: round53_expo u_def)
qed

lemma round53_lower: "0 < x \<Longrightarrow> - 1022 < expo x \<Longrightarrow> 2 powi (expo x) \<le> round53 x"
proof -
  assume x: "0 < x" and e: "- 1022 < expo x"
  define u :: real where "u = 2 powi (expo x - 52)"
  have upos: "0 < u" by (simp add: u_def)
  have "2 ^ 52 * u \<le> x" using expo_lower[OF x e] unfolding ulp_scale(2)[of "expo x"] u_def by simp
  then have "of_int (2 ^ 52) \<le> x / u" using upos by (simp add: field_simps)
  then have "rne (of_int (2 ^ 52)) \<le> rne (x / u)" by (rule rne_mono)
  then have "2 ^ 52 \<le> rne (x / u)" unfolding rne_of_int .
  then have "real_of_int (2 ^ 52) \<le> of_int (rne (x / u))" by (rule of_int_le_iff[THEN iffD2])
  then have "2 ^ 52 \<le> real_of_int (rne (x / u))" by simp
  then have "2 ^ 52 * u \<le> of_int (rne (x / u)) * u" using upos by (simp add: mult_right_mono)
  then show ?thesis using x unfolding ulp_scale(2)[of "expo x"] by (simp add: round53_expo u_def)
qed

lemma round53_mono_pos: "0 < x \<Longrightarrow> x \<le> y \<Longrightarrow> round53 x \<le> round53 y"
proof -
  assume x: "0 < x" and xy: "x \<le> y"
  then have y: "0 < y" by simp
  have le: "expo x \<le> expo y" using x xy by (rule expo_mono)
  show ?thesis
  proof (cases "expo x = expo y")
    case True
    define u :: real where "u = 2 powi (expo y - 52)"
    have upos: "0 < u" by (simp add: u_def)
    have "x / u \<le> y / u" using xy upos by (simp add: divide_right_mono)
    then have "rne (x / u) \<le> rne (y / u)" by (rule rne_mono)
    then have "real_of_int (rne (x / u)) \<le> of_int (rne (y / u))" by linarith
    then have "of_int (rne (x / u)) * u \<le> of_int (rne (y / u)) * u"
      using upos by (simp add: mult_right_mono)
    then show ?thesis using x y True by (simp add: round53_expo u_def)
  next
    case False
    then have lt: "expo x + 1 \<le> expo y" using le by simp
    then have e: "- 1022 < expo y" using expo_ge[of x] by linarith
    have "round53 x \<le> 2 powi (expo x + 1)" using x by (rule round53_upper)
    also have "\<dots> \<le> 2 powi (expo y)" using lt by (intro power_int_increasing) simp_all
    also have "\<dots> \<le> round53 y" using y e by (rule round53_lower)
    finally show ?thesis .
  qed
qed

lemma round53_mono: "x \<le> y \<Longrightarrow> round53 x \<le> round53 y"
proof -
  assume xy: "x \<le> y"
  consider "0 < x" | "x \<le> 0" "0 \<le> y" | "y < 0" by linarith
  then show ?thesis
  proof cases
    case 1
    then show ?thesis using xy by (rule round53_mono_pos)
  next
    case 2
    have "0 \<le> round53 (- x)" using 2(1) by (intro round53_nonneg) simp
    then have "round53 x \<le> 0" by (simp add: round53_minus)
    also have "0 \<le> round53 y" using 2(2) by (rule round53_nonneg)
    finally show ?thesis .
  next
    case 3
    then have "0 < - y" "- y \<le> - x" using xy by simp_all
    then have "round53 (- y) \<le> round53 (- x)" by (rule round53_mono_pos)
    then show ?thesis by (simp add: round53_minus)
  qed
qed

lemma round53_fix:
  assumes m: "0 < m" "m \<le> 2 ^ 53" and e: "- 1022 \<le> e" and sub: "m < 2 ^ 52 \<Longrightarrow> e = - 1022"
  shows "round53 (of_int m * 2 powi (e - 52)) = of_int m * 2 powi (e - 52)"
proof -
  define u :: real where "u = 2 powi (e - 52)"
  define r where "r = of_int m * u"
  have upos: "0 < u" by (simp add: u_def)
  have rpos: "0 < r" using m(1) upos by (simp add: r_def)
  have mr: "real_of_int m \<le> 2 ^ 53"
  proof -
    have "real_of_int m \<le> of_int (2 ^ 53)" using m(2) by (rule of_int_le_iff[THEN iffD2])
    then show ?thesis by simp
  qed
  consider "m < 2 ^ 52" | "2 ^ 52 \<le> m" "m < 2 ^ 53" | "m = 2 ^ 53" using m(2) by linarith
  then have "round53 r = r"
  proof cases
    case 1
    then have e1: "e = - 1022" by (rule sub)
    have "real_of_int m < of_int (2 ^ 52)" using 1 by (rule of_int_less_iff[THEN iffD2])
    then have "real_of_int m < 2 ^ 52" by simp
    then have "r < 2 ^ 52 * u" using upos by (simp add: r_def)
    then have "r < 2 powi e" unfolding ulp_scale(2)[of e] u_def .
    then have "expo r = - 1022" using rpos unfolding e1 by (intro expo_subnormal)
    then have "round53 r = of_int (rne (r / u)) * u"
      using rpos by (simp add: round53_expo u_def e1)
    also have "r / u = of_int m" using upos by (simp add: r_def)
    finally show ?thesis by (simp add: rne_of_int r_def)
  next
    case 2
    have "real_of_int (2 ^ 52) \<le> of_int m" using 2(1) by (rule of_int_le_iff[THEN iffD2])
    then have "2 ^ 52 * u \<le> r" using upos by (simp add: r_def)
    then have lo: "2 powi e \<le> r" unfolding ulp_scale(2)[of e] u_def .
    have "real_of_int m < of_int (2 ^ 53)" using 2(2) by (rule of_int_less_iff[THEN iffD2])
    then have "r < 2 ^ 53 * u" using upos by (simp add: r_def)
    then have hi: "r < 2 powi (e + 1)" unfolding ulp_scale(1)[of e] u_def .
    have "expo r = e" using e lo hi by (rule expo_eq)
    then have "round53 r = of_int (rne (r / u)) * u"
      using rpos by (simp add: round53_expo u_def)
    also have "r / u = of_int m" using upos by (simp add: r_def)
    finally show ?thesis by (simp add: rne_of_int r_def)
  next
    case 3
    then have r1: "r = 2 powi (e + 1)" unfolding ulp_scale(1)[of e] by (simp add: r_def u_def)
    have "(2::real) powi (e + 1) < 2 powi (e + 1 + 1)" by (intro power_int_strict_increasing) simp_all
    then have "expo r = e + 1" using e unfolding r1 by (intro expo_eq) simp_all
    then have "round53 r = of_int (rne (r / 2 powi (e + 1 - 52))) * 2 powi (e + 1 - 52)"
      using rpos by (simp add: round53_expo)
    also have "r / 2 powi (e + 1 - 52) = of_int (2 ^ 52)"
      unfolding r1 ulp_scale(2)[of "e + 1"] by simp
    finally have "round53 r = 2 ^ 52 * 2 powi (e + 1 - 52)" unfolding rne_of_int by simp
    then show ?thesis unfolding ulp_scale(2)[of "e + 1", symmetric] r1 .
  qed
  then show ?thesis by (simp add: r_def u_def)
qed

lemma round53_idem_pos: "0 < x \<Longrightarrow> round53 (round53 x) = round53 x"
proof -
  assume x: "0 < x"
  define u :: real where "u = 2 powi (expo x - 52)"
  define m where "m = rne (x / u)"
  have upos: "0 < u" by (simp add: u_def)
  have r: "round53 x = of_int m * u" using x by (simp add: round53_expo u_def m_def)
  have "0 \<le> round53 x" using x by (intro round53_nonneg) simp
  then have m0: "0 \<le> m" using upos unfolding r by (simp add: zero_le_mult_iff)
  have "of_int m * u \<le> 2 ^ 53 * u"
    using round53_upper[OF x] unfolding r ulp_scale(1)[of "expo x"] u_def .
  then have "real_of_int m \<le> of_int (2 ^ 53)" using upos by simp
  then have m53: "m \<le> 2 ^ 53" by (rule of_int_le_iff[THEN iffD1])
  show ?thesis
  proof (cases "m = 0")
    case True
    then show ?thesis by (simp add: r round53_0)
  next
    case False
    then have mpos: "0 < m" using m0 by simp
    have sub: "expo x = - 1022" if "m < 2 ^ 52"
    proof (rule ccontr)
      assume "expo x \<noteq> - 1022"
      then have e: "- 1022 < expo x" using expo_ge[of x] by linarith
      have "2 ^ 52 * u \<le> of_int m * u"
        using round53_lower[OF x e] unfolding r ulp_scale(2)[of "expo x"] u_def .
      then have "real_of_int (2 ^ 52) \<le> of_int m" using upos by simp
      then have "2 ^ 52 \<le> m" by (rule of_int_le_iff[THEN iffD1])
      then show False using that by simp
    qed
    show ?thesis
      unfolding r u_def using mpos m53 expo_ge sub by (rule round53_fix)
  qed
qed

lemma round53_idem: "round53 (round53 x) = round53 x"
proof -
  consider "0 < x" | "x = 0" | "0 < - x" by linarith
  then show ?thesis
  proof cases
    case 1
    then show ?thesis by (rule round53_idem_pos)
  next
    case 2
    then show ?thesis by (simp add: round53_0)
  next
    case 3
    then have "round53 (round53 (- x)) = round53 (- x)" by (rule round53_idem_pos)
    then show ?thesis by (simp add: round53_minus)
  qed
qed

lemma b64_round53:
  "b64 x = (if 2 ^ 1024 \<le> \<bar>round53 x\<bar> then (if 0 < x then PInf else NInf) else Fin (round53 x))"
  by (simp add: b64_def Let_def)

lemma b64_0: "b64 0 = Fin 0"
  by (simp add: b64_def round53_def)

lemma b64_Fin_iff: "b64 x = Fin r \<longleftrightarrow> r = round53 x \<and> \<bar>round53 x\<bar> < 2 ^ 1024"
  by (auto simp add: b64_round53)

lemma b64_idem: "b64 x = Fin r \<Longrightarrow> b64 r = Fin r"
  by (simp add: b64_Fin_iff round53_idem)

lemma b64_PInf_iff: "b64 x = PInf \<longleftrightarrow> 2 ^ 1024 \<le> round53 x"
proof
  assume "b64 x = PInf"
  then have a: "2 ^ 1024 \<le> \<bar>round53 x\<bar>" and x: "0 < x"
    by (simp_all add: b64_round53 split: if_splits)
  have "0 \<le> round53 x" using x by (intro round53_nonneg) simp
  then show "2 ^ 1024 \<le> round53 x" using a by simp
next
  assume a: "2 ^ 1024 \<le> round53 x"
  have "0 < x"
  proof (rule ccontr)
    assume "\<not> 0 < x"
    then have "0 \<le> round53 (- x)" by (intro round53_nonneg) simp
    then have "round53 x \<le> 0" by (simp add: round53_minus)
    then show False using a by simp
  qed
  moreover have "2 ^ 1024 \<le> \<bar>round53 x\<bar>" using a by simp
  ultimately show "b64 x = PInf" by (simp add: b64_round53)
qed

lemma b64_NInf_iff: "b64 x = NInf \<longleftrightarrow> round53 x \<le> - (2 ^ 1024)"
proof
  assume "b64 x = NInf"
  then have a: "2 ^ 1024 \<le> \<bar>round53 x\<bar>" and x: "\<not> 0 < x"
    by (simp_all add: b64_round53 split: if_splits)
  have "0 \<le> round53 (- x)" using x by (intro round53_nonneg) simp
  then have "round53 x \<le> 0" by (simp add: round53_minus)
  then show "round53 x \<le> - (2 ^ 1024)" using a by simp
next
  assume a: "round53 x \<le> - (2 ^ 1024)"
  have "\<not> 0 < x"
  proof
    assume "0 < x"
    then have "0 \<le> round53 x" by (intro round53_nonneg) simp
    then show False using a by simp
  qed
  moreover have "2 ^ 1024 \<le> \<bar>round53 x\<bar>" using a by simp
  ultimately show "b64 x = NInf" by (simp add: b64_round53)
qed

lemma b64_range: "(\<exists>r. b64 x = Fin r) \<or> b64 x = PInf \<or> b64 x = NInf"
  by (simp add: b64_round53)

lemma b64_mono:
  assumes "s \<le> t"
  shows "(\<exists>x y. b64 s = Fin x \<and> b64 t = Fin y \<and> x \<le> y) \<or> b64 t = PInf \<or> b64 s = NInf"
proof -
  have le: "round53 s \<le> round53 t" using assms by (rule round53_mono)
  consider y where "b64 t = Fin y" | "b64 t = PInf" | "b64 t = NInf" using b64_range[of t] by blast
  then show ?thesis
  proof cases
    case 1
    then have y: "y = round53 t" "\<bar>round53 t\<bar> < 2 ^ 1024" by (simp_all add: b64_Fin_iff)
    consider x where "b64 s = Fin x" | "b64 s = PInf" | "b64 s = NInf" using b64_range[of s] by blast
    then show ?thesis
    proof cases
      case (1 x)
      then have "x = round53 s" by (simp add: b64_Fin_iff)
      then show ?thesis using 1 \<open>b64 t = Fin y\<close> y(1) le by simp
    next
      case 2
      then have "2 ^ 1024 \<le> round53 s" by (simp add: b64_PInf_iff)
      then show ?thesis using le y(2) by simp
    next
      case 3
      then show ?thesis by simp
    qed
  next
    case 2
    then show ?thesis by simp
  next
    case 3
    then have "round53 t \<le> - (2 ^ 1024)" by (simp add: b64_NInf_iff)
    then have "round53 s \<le> - (2 ^ 1024)" using le by linarith
    then show ?thesis by (simp add: b64_NInf_iff)
  qed
qed

lemma b64_nonneg: "0 \<le> x \<Longrightarrow> (\<exists>p. b64 x = Fin p \<and> 0 \<le> p) \<or> b64 x = PInf"
proof -
  assume x: "0 \<le> x"
  then have r: "0 \<le> round53 x" by (rule round53_nonneg)
  consider p where "b64 x = Fin p" | "b64 x = PInf" | "b64 x = NInf" using b64_range[of x] by blast
  then show ?thesis
  proof cases
    case (1 p)
    then show ?thesis using r by (simp add: b64_Fin_iff)
  next
    case 2
    then show ?thesis by simp
  next
    case 3
    then show ?thesis using r by (simp add: b64_NInf_iff)
  qed
qed

text \<open>
  The value of \<open>b64\<close> at an argument whose binade and rounded significand are known.
\<close>

lemma b64_eval:
  assumes u: "u = 2 powi (e - 52)" and e: "- 1022 \<le> e" "e \<le> 1022"
    and lo: "2 powi e \<le> \<bar>x\<bar>" and hi: "\<bar>x\<bar> < 2 powi (e + 1)"
    and m: "rne (x / u) = m"
  shows "b64 x = Fin (of_int m * u)"
proof -
  have "(0::real) < 2 powi e" by simp
  then have pos: "0 < \<bar>x\<bar>" using lo by linarith
  then have x0: "x \<noteq> 0" by simp
  have p1: "2 powr (of_int e) = (2::real) powi e" by (rule powr_real_of_int') simp_all
  have p2: "2 powr (of_int e + 1) = (2::real) powi (e + 1)"
    using powr_real_of_int'[of 2 "e + 1"] by simp
  have "2 powr (of_int e) \<le> \<bar>x\<bar> \<and> \<bar>x\<bar> < 2 powr (of_int e + 1)"
    unfolding p1 p2 using lo hi by simp
  then have "\<lfloor>log 2 \<bar>x\<bar>\<rfloor> = e"
    using pos by (subst floor_log_eq_powr_iff) simp_all
  then have ex: "max \<lfloor>log 2 \<bar>x\<bar>\<rfloor> (- 1022) = e" using e by simp
  have upos: "0 < u" unfolding u by simp
  have "\<bar>x / u\<bar> < 2 powi (e + 1) / u" using hi upos by (simp add: divide_strict_right_mono)
  also have "2 powi (e + 1) / u = (2::real) powi 53"
  proof -
    have "(2::real) powi (e + 1 - (e - 52)) = 2 powi (e + 1) / 2 powi (e - 52)"
      by (rule power_int_diff) simp
    moreover have "e + 1 - (e - 52) = 53" by simp
    ultimately show ?thesis unfolding u by simp
  qed
  finally have "\<bar>x / u\<bar> \<le> of_int (2 ^ 53)" by simp
  then have "\<bar>rne (x / u)\<bar> \<le> 2 ^ 53" by (rule rne_abs_le)
  then have "real_of_int \<bar>m\<bar> \<le> real_of_int (2 ^ 53)" unfolding m by (rule of_int_le_iff[THEN iffD2])
  then have "\<bar>of_int m :: real\<bar> \<le> 2 ^ 53" by simp
  then have "\<bar>of_int m * u\<bar> \<le> 2 ^ 53 * u" using upos by (simp add: abs_mult mult_right_mono)
  also have "2 ^ 53 * u = (2::real) powi (e + 1)"
  proof -
    have "(2::real) powi (53 + (e - 52)) = 2 powi 53 * 2 powi (e - 52)"
      by (rule power_int_add) simp
    moreover have "53 + (e - 52) = e + 1" by simp
    ultimately show ?thesis unfolding u by simp
  qed
  also have "\<dots> \<le> 2 powi 1023" using e by (intro power_int_increasing) auto
  also have "\<dots> < (2::real) ^ 1024" by simp
  finally have small: "\<not> 2 ^ 1024 \<le> \<bar>of_int m * u\<bar>" by simp
  show ?thesis
    using x0 ex m small by (simp add: b64_def round53_def expo_def Let_def u)
qed

lemma b64_sqrt_eval:
  assumes u: "u = 2 powi (e - 52)" and e: "- 1022 \<le> e" "e \<le> 1022"
    and lo: "(2 powi e)\<^sup>2 \<le> a" and hi: "a < (2 powi (e + 1))\<^sup>2"
    and m0: "0 \<le> (of_int m - 1 / 2) * u"
    and ml: "((of_int m - 1 / 2) * u)\<^sup>2 < a" and mh: "a < ((of_int m + 1 / 2) * u)\<^sup>2"
  shows "b64 (sqrt a) = Fin (of_int m * u)"
proof (rule b64_eval[OF u e])
  have upos: "0 < u" unfolding u by simp
  have "0 \<le> (2 powi e :: real)\<^sup>2" by simp
  then have a0: "0 \<le> a" using lo by linarith
  have "2 powi e \<le> sqrt a" using lo by (rule real_le_rsqrt)
  then show "2 powi e \<le> \<bar>sqrt a\<bar>" by simp
  have "sqrt a < 2 powi (e + 1)" using hi by (intro real_less_lsqrt) auto
  then show "\<bar>sqrt a\<bar> < 2 powi (e + 1)" using a0 by simp
  have l: "(of_int m - 1 / 2) * u < sqrt a" using ml by (rule real_less_rsqrt)
  have "0 \<le> of_int m - (1 / 2 :: real)" using m0 upos by (simp add: zero_le_mult_iff)
  then have "0 \<le> (of_int m + 1 / 2) * u" using upos by (simp add: zero_le_mult_iff)
  then have h: "sqrt a < (of_int m + 1 / 2) * u" using mh by (intro real_less_lsqrt) auto
  show "rne (sqrt a / u) = m"
    using l h upos by (intro rne_eq) (simp_all add: field_simps)
qed

text \<open>
  The roundings met in the evaluations below, each checked against the definition of
  \<open>b64\<close>: the argument lies in the binade of the given exponent and the scaled argument
  rounds to the given significand.
\<close>

lemma b64_value_1: "b64 (884279719003555 / 140737488355328) = Fin (884279719003555 / 140737488355328)"
  using b64_eval[of "1 / 2 ^ 50" "2" "884279719003555 / 140737488355328" "7074237752028440"]
  by (simp add: rne_eq)

lemma b64_value_2: "b64 (2) = Fin (2)"
  using b64_eval[of "1 / 2 ^ 51" "1" "2" "4503599627370496"]
  by (simp add: rne_eq)

lemma b64_value_3: "b64 (1) = Fin (1)"
  using b64_eval[of "1 / 2 ^ 52" "0" "1" "4503599627370496"]
  by (simp add: rne_eq)

lemma b64_value_4: "b64 (573 / 10) = Fin (4032129041380147 / 70368744177664)"
  using b64_eval[of "1 / 2 ^ 47" "5" "573 / 10" "8064258082760294"]
  by (simp add: rne_eq)

lemma b64_value_5: "b64 (781950621441006189802102638025 / 19807040628566084398385987584) = Fin (2778046668940015 / 70368744177664)"
  using b64_eval[of "1 / 2 ^ 47" "5" "781950621441006189802102638025 / 19807040628566084398385987584" "5556093337880030"]
  by (simp add: rne_eq)

lemma b64_value_6: "b64 (2778046668940015 / 70368744177664) = Fin (2778046668940015 / 70368744177664)"
  using b64_eval[of "1 / 2 ^ 47" "5" "2778046668940015 / 70368744177664" "5556093337880030"]
  by (simp add: rne_eq)

lemma b64_value_7: "b64 (sqrt (2778046668940015 / 70368744177664)) = Fin (884279719003555 / 140737488355328)"
  using b64_sqrt_eval[of "1 / 2 ^ 50" "2" "2778046668940015 / 70368744177664" "7074237752028440"]
  by (simp add: power2_eq_square)

lemma b64_value_8: "b64 (3) = Fin (3)"
  using b64_eval[of "1 / 2 ^ 51" "1" "3" "6755399441055744"]
  by (simp add: rne_eq)

lemma b64_value_9: "b64 (13264195785053325 / 35184372088832) = Fin (3316048946263331 / 8796093022208)"
  using b64_eval[of "1 / 2 ^ 44" "8" "13264195785053325 / 35184372088832" "6632097892526662"]
  by (simp add: rne_def Let_def)

lemma b64_value_10: "b64 (3316048946263331 / 527765581332480) = Fin (7074237752028439 / 1125899906842624)"
  using b64_eval[of "1 / 2 ^ 50" "2" "3316048946263331 / 527765581332480" "7074237752028439"]
  by (simp add: rne_eq)

lemma b64_value_11: "b64 (7074237752028439 / 1125899906842624) = Fin (7074237752028439 / 1125899906842624)"
  using b64_eval[of "1 / 2 ^ 50" "2" "7074237752028439 / 1125899906842624" "7074237752028439"]
  by (simp add: rne_eq)

lemma b64_value_12: "b64 (50044839772224381998859064776721 / 1267650600228229401496703205376) = Fin (1389023334470007 / 35184372088832)"
  using b64_eval[of "1 / 2 ^ 47" "5" "50044839772224381998859064776721 / 1267650600228229401496703205376" "5556093337880028"]
  by (simp add: rne_eq)

lemma b64_value_13: "b64 (1389023334470007 / 35184372088832) = Fin (1389023334470007 / 35184372088832)"
  using b64_eval[of "1 / 2 ^ 47" "5" "1389023334470007 / 35184372088832" "5556093337880028"]
  by (simp add: rne_eq)

lemma b64_value_14: "b64 (sqrt (1389023334470007 / 35184372088832)) = Fin (7074237752028439 / 1125899906842624)"
  using b64_sqrt_eval[of "1 / 2 ^ 50" "2" "1389023334470007 / 35184372088832" "7074237752028439"]
  by (simp add: power2_eq_square)

lemma b64_value_15: "b64 (1 / 2) = Fin (1 / 2)"
  using b64_eval[of "1 / 2 ^ 53" "-1" "1 / 2" "4503599627370496"]
  by (simp add: rne_eq)

lemma b64_value_16: "b64 (1 / 4) = Fin (1 / 4)"
  using b64_eval[of "1 / 2 ^ 54" "-2" "1 / 4" "4503599627370496"]
  by (simp add: rne_eq)

lemma b64_value_17: "b64 (884279719003555 / 562949953421312) = Fin (884279719003555 / 562949953421312)"
  using b64_eval[of "1 / 2 ^ 52" "0" "884279719003555 / 562949953421312" "7074237752028440"]
  by (simp add: rne_eq)

lemma b64_value_18: "b64 (781950621441006189802102638025 / 316912650057057350374175801344) = Fin (2778046668940015 / 1125899906842624)"
  using b64_eval[of "1 / 2 ^ 51" "1" "781950621441006189802102638025 / 316912650057057350374175801344" "5556093337880030"]
  by (simp add: rne_eq)

lemma b64_value_19: "b64 (2778046668940015 / 1125899906842624) = Fin (2778046668940015 / 1125899906842624)"
  using b64_eval[of "1 / 2 ^ 51" "1" "2778046668940015 / 1125899906842624" "5556093337880030"]
  by (simp add: rne_eq)

lemma b64_value_20: "b64 (sqrt (2778046668940015 / 1125899906842624)) = Fin (884279719003555 / 562949953421312)"
  using b64_sqrt_eval[of "1 / 2 ^ 52" "0" "2778046668940015 / 1125899906842624" "7074237752028440"]
  by (simp add: power2_eq_square)

lemma b64_value_21: "b64 (3 / 4) = Fin (3 / 4)"
  using b64_eval[of "1 / 2 ^ 53" "-1" "3 / 4" "6755399441055744"]
  by (simp add: rne_eq)

lemma b64_value_22: "b64 (2652839157010665 / 562949953421312) = Fin (2652839157010665 / 562949953421312)"
  using b64_eval[of "1 / 2 ^ 50" "2" "2652839157010665 / 562949953421312" "5305678314021330"]
  by (simp add: rne_eq)

lemma b64_value_23: "b64 (7037555592969055708218923742225 / 316912650057057350374175801344) = Fin (3125302502557517 / 140737488355328)"
  using b64_eval[of "1 / 2 ^ 48" "4" "7037555592969055708218923742225 / 316912650057057350374175801344" "6250605005115034"]
  by (simp add: rne_eq)

lemma b64_value_24: "b64 (3125302502557517 / 140737488355328) = Fin (3125302502557517 / 140737488355328)"
  using b64_eval[of "1 / 2 ^ 48" "4" "3125302502557517 / 140737488355328" "6250605005115034"]
  by (simp add: rne_eq)

lemma b64_value_25: "b64 (sqrt (3125302502557517 / 140737488355328)) = Fin (2652839157010665 / 562949953421312)"
  using b64_sqrt_eval[of "1 / 2 ^ 50" "2" "3125302502557517 / 140737488355328" "5305678314021330"]
  by (simp add: power2_eq_square)

lemma b64_value_26: "b64 (5 / 4) = Fin (5 / 4)"
  using b64_eval[of "1 / 2 ^ 52" "0" "5 / 4" "5629499534213120"]
  by (simp add: rne_eq)

lemma b64_value_27: "b64 (90) = Fin (90)"
  using b64_eval[of "1 / 2 ^ 46" "6" "90" "6333186975989760"]
  by (simp add: rne_eq)

lemma b64_value_28: "b64 (180) = Fin (180)"
  using b64_eval[of "1 / 2 ^ 45" "7" "180" "6333186975989760"]
  by (simp add: rne_eq)

lemma b64_value_29: "b64 (2778046668940015 / 4503599627370496) = Fin (2778046668940015 / 4503599627370496)"
  using b64_eval[of "1 / 2 ^ 53" "-1" "2778046668940015 / 4503599627370496" "5556093337880030"]
  by (simp add: rne_eq)

lemma b64_value_30: "b64 (9375907507672551 / 562949953421312) = Fin (1171988438459069 / 70368744177664)"
  using b64_eval[of "1 / 2 ^ 48" "4" "9375907507672551 / 562949953421312" "4687953753836276"]
  by (simp add: rne_def Let_def)

lemma b64_value_31: "b64 (27780466689400151 / 1125899906842624) = Fin (3472558336175019 / 140737488355328)"
  using b64_eval[of "1 / 2 ^ 48" "4" "27780466689400151 / 1125899906842624" "6945116672350038"]
  by (simp add: rne_eq)

lemma b64_value_32: "b64 (77785306730320431 / 4503599627370496) = Fin (4861581670645027 / 281474976710656)"
  using b64_eval[of "1 / 2 ^ 48" "4" "77785306730320431 / 4503599627370496" "4861581670645027"]
  by (simp add: rne_eq)

lemma b64_value_33: "b64 (31253025025575171 / 140737488355328) = Fin (7813256256393793 / 35184372088832)"
  using b64_eval[of "1 / 2 ^ 45" "7" "31253025025575171 / 140737488355328" "7813256256393793"]
  by (simp add: rne_eq)

lemma b64_value_34: "b64 (10417675008525057 / 140737488355328) = Fin (40694043002051 / 549755813888)"
  using b64_eval[of "1 / 2 ^ 46" "6" "10417675008525057 / 140737488355328" "5208837504262528"]
  by (simp add: rne_def Let_def)

lemma b64_value_35: "b64 (122082129006153 / 549755813888) = Fin (122082129006153 / 549755813888)"
  using b64_eval[of "1 / 2 ^ 45" "7" "122082129006153 / 549755813888" "7813256256393792"]
  by (simp add: rne_eq)

lemma b64_value_36: "b64 (1 / 10) = Fin (3602879701896397 / 36028797018963968)"
  using b64_eval[of "1 / 2 ^ 56" "-4" "1 / 10" "7205759403792794"]
  by (simp add: rne_eq)

lemma b64_value_37: "b64 (18 / 5) = Fin (8106479329266893 / 2251799813685248)"
  using b64_eval[of "1 / 2 ^ 51" "1" "18 / 5" "8106479329266893"]
  by (simp add: rne_eq)

lemma b64_value_38: "b64 (3602879701896397 / 36028797018963968) = Fin (3602879701896397 / 36028797018963968)"
  using b64_eval[of "1 / 2 ^ 56" "-4" "3602879701896397 / 36028797018963968" "7205759403792794"]
  by (simp add: rne_eq)

lemma b64_value_39: "b64 (29206669829258407752355848084521 / 81129638414606681695789005144064) = Fin (6485183463413515 / 18014398509481984)"
  using b64_eval[of "1 / 2 ^ 54" "-2" "29206669829258407752355848084521 / 81129638414606681695789005144064" "6485183463413515"]
  by (simp add: rne_eq)

lemma b64_value_40: "b64 (3602879701896397 / 18014398509481984) = Fin (3602879701896397 / 18014398509481984)"
  using b64_eval[of "1 / 2 ^ 55" "-3" "3602879701896397 / 18014398509481984" "7205759403792794"]
  by (simp add: rne_eq)

lemma b64_value_41: "b64 (29206669829258407752355848084521 / 40564819207303340847894502572032) = Fin (6485183463413515 / 9007199254740992)"
  using b64_eval[of "1 / 2 ^ 53" "-1" "29206669829258407752355848084521 / 40564819207303340847894502572032" "6485183463413515"]
  by (simp add: rne_eq)

lemma b64_value_42: "b64 (10808639105689191 / 36028797018963968) = Fin (1351079888211149 / 4503599627370496)"
  using b64_eval[of "1 / 2 ^ 54" "-2" "10808639105689191 / 36028797018963968" "5404319552844596"]
  by (simp add: rne_def Let_def)

lemma b64_value_43: "b64 (10952501185971903920443359190057 / 10141204801825835211973625643008) = Fin (4863887597560137 / 4503599627370496)"
  using b64_eval[of "1 / 2 ^ 52" "0" "10952501185971903920443359190057 / 10141204801825835211973625643008" "4863887597560137"]
  by (simp add: rne_eq)

lemma b64_value_44: "b64 (14411518807585589 / 36028797018963968) = Fin (3602879701896397 / 9007199254740992)"
  using b64_eval[of "1 / 2 ^ 54" "-2" "14411518807585589 / 36028797018963968" "7205759403792794"]
  by (simp add: rne_def Let_def)

lemma b64_value_45: "b64 (29206669829258407752355848084521 / 20282409603651670423947251286016) = Fin (6485183463413515 / 4503599627370496)"
  using b64_eval[of "1 / 2 ^ 52" "0" "29206669829258407752355848084521 / 20282409603651670423947251286016" "6485183463413515"]
  by (simp add: rne_eq)

lemma b64_value_46: "b64 (18014398509481985 / 36028797018963968) = Fin (1 / 2)"
  using b64_eval[of "1 / 2 ^ 53" "-1" "18014398509481985 / 36028797018963968" "4503599627370496"]
  by (simp add: rne_eq)

lemma b64_value_47: "b64 (8106479329266893 / 4503599627370496) = Fin (8106479329266893 / 4503599627370496)"
  using b64_eval[of "1 / 2 ^ 52" "0" "8106479329266893 / 4503599627370496" "8106479329266893"]
  by (simp add: rne_eq)

lemma b64_value_48: "b64 (21617278211378381 / 36028797018963968) = Fin (5404319552844595 / 9007199254740992)"
  using b64_eval[of "1 / 2 ^ 53" "-1" "21617278211378381 / 36028797018963968" "5404319552844595"]
  by (simp add: rne_eq)

lemma b64_value_49: "b64 (43810004743887607575294107493335 / 20282409603651670423947251286016) = Fin (607985949695017 / 281474976710656)"
  using b64_eval[of "1 / 2 ^ 51" "1" "43810004743887607575294107493335 / 20282409603651670423947251286016" "4863887597560136"]
  by (simp add: rne_eq)

lemma b64_value_50: "b64 (25220157913274777 / 36028797018963968) = Fin (3152519739159347 / 4503599627370496)"
  using b64_eval[of "1 / 2 ^ 53" "-1" "25220157913274777 / 36028797018963968" "6305039478318694"]
  by (simp add: rne_eq)

lemma b64_value_51: "b64 (25555836100601103743381618598871 / 10141204801825835211973625643008) = Fin (5674535530486825 / 2251799813685248)"
  using b64_eval[of "1 / 2 ^ 51" "1" "25555836100601103743381618598871 / 10141204801825835211973625643008" "5674535530486825"]
  by (simp add: rne_eq)

lemma b64_value_52: "b64 (28823037615171173 / 36028797018963968) = Fin (7205759403792793 / 9007199254740992)"
  using b64_eval[of "1 / 2 ^ 53" "-1" "28823037615171173 / 36028797018963968" "7205759403792793"]
  by (simp add: rne_eq)

lemma b64_value_53: "b64 (58413339658516807398232366902149 / 20282409603651670423947251286016) = Fin (3242591731706757 / 1125899906842624)"
  using b64_eval[of "1 / 2 ^ 51" "1" "58413339658516807398232366902149 / 20282409603651670423947251286016" "6485183463413514"]
  by (simp add: rne_eq)

lemma b64_value_54: "b64 (32425917317067569 / 36028797018963968) = Fin (2026619832316723 / 2251799813685248)"
  using b64_eval[of "1 / 2 ^ 53" "-1" "32425917317067569 / 36028797018963968" "8106479329266892"]
  by (simp add: rne_eq)

lemma b64_value_55: "b64 (16428751778957851827425374151639 / 5070602400912917605986812821504) = Fin (7295831396340203 / 2251799813685248)"
  using b64_eval[of "1 / 2 ^ 51" "1" "16428751778957851827425374151639 / 5070602400912917605986812821504" "7295831396340203"]
  by (simp add: rne_eq)

lemma b64_value_56: "b64 (36028797018963965 / 36028797018963968) = Fin (9007199254740991 / 9007199254740992)"
  using b64_eval[of "1 / 2 ^ 53" "-1" "36028797018963965 / 36028797018963968" "9007199254740991"]
  by (simp add: rne_eq)

lemma b64_value_57: "b64 (73016674573146007221170626310963 / 20282409603651670423947251286016) = Fin (2026619832316723 / 562949953421312)"
  using b64_eval[of "1 / 2 ^ 51" "1" "73016674573146007221170626310963 / 20282409603651670423947251286016" "8106479329266892"]
  by (simp add: rne_eq)

lemma b64_value_58: "b64 (39631676720860361 / 36028797018963968) = Fin (4953959590107545 / 4503599627370496)"
  using b64_eval[of "1 / 2 ^ 52" "0" "39631676720860361 / 36028797018963968" "4953959590107545"]
  by (simp add: rne_eq)

lemma b64_value_59: "b64 (8106479329266893 / 2251799813685248) = Fin (8106479329266893 / 2251799813685248)"
  using b64_eval[of "1 / 2 ^ 51" "1" "8106479329266893 / 2251799813685248" "8106479329266893"]
  by (simp add: rne_eq)

lemma b64_value_60: "b64 (2652839157010665 / 140737488355328) = Fin (2652839157010665 / 140737488355328)"
  using b64_eval[of "1 / 2 ^ 48" "4" "2652839157010665 / 140737488355328" "5305678314021330"]
  by (simp add: rne_eq)

lemma b64_value_61: "b64 (39792587355159975 / 35184372088832) = Fin (4974073419394997 / 4398046511104)"
  using b64_eval[of "1 / 2 ^ 42" "10" "39792587355159975 / 35184372088832" "4974073419394997"]
  by (simp add: rne_eq)

lemma b64_value_62: "b64 (4974073419394997 / 263882790666240) = Fin (2652839157010665 / 140737488355328)"
  using b64_eval[of "1 / 2 ^ 48" "4" "4974073419394997 / 263882790666240" "5305678314021330"]
  by (simp add: rne_eq)

lemma b64_value_63: "b64 (60) = Fin (60)"
  using b64_eval[of "1 / 2 ^ 47" "5" "60" "8444249301319680"]
  by (simp add: rne_eq)

lemma b64_value_64: "b64 (32425917317067572) = Fin (32425917317067572)"
  using b64_eval[of "2 ^ 2" "54" "32425917317067572" "8106479329266893"]
  by (simp add: rne_eq)

lemma b64_value_65: "b64 (9007199254740993) = Fin (9007199254740992)"
  using b64_eval[of "2 ^ 1" "53" "9007199254740993" "4503599627370496"]
  by (simp add: rne_def Let_def)

lemmas b64_values = b64_value_1 b64_value_2 b64_value_3 b64_value_4 b64_value_5 b64_value_6
  b64_value_7 b64_value_8 b64_value_9 b64_value_10 b64_value_11 b64_value_12 b64_value_13
  b64_value_14 b64_value_15 b64_value_16 b64_value_17 b64_value_18 b64_value_19 b64_value_20
  b64_value_21 b64_value_22 b64_value_23 b64_value_24 b64_value_25 b64_value_26 b64_value_27
  b64_value_28 b64_value_29 b64_value_30 b64_value_31 b64_value_32 b64_value_33 b64_value_34
  b64_value_35 b64_value_36 b64_value_37 b64_value_38 b64_value_39 b64_value_40 b64_value_41
  b64_value_42 b64_value_43 b64_value_44 b64_value_45 b64_value_46 b64_value_47 b64_value_48
  b64_value_49 b64_value_50 b64_value_51 b64_value_52 b64_value_53 b64_value_54 b64_value_55
  b64_value_56 b64_value_57 b64_value_58 b64_value_59 b64_value_60 b64_value_61 b64_value_62
  b64_value_63 b64_value_64 b64_value_65

section \<open>Facts about the program in binary64 arithmetic\<close>

lemma length_sweep_loop_b64: "length (sweep_loop_b64 blade nBlade Ro omega area dV n V) = n"
  by (induction n arbitrary: V) (simp_all add: Let_def)

lemma sweep_loop_b64_V:
  "i < n \<Longrightarrow> V_sp (sweep_loop_b64 blade nBlade Ro omega area dV n V ! i) =
     f_mul (((\<lambda>v. f_add v dV) ^^ i) V) (b64 3.6)"
proof (induction n arbitrary: V i)
  case 0
  then show ?case by simp
next
  case (Suc n)
  show ?case
  proof (cases i)
    case 0
    then show ?thesis by (simp add: Let_def)
  next
    case (Suc j)
    then have "j < n" using Suc.prems by simp
    then have "V_sp (sweep_loop_b64 blade nBlade Ro omega area dV n (f_add V dV) ! j) =
       f_mul (((\<lambda>v. f_add v dV) ^^ j) (f_add V dV)) (b64 3.6)"
      by (rule Suc.IH)
    moreover have "((\<lambda>v. f_add v dV) ^^ j) (f_add V dV) = f_add (((\<lambda>v. f_add v dV) ^^ j) V) dV"
      using funpow_swap1[of "\<lambda>v. f_add v dV" j V] by simp
    ultimately show ?thesis using Suc by (simp add: Let_def)
  qed
qed

lemma sweep_loop_b64_thrust_0:
  "thrust_sp (sweep_loop_b64 blade nBlade Ro omega area dV (Suc n) V ! 0) =
     f_mul (totalThrust (summary (blade V))) (Fin (real nBlade))"
  by (simp add: Let_def)

lemma sweep_v1_b64:
  "getSpeedThrustPerformance_v1_b64 atn cfg =
   sweep_loop_b64
     (\<lambda>V. getSingleBladeForces_v1_b64 atn (RX_g (geometry cfg)) (AX_g (geometry cfg))
            (SX_g (geometry cfg)) (Cx0_a (aerodynamics cfg)) (RPM_e (environment cfg)) V
            (Ro_e (environment cfg)) (AX_CY_a (aerodynamics cfg)) (CY_a (aerodynamics cfg))
            (POLAR_a (aerodynamics cfg)) (VX_g (geometry cfg)) (dAVX_g (geometry cfg)))
     (nBlade_g (geometry cfg)) (Ro_e (environment cfg))
     (f_mul (f_mul (Fin 2) Math_PI) (RPM_e (environment cfg)))
     (f_mul (f_mul Math_PI (js_last (RX_g (geometry cfg)))) (js_last (RX_g (geometry cfg))))
     (f_div (f_sub (v1_e (environment cfg)) (v0_e (environment cfg)))
            (Fin (real (nV_e (environment cfg)))))
     (Suc (nV_e (environment cfg))) (v0_e (environment cfg))"
  by (simp add: getSpeedThrustPerformance_v1_b64_def Let_def del: f_mul.simps f_div.simps sweep_loop_b64.simps)

lemma sweep_v2_b64:
  "getSpeedThrustPerformance_v2_b64 atn cfg =
   sweep_loop_b64
     (\<lambda>V. getSingleBladeForces_v2_b64 atn (RX_g (geometry cfg)) (AX_g (geometry cfg))
            (SX_g (geometry cfg)) (RPM_e (environment cfg)) V
            (Ro_e (environment cfg)) (AX_CY_b (aerodynamics cfg)) (CY_b (aerodynamics cfg))
            (CX_b (aerodynamics cfg)) (VX_g (geometry cfg)) (dAVX_g (geometry cfg)))
     (nBlade_g (geometry cfg)) (Ro_e (environment cfg))
     (f_div (f_mul (f_mul (Fin 2) Math_PI) (RPM_e (environment cfg))) (Fin 60))
     (f_mul (f_mul Math_PI (js_last (RX_g (geometry cfg)))) (js_last (RX_g (geometry cfg))))
     (f_div (f_sub (v1_e (environment cfg)) (v0_e (environment cfg)))
            (Fin (real (nV_e (environment cfg)))))
     (Suc (nV_e (environment cfg))) (v0_e (environment cfg))"
  by (simp add: getSpeedThrustPerformance_v2_b64_def Let_def del: f_mul.simps f_div.simps sweep_loop_b64.simps)

lemma sweep_b64_count_first:
  "length (getSpeedThrustPerformance_v1_b64 atn c1) = nV_e (environment c1) + 1"
  "V_sp (getSpeedThrustPerformance_v1_b64 atn c1 ! 0) = f_mul (v0_e (environment c1)) (b64 3.6)"
  "length (getSpeedThrustPerformance_v2_b64 atn c2) = nV_e (environment c2) + 1"
  "V_sp (getSpeedThrustPerformance_v2_b64 atn c2 ! 0) = f_mul (v0_e (environment c2)) (b64 3.6)"
  unfolding sweep_v1_b64 sweep_v2_b64
  by (simp_all add: length_sweep_loop_b64 sweep_loop_b64_V del: sweep_loop_b64.simps f_mul.simps)

lemma getSpeedDistribution_b64_same_omega:
  "f_mul (f_mul (Fin 2) Math_PI) RPM1 = f_div (f_mul (f_mul (Fin 2) Math_PI) RPM2) (Fin 60)
   \<Longrightarrow> getSpeedDistribution_v1_b64 atn RPM1 R v0 N = getSpeedDistribution_v2_b64 atn RPM2 R v0 N"
  by (simp only: getSpeedDistribution_v1_b64_def getSpeedDistribution_v2_b64_def)

lemma omega_b64_at_3:
  "f_mul (f_mul (Fin 2) Math_PI) (Fin 3) =
   f_div (f_mul (f_mul (Fin 2) Math_PI) (f_mul (Fin 60) (Fin 3))) (Fin 60)"
  by (simp add: Math_PI_def b64_values)

lemma speed_b64_at_1:
  "getSpeedDistribution_v1_b64 atn (Fin 1) (Fin 2) (Fin 0) 1 =
     [\<lparr>range_s = Fin 1, localVelocity = Fin (884279719003555 / 140737488355328),
       localAoA = Fin 0\<rparr>]"
  "getSpeedDistribution_v2_b64 atn (f_mul (Fin 60) (Fin 1)) (Fin 2) (Fin 0) 1 =
     [\<lparr>range_s = Fin 1, localVelocity = Fin (7074237752028439 / 1125899906842624),
       localAoA = Fin 0\<rparr>]"
  by (simp_all add: getSpeedDistribution_v1_b64_def getSpeedDistribution_v2_b64_def
      Math_PI_def Let_def b64_0 b64_values)

lemma static_blade: "totalThrust (summary (getSingleBladeForces_v1_b64 atn [Fin 0, Fin 1] [Fin 0, Fin 0] [Fin 1, Fin 1]
   (Fin 1) (Fin 1) (Fin 0) (Fin 2) [Fin (- 90), Fin 90] [Fin 1, Fin 1] [Fin 0, Fin 0] [] [])) =
   Fin (3472558336175019 / 140737488355328)"
  by (simp add: getSingleBladeForces_v1_b64_def getSpeedDistribution_v1_b64_def Math_PI_def Let_def b64_0
      numeral_2_eq_2 js_last_def js_nth_def section_force_v1_b64_def interp_b64_def init_totals_def f_sub_def
      b64_values)

lemma static_thrust:
  "thrust_sp (getSpeedThrustPerformance_v1_b64 atn (staticScrew nb) ! 0) =
     f_mul (Fin (3472558336175019 / 140737488355328)) (Fin (real nb))"
  unfolding sweep_v1_b64 sweep_loop_b64_thrust_0
  by (simp add: staticScrew_def static_blade del: f_mul.simps)

lemma static_thrust_9_3:
  "thrust_sp (getSpeedThrustPerformance_v1_b64 atn (staticScrew 9) ! 0) =
     Fin (7813256256393793 / 35184372088832)"
  "f_mul (thrust_sp (getSpeedThrustPerformance_v1_b64 atn (staticScrew 3) ! 0)) (Fin 3) =
     Fin (122082129006153 / 549755813888)"
  by (simp_all add: static_thrust b64_values)

lemma static_V_funpow:
  "i \<le> 10 \<Longrightarrow> V_sp (getSpeedThrustPerformance_v1_b64 atn (staticScrew nb) ! i) =
     f_mul (((\<lambda>v. f_add v (Fin (3602879701896397 / 36028797018963968))) ^^ i) (Fin 0)) (Fin (8106479329266893 / 2251799813685248))"
  unfolding sweep_v1_b64
  by (subst sweep_loop_b64_V)
     (simp_all add: staticScrew_def f_sub_def b64_0 b64_values del: sweep_loop_b64.simps)

lemma static_V:
  "V_sp (getSpeedThrustPerformance_v1_b64 atn (staticScrew nb) ! 1) = Fin (6485183463413515 / 18014398509481984)"
  "V_sp (getSpeedThrustPerformance_v1_b64 atn (staticScrew nb) ! 2) = Fin (6485183463413515 / 9007199254740992)"
  "V_sp (getSpeedThrustPerformance_v1_b64 atn (staticScrew nb) ! 3) = Fin (4863887597560137 / 4503599627370496)"
  "V_sp (getSpeedThrustPerformance_v1_b64 atn (staticScrew nb) ! 10) = Fin (2026619832316723 / 562949953421312)"
  by (simp_all add: static_V_funpow eval_nat_numeral b64_0 b64_values)

lemma static_thrust_3:
  "thrust_sp (getSpeedThrustPerformance_v1_b64 atn (staticScrew 3) ! 0) =
     Fin (40694043002051 / 549755813888)"
  by (simp add: static_thrust b64_values)

lemma largeSpeed_V_funpow:
  "i \<le> 2 \<Longrightarrow> V_sp (getSpeedThrustPerformance_v1_b64 atn largeSpeedScrew ! i) =
     f_mul (((\<lambda>v. f_add v (Fin 1)) ^^ i) (Fin 9007199254740992)) (Fin (8106479329266893 / 2251799813685248))"
  unfolding sweep_v1_b64
  by (subst sweep_loop_b64_V)
     (simp_all add: largeSpeedScrew_def staticScrew_def f_sub_def b64_values del: sweep_loop_b64.simps)

lemma largeSpeed_V:
  "V_sp (getSpeedThrustPerformance_v1_b64 atn largeSpeedScrew ! 0) = Fin 32425917317067572"
  "V_sp (getSpeedThrustPerformance_v1_b64 atn largeSpeedScrew ! 1) = Fin 32425917317067572"
  "V_sp (getSpeedThrustPerformance_v1_b64 atn largeSpeedScrew ! 2) = Fin 32425917317067572"
  by (simp_all add: largeSpeed_V_funpow eval_nat_numeral b64_values)

lemma reversed_V:
  "nV_e (environment testAirScrew_reversed) = 15"
  "V_sp (getSpeedThrustPerformance_v1 testAirScrew_reversed ! 0) = Fin 162"
  "V_sp (getSpeedThrustPerformance_v1 testAirScrew_reversed ! 1) = Fin (756 / 5)"
proof -
  show e1: "nV_e (environment testAirScrew_reversed) = 15"
    by (simp add: testAirScrew_reversed_def testAirScrew_v1_env)
  have e: "v0_e (environment testAirScrew_reversed) = Fin 45"
    "v1_e (environment testAirScrew_reversed) = Fin 0"
    by (simp_all add: testAirScrew_reversed_def testAirScrew_v1_env)
  have d: "js_div (js_sub (Fin 0) (Fin 45)) (Fin (real (15 :: nat))) = Fin (- 3)"
    by (simp add: js_sub_Fin)
  have "V_sp (getSpeedThrustPerformance_v1 testAirScrew_reversed ! 0) = Fin ((45 + real 0 * (- 3)) * 3.6)"
    unfolding sweep_v1 e e1 d by (rule sweep_loop_V) simp
  then show "V_sp (getSpeedThrustPerformance_v1 testAirScrew_reversed ! 0) = Fin 162"
    by simp
  have "V_sp (getSpeedThrustPerformance_v1 testAirScrew_reversed ! 1) = Fin ((45 + real 1 * (- 3)) * 3.6)"
    unfolding sweep_v1 e e1 d by (rule sweep_loop_V) simp
  then show "V_sp (getSpeedThrustPerformance_v1 testAirScrew_reversed ! 1) = Fin (756 / 5)"
    by simp
qed

lemma sweep_loop_b64_map_V:
  "map V_sp (sweep_loop_b64 blade nBlade Ro omega area dV n V) =
   map V_sp (sweep_loop_b64 blade' nBlade' Ro' omega' area' dV n V)"
  by (induction n arbitrary: V) (simp_all add: Let_def)

lemma sweep_b64_blades:
  "map V_sp (getSpeedThrustPerformance_v1_b64 atn (c1\<lparr>geometry := (geometry c1)\<lparr>nBlade_g := nb\<rparr>\<rparr>)) =
   map V_sp (getSpeedThrustPerformance_v1_b64 atn c1)"
  "map V_sp (getSpeedThrustPerformance_v2_b64 atn (c2\<lparr>geometry := (geometry c2)\<lparr>nBlade_g := nb\<rparr>\<rparr>)) =
   map V_sp (getSpeedThrustPerformance_v2_b64 atn c2)"
  unfolding sweep_v1_b64 sweep_v2_b64
  by (simp_all del: sweep_loop_b64.simps f_mul.simps f_div.simps add: sweep_loop_b64_map_V)

text \<open>
  The forward speeds of the sweep in binary64 arithmetic never decrease when \<open>v0 \<le> v1\<close>:
  rounding is monotone and leaves a binary64 value unchanged, so that \<^verbatim>\<open>V + dV\<close> is at
  least \<open>V\<close> for a step that is not negative.
\<close>

lemma f_add_step:
  assumes v: "b64 v = Fin v" and d: "0 \<le> d"
  shows "(\<exists>w. b64 (v + d) = Fin w \<and> v \<le> w \<and> b64 w = Fin w) \<or> b64 (v + d) = PInf"
proof -
  have "v \<le> v + d" using d by simp
  then have "(\<exists>x y. b64 v = Fin x \<and> b64 (v + d) = Fin y \<and> x \<le> y) \<or> b64 (v + d) = PInf \<or> b64 v = NInf"
    by (rule b64_mono)
  then show ?thesis
    using v b64_idem[of "v + d"] by auto
qed

lemma speed_step_size:
  assumes "a \<le> b" "0 < n"
  shows "(\<exists>d. f_div (f_sub (Fin b) (Fin a)) (Fin (real n)) = Fin d \<and> 0 \<le> d) \<or>
         f_div (f_sub (Fin b) (Fin a)) (Fin (real n)) = PInf"
proof -
  have "0 \<le> b + - a" using assms(1) by simp
  then consider p where "b64 (b + - a) = Fin p" "0 \<le> p" | "b64 (b + - a) = PInf"
    using b64_nonneg by blast
  then show ?thesis
  proof cases
    case 1
    have "0 \<le> p / real n" using 1(2) by simp
    then have "(\<exists>d. b64 (p / real n) = Fin d \<and> 0 \<le> d) \<or> b64 (p / real n) = PInf"
      by (rule b64_nonneg)
    then show ?thesis using 1(1) assms(2) by (simp add: f_sub_def)
  next
    case 2
    then show ?thesis by (simp add: f_sub_def)
  qed
qed

lemma speed_step:
  assumes W: "(\<exists>v. W = Fin v \<and> b64 v = Fin v) \<or> W = PInf"
    and dV: "(\<exists>d. dV = Fin d \<and> 0 \<le> d) \<or> dV = PInf"
  shows "((\<exists>w. f_add W dV = Fin w \<and> b64 w = Fin w) \<or> f_add W dV = PInf) \<and>
         ((\<exists>v w. W = Fin v \<and> f_add W dV = Fin w \<and> v \<le> w) \<or> f_add W dV = PInf)"
proof -
  consider v d where "W = Fin v" "b64 v = Fin v" "dV = Fin d" "0 \<le> d"
    | "W = PInf" | "dV = PInf" using W dV by blast
  then show ?thesis
  proof cases
    case 1
    show ?thesis using f_add_step[OF 1(2) 1(4)] unfolding 1(1) 1(3) by auto
  next
    case 2
    then show ?thesis using dV by auto
  next
    case 3
    then show ?thesis using W by auto
  qed
qed

lemma speed_funpow:
  assumes W: "(\<exists>v. W = Fin v \<and> b64 v = Fin v) \<or> W = PInf"
    and dV: "(\<exists>d. dV = Fin d \<and> 0 \<le> d) \<or> dV = PInf"
  shows "(\<exists>v. ((\<lambda>v. f_add v dV) ^^ i) W = Fin v \<and> b64 v = Fin v) \<or>
         ((\<lambda>v. f_add v dV) ^^ i) W = PInf"
proof (induction i)
  case 0
  then show ?case using W by simp
next
  case (Suc i)
  show ?case using speed_step[OF Suc dV] by simp
qed

lemma speed_scaled:
  assumes c: "0 < c" and st: "(\<exists>v w. W = Fin v \<and> W' = Fin w \<and> v \<le> w) \<or> W' = PInf"
  shows "(\<exists>x y. f_mul W (Fin c) = Fin x \<and> f_mul W' (Fin c) = Fin y \<and> x \<le> y) \<or>
         f_mul W' (Fin c) = PInf \<or> f_mul W (Fin c) = NInf"
  using st
proof
  assume "\<exists>v w. W = Fin v \<and> W' = Fin w \<and> v \<le> w"
  then obtain v w where h: "W = Fin v" "W' = Fin w" "v \<le> w" by blast
  have "v * c \<le> w * c" using h(3) c by simp
  then show ?thesis unfolding h(1,2) f_mul.simps by (rule b64_mono)
next
  assume "W' = PInf"
  then show ?thesis using c by (simp add: inf_times_def)
qed

lemma sweep_loop_b64_nondecreasing:
  assumes a: "b64 a = Fin a" and ab: "a \<le> b" and i: "i < n"
    and P: "P = sweep_loop_b64 blade nBlade Ro omega area
              (f_div (f_sub (Fin b) (Fin a)) (Fin (real n))) (Suc n) (Fin a)"
  shows "(\<exists>x y. V_sp (P ! i) = Fin x \<and> V_sp (P ! (i + 1)) = Fin y \<and> x \<le> y) \<or>
         V_sp (P ! (i + 1)) = PInf \<or> V_sp (P ! i) = NInf"
proof -
  define dV where "dV = f_div (f_sub (Fin b) (Fin a)) (Fin (real n))"
  define W where "W = ((\<lambda>v. f_add v dV) ^^ i) (Fin a)"
  have n: "0 < n" using i by simp
  have dV: "(\<exists>d. dV = Fin d \<and> 0 \<le> d) \<or> dV = PInf"
    unfolding dV_def using ab n by (rule speed_step_size)
  have W0: "(\<exists>v. Fin a = Fin v \<and> b64 v = Fin v) \<or> Fin a = PInf" using a by simp
  have Wi: "(\<exists>v. W = Fin v \<and> b64 v = Fin v) \<or> W = PInf"
    unfolding W_def using W0 dV by (rule speed_funpow)
  have st: "(\<exists>v w. W = Fin v \<and> f_add W dV = Fin w \<and> v \<le> w) \<or> f_add W dV = PInf"
    using speed_step[OF Wi dV] by blast
  have c: "b64 3.6 = Fin (8106479329266893 / 2251799813685248)"
    by (simp add: b64_values)
  have V0: "V_sp (P ! i) = f_mul W (Fin (8106479329266893 / 2251799813685248))"
    unfolding P W_def dV_def c[symmetric] using i by (intro sweep_loop_b64_V) simp
  have V1: "V_sp (P ! (i + 1)) = f_mul (f_add W dV) (Fin (8106479329266893 / 2251799813685248))"
  proof -
    have "V_sp (P ! (i + 1)) = f_mul (((\<lambda>v. f_add v dV) ^^ (i + 1)) (Fin a)) (b64 3.6)"
      unfolding P dV_def using i by (intro sweep_loop_b64_V) simp
    then show ?thesis unfolding c W_def by simp
  qed
  show ?thesis
    unfolding V0 V1 using _ st by (rule speed_scaled) simp
qed

lemma sweep_b64_nondecreasing:
  assumes "b64 a = Fin a" "a \<le> b" "i < n"
  shows "nV_e (environment c1) = n \<Longrightarrow> v0_e (environment c1) = Fin a \<Longrightarrow>
         v1_e (environment c1) = Fin b \<Longrightarrow> Pb = getSpeedThrustPerformance_v1_b64 atn c1 \<Longrightarrow>
         (\<exists>x y. V_sp (Pb ! i) = Fin x \<and> V_sp (Pb ! (i + 1)) = Fin y \<and> x \<le> y) \<or>
         V_sp (Pb ! (i + 1)) = PInf \<or> V_sp (Pb ! i) = NInf"
    and "nV_e (environment c2) = n \<Longrightarrow> v0_e (environment c2) = Fin a \<Longrightarrow>
         v1_e (environment c2) = Fin b \<Longrightarrow> Pb = getSpeedThrustPerformance_v2_b64 atn c2 \<Longrightarrow>
         (\<exists>x y. V_sp (Pb ! i) = Fin x \<and> V_sp (Pb ! (i + 1)) = Fin y \<and> x \<le> y) \<or>
         V_sp (Pb ! (i + 1)) = PInf \<or> V_sp (Pb ! i) = NInf"
proof -
  assume h: "nV_e (environment c1) = n" "v0_e (environment c1) = Fin a"
    "v1_e (environment c1) = Fin b" "Pb = getSpeedThrustPerformance_v1_b64 atn c1"
  show "(\<exists>x y. V_sp (Pb ! i) = Fin x \<and> V_sp (Pb ! (i + 1)) = Fin y \<and> x \<le> y) \<or>
         V_sp (Pb ! (i + 1)) = PInf \<or> V_sp (Pb ! i) = NInf"
    by (rule sweep_loop_b64_nondecreasing[OF assms]) (simp only: h sweep_v1_b64)
next
  assume h: "nV_e (environment c2) = n" "v0_e (environment c2) = Fin a"
    "v1_e (environment c2) = Fin b" "Pb = getSpeedThrustPerformance_v2_b64 atn c2"
  show "(\<exists>x y. V_sp (Pb ! i) = Fin x \<and> V_sp (Pb ! (i + 1)) = Fin y \<and> x \<le> y) \<or>
         V_sp (Pb ! (i + 1)) = PInf \<or> V_sp (Pb ! i) = NInf"
    by (rule sweep_loop_b64_nondecreasing[OF assms]) (simp only: h sweep_v2_b64)
qed

section \<open>The claim about the two variants of getSpeedDistribution\<close>

text \<open>
  Claim C7, amended. In exact arithmetic the two variants of \<^verbatim>\<open>getSpeedDistribution\<close>
  differ only by the factor 60 of the rotational speed: the first variant at \<open>RPM\<close>
  returns the same samples as the second at \<open>60 * RPM\<close>, for every tip radius, forward
  speed and section count. In binary64 arithmetic the first variant at \<open>RPM1\<close> returns
  the same samples as the second at \<open>RPM2\<close> whenever the two computed angular speeds,
  \<^verbatim>\<open>2 * Math.PI * RPM1\<close> and \<^verbatim>\<open>2 * Math.PI * RPM2 / 60\<close>, are the same number.
\<close>

theorem getSpeedDistribution_variants:
  "getSpeedDistribution_v1 RPM R v0 N = getSpeedDistribution_v2 (js_mul (Fin 60) RPM) R v0 N \<and>
   (f_mul (f_mul (Fin 2) Math_PI) RPM1 = f_div (f_mul (f_mul (Fin 2) Math_PI) RPM2) (Fin 60)
    \<longrightarrow> getSpeedDistribution_v1_b64 atn RPM1 R' v0' N' =
        getSpeedDistribution_v2_b64 atn RPM2 R' v0' N')"
  using getSpeedDistribution_b64_same_omega[of RPM1 RPM2 atn R' v0' N']
  by (simp add: getSpeedDistribution_v1_def getSpeedDistribution_v2_def omega_convention)

text \<open>
  The claim C7 as stated, the same samples at \<open>RPM\<close> and \<open>60 * RPM\<close>, fails in binary64
  arithmetic at \<open>RPM = 1\<close> (tip radius 2, forward speed 0, one section): the angular
  speed \<^verbatim>\<open>2 * Math.PI * 60 / 60\<close> is one unit in the last place below \<^verbatim>\<open>2 * Math.PI * 1\<close>,
  and so is the resultant velocity of the section.
\<close>

theorem rounded_omega_counterexample:
  "\<forall>atn.
     getSpeedDistribution_v1_b64 atn (Fin 1) (Fin 2) (Fin 0) 1 =
       [\<lparr>range_s = Fin 1, localVelocity = Fin (884279719003555 / 140737488355328),
         localAoA = Fin 0\<rparr>] \<and>
     getSpeedDistribution_v2_b64 atn (f_mul (Fin 60) (Fin 1)) (Fin 2) (Fin 0) 1 =
       [\<lparr>range_s = Fin 1, localVelocity = Fin (7074237752028439 / 1125899906842624),
         localAoA = Fin 0\<rparr>] \<and>
     getSpeedDistribution_v1_b64 atn (Fin 1) (Fin 2) (Fin 0) 1 \<noteq>
       getSpeedDistribution_v2_b64 atn (f_mul (Fin 60) (Fin 1)) (Fin 2) (Fin 0) 1"
proof (intro allI conjI)
  fix atn
  show "getSpeedDistribution_v1_b64 atn (Fin 1) (Fin 2) (Fin 0) 1 =
       [\<lparr>range_s = Fin 1, localVelocity = Fin (884279719003555 / 140737488355328),
         localAoA = Fin 0\<rparr>]"
    by (rule speed_b64_at_1)
  show "getSpeedDistribution_v2_b64 atn (f_mul (Fin 60) (Fin 1)) (Fin 2) (Fin 0) 1 =
       [\<lparr>range_s = Fin 1, localVelocity = Fin (7074237752028439 / 1125899906842624),
         localAoA = Fin 0\<rparr>]"
    by (rule speed_b64_at_1)
  show "getSpeedDistribution_v1_b64 atn (Fin 1) (Fin 2) (Fin 0) 1 \<noteq>
       getSpeedDistribution_v2_b64 atn (f_mul (Fin 60) (Fin 1)) (Fin 2) (Fin 0) 1"
    unfolding speed_b64_at_1 by simp
qed

text \<open>
  At \<open>RPM = 3\<close> the two computed angular speeds are the same number and the samples
  agree, whatever \<^verbatim>\<open>Math.atan\<close> returns.
\<close>

theorem getSpeedDistribution_variants_witness:
  "f_mul (f_mul (Fin 2) Math_PI) (Fin 3) =
     f_div (f_mul (f_mul (Fin 2) Math_PI) (f_mul (Fin 60) (Fin 3))) (Fin 60) \<and>
   (\<forall>atn. getSpeedDistribution_v1_b64 atn (Fin 3) (Fin 1) (Fin 10) 10 =
          getSpeedDistribution_v2_b64 atn (f_mul (Fin 60) (Fin 3)) (Fin 1) (Fin 10) 10) \<and>
   getSpeedDistribution_v1 (Fin 3) (Fin 1) (Fin 10) 10 =
     getSpeedDistribution_v2 (js_mul (Fin 60) (Fin 3)) (Fin 1) (Fin 10) 10"
proof (intro conjI allI)
  show "f_mul (f_mul (Fin 2) Math_PI) (Fin 3) =
     f_div (f_mul (f_mul (Fin 2) Math_PI) (f_mul (Fin 60) (Fin 3))) (Fin 60)"
    by (rule omega_b64_at_3)
  show "getSpeedDistribution_v1_b64 atn (Fin 3) (Fin 1) (Fin 10) 10 =
          getSpeedDistribution_v2_b64 atn (f_mul (Fin 60) (Fin 3)) (Fin 1) (Fin 10) 10" for atn
    using getSpeedDistribution_variants[of _ _ _ _ "Fin 3" "f_mul (Fin 60) (Fin 3)" atn "Fin 1" "Fin 10" 10]
      omega_b64_at_3 by blast
  show "getSpeedDistribution_v1 (Fin 3) (Fin 1) (Fin 10) 10 =
     getSpeedDistribution_v2 (js_mul (Fin 60) (Fin 3)) (Fin 1) (Fin 10) 10"
    using getSpeedDistribution_variants[of "Fin 3" "Fin 1" "Fin 10" 10] by blast
qed

section \<open>The claims about getSpeedThrustPerformance\<close>

text \<open>
  Claim C5, amended. In exact arithmetic, in both variants, multiplying the blade count
  by a positive integer \<open>k\<close> multiplies every point's total thrust, total torque, total
  power and thrust coefficient by \<open>k\<close>, and leaves its forward speed and
  thrust-to-power ratio unchanged; in binary64 arithmetic it leaves the forward speed
  unchanged. (\<open>P\<close> is the result for the configuration in exact arithmetic and \<open>Pb\<close> in
  binary64 arithmetic, \<open>P'\<close> and \<open>Pb'\<close> the results with \<open>k\<close> times the blades.)
\<close>

theorem blade_count_scaling:
  assumes "0 < k"
    and "(P = getSpeedThrustPerformance_v1 c1 \<and>
          P' = getSpeedThrustPerformance_v1
                 (c1\<lparr>geometry := (geometry c1)\<lparr>nBlade_g := nBlade_g (geometry c1) * k\<rparr>\<rparr>) \<and>
          Pb = getSpeedThrustPerformance_v1_b64 atn c1 \<and>
          Pb' = getSpeedThrustPerformance_v1_b64 atn
                 (c1\<lparr>geometry := (geometry c1)\<lparr>nBlade_g := nBlade_g (geometry c1) * k\<rparr>\<rparr>)) \<or>
         (P = getSpeedThrustPerformance_v2 c2 \<and>
          P' = getSpeedThrustPerformance_v2
                 (c2\<lparr>geometry := (geometry c2)\<lparr>nBlade_g := nBlade_g (geometry c2) * k\<rparr>\<rparr>) \<and>
          Pb = getSpeedThrustPerformance_v2_b64 atn c2 \<and>
          Pb' = getSpeedThrustPerformance_v2_b64 atn
                 (c2\<lparr>geometry := (geometry c2)\<lparr>nBlade_g := nBlade_g (geometry c2) * k\<rparr>\<rparr>))"
  shows "map V_sp P' = map V_sp P \<and>
         map thrust_sp P' = map (\<lambda>p. js_mul (thrust_sp p) (Fin (real k))) P \<and>
         map torque_sp P' = map (\<lambda>p. js_mul (torque_sp p) (Fin (real k))) P \<and>
         map power_sp P' = map (\<lambda>p. js_mul (power_sp p) (Fin (real k))) P \<and>
         map thrustCoeff_sp P' = map (\<lambda>p. js_mul (thrustCoeff_sp p) (Fin (real k))) P \<and>
         map thrust2power_sp P' = map thrust2power_sp P \<and>
         map V_sp Pb' = map V_sp Pb"
  using assms(2)
proof
  assume h: "P = getSpeedThrustPerformance_v1 c1 \<and>
          P' = getSpeedThrustPerformance_v1
                 (c1\<lparr>geometry := (geometry c1)\<lparr>nBlade_g := nBlade_g (geometry c1) * k\<rparr>\<rparr>) \<and>
          Pb = getSpeedThrustPerformance_v1_b64 atn c1 \<and>
          Pb' = getSpeedThrustPerformance_v1_b64 atn
                 (c1\<lparr>geometry := (geometry c1)\<lparr>nBlade_g := nBlade_g (geometry c1) * k\<rparr>\<rparr>)"
  then have "map V_sp Pb' = map V_sp Pb" by (simp only: sweep_b64_blades)
  then show ?thesis
    using h by (simp add: sweep_v1 sweep_loop_scale[OF assms(1)] del: sweep_loop.simps)
next
  assume h: "P = getSpeedThrustPerformance_v2 c2 \<and>
          P' = getSpeedThrustPerformance_v2
                 (c2\<lparr>geometry := (geometry c2)\<lparr>nBlade_g := nBlade_g (geometry c2) * k\<rparr>\<rparr>) \<and>
          Pb = getSpeedThrustPerformance_v2_b64 atn c2 \<and>
          Pb' = getSpeedThrustPerformance_v2_b64 atn
                 (c2\<lparr>geometry := (geometry c2)\<lparr>nBlade_g := nBlade_g (geometry c2) * k\<rparr>\<rparr>)"
  then have "map V_sp Pb' = map V_sp Pb" by (simp only: sweep_b64_blades)
  then show ?thesis
    using h by (simp add: sweep_v2 sweep_loop_scale[OF assms(1)] del: sweep_loop.simps)
qed

text \<open>
  The claim C5 as stated, that the thrust coefficient is unchanged, fails on the small
  airscrew: with two blades the thrust coefficient of the first point is twice the one
  with one blade. And the scaling by \<open>k\<close> is a fact of exact arithmetic only: in binary64
  arithmetic the static thrust of the two-section airscrew with nine blades,
  \<^verbatim>\<open>totalThrust * 9\<close>, is not three times the thrust with three blades,
  \<^verbatim>\<open>totalThrust * 3 * 3\<close>; the two differ in the last place.
\<close>

theorem blade_count_scaling_counterexample:
  "thrustCoeff_sp (getSpeedThrustPerformance_v1 (unitScrew_v1 1) ! 0) = Fin ((2 + 5 * (pi * pi) / 2) / pi) \<and>
   thrustCoeff_sp (getSpeedThrustPerformance_v1 (unitScrew_v1 2) ! 0) =
     Fin (2 * ((2 + 5 * (pi * pi) / 2) / pi)) \<and>
   thrustCoeff_sp (getSpeedThrustPerformance_v1 (unitScrew_v1 2) ! 0) \<noteq>
     thrustCoeff_sp (getSpeedThrustPerformance_v1 (unitScrew_v1 1) ! 0) \<and>
   (\<forall>atn.
      thrust_sp (getSpeedThrustPerformance_v1_b64 atn (staticScrew 3) ! 0) =
        Fin (40694043002051 / 549755813888) \<and>
      thrust_sp (getSpeedThrustPerformance_v1_b64 atn (staticScrew 9) ! 0) =
        Fin (7813256256393793 / 35184372088832) \<and>
      f_mul (thrust_sp (getSpeedThrustPerformance_v1_b64 atn (staticScrew 3) ! 0)) (Fin 3) =
        Fin (122082129006153 / 549755813888) \<and>
      thrust_sp (getSpeedThrustPerformance_v1_b64 atn (staticScrew 9) ! 0) \<noteq>
        f_mul (thrust_sp (getSpeedThrustPerformance_v1_b64 atn (staticScrew 3) ! 0)) (Fin 3))"
proof -
  have "0 < 5 * (pi * pi) + 4"
    by (intro add_nonneg_pos mult_nonneg_nonneg) simp_all
  then have "thrustCoeff_sp (getSpeedThrustPerformance_v1 (unitScrew_v1 1) ! 0) = Fin ((2 + 5 * (pi * pi) / 2) / pi) \<and>
   thrustCoeff_sp (getSpeedThrustPerformance_v1 (unitScrew_v1 2) ! 0) =
     Fin (2 * ((2 + 5 * (pi * pi) / 2) / pi)) \<and>
   thrustCoeff_sp (getSpeedThrustPerformance_v1 (unitScrew_v1 2) ! 0) \<noteq>
     thrustCoeff_sp (getSpeedThrustPerformance_v1 (unitScrew_v1 1) ! 0)"
    using unitScrew_v1_thrustCoeff[of 1] unitScrew_v1_thrustCoeff[of 2] by simp
  moreover have "thrust_sp (getSpeedThrustPerformance_v1_b64 atn (staticScrew 3) ! 0) =
        Fin (40694043002051 / 549755813888) \<and>
      thrust_sp (getSpeedThrustPerformance_v1_b64 atn (staticScrew 9) ! 0) =
        Fin (7813256256393793 / 35184372088832) \<and>
      f_mul (thrust_sp (getSpeedThrustPerformance_v1_b64 atn (staticScrew 3) ! 0)) (Fin 3) =
        Fin (122082129006153 / 549755813888) \<and>
      thrust_sp (getSpeedThrustPerformance_v1_b64 atn (staticScrew 9) ! 0) \<noteq>
        f_mul (thrust_sp (getSpeedThrustPerformance_v1_b64 atn (staticScrew 3) ! 0)) (Fin 3)" for atn
    by (simp add: static_thrust_3 static_thrust_9_3(1) b64_values)
  ultimately show ?thesis
    by blast
qed

text \<open>
  The scaling at \<open>k = 3\<close>, from one blade to three in the first variant and from two
  blades to six in the second.
\<close>

theorem blade_count_scaling_witness:
  "(0 :: nat) < 3 \<and>
   map V_sp (getSpeedThrustPerformance_v1 (unitScrew_v1 3)) =
     map V_sp (getSpeedThrustPerformance_v1 (unitScrew_v1 1)) \<and>
   map thrust_sp (getSpeedThrustPerformance_v1 (unitScrew_v1 3)) =
     map (\<lambda>p. js_mul (thrust_sp p) (Fin 3)) (getSpeedThrustPerformance_v1 (unitScrew_v1 1)) \<and>
   map torque_sp (getSpeedThrustPerformance_v1 (unitScrew_v1 3)) =
     map (\<lambda>p. js_mul (torque_sp p) (Fin 3)) (getSpeedThrustPerformance_v1 (unitScrew_v1 1)) \<and>
   map power_sp (getSpeedThrustPerformance_v1 (unitScrew_v1 3)) =
     map (\<lambda>p. js_mul (power_sp p) (Fin 3)) (getSpeedThrustPerformance_v1 (unitScrew_v1 1)) \<and>
   map thrustCoeff_sp (getSpeedThrustPerformance_v1 (unitScrew_v1 3)) =
     map (\<lambda>p. js_mul (thrustCoeff_sp p) (Fin 3)) (getSpeedThrustPerformance_v1 (unitScrew_v1 1)) \<and>
   map thrust2power_sp (getSpeedThrustPerformance_v1 (unitScrew_v1 3)) =
     map thrust2power_sp (getSpeedThrustPerformance_v1 (unitScrew_v1 1)) \<and>
   map thrust_sp (getSpeedThrustPerformance_v2 (unitScrew_v2 6)) =
     map (\<lambda>p. js_mul (thrust_sp p) (Fin 3)) (getSpeedThrustPerformance_v2 (unitScrew_v2 2)) \<and>
   map torque_sp (getSpeedThrustPerformance_v2 (unitScrew_v2 6)) =
     map (\<lambda>p. js_mul (torque_sp p) (Fin 3)) (getSpeedThrustPerformance_v2 (unitScrew_v2 2)) \<and>
   map thrust2power_sp (getSpeedThrustPerformance_v2 (unitScrew_v2 6)) =
     map thrust2power_sp (getSpeedThrustPerformance_v2 (unitScrew_v2 2)) \<and>
   (\<forall>atn. map V_sp (getSpeedThrustPerformance_v1_b64 atn (unitScrew_v1 3)) =
            map V_sp (getSpeedThrustPerformance_v1_b64 atn (unitScrew_v1 1)) \<and>
          map V_sp (getSpeedThrustPerformance_v2_b64 atn (unitScrew_v2 6)) =
            map V_sp (getSpeedThrustPerformance_v2_b64 atn (unitScrew_v2 2)))"
proof -
  have k: "(0 :: nat) < 3" by simp
  have a: "(unitScrew_v1 1)\<lparr>geometry := (geometry (unitScrew_v1 1))\<lparr>nBlade_g := nBlade_g (geometry (unitScrew_v1 1)) * 3\<rparr>\<rparr>
           = unitScrew_v1 3"
    by (simp add: unitScrew_v1_def)
  have b: "(unitScrew_v2 2)\<lparr>geometry := (geometry (unitScrew_v2 2))\<lparr>nBlade_g := nBlade_g (geometry (unitScrew_v2 2)) * 3\<rparr>\<rparr>
           = unitScrew_v2 6"
    by (simp add: unitScrew_v2_def)
  have t1: "map V_sp (getSpeedThrustPerformance_v1 (unitScrew_v1 3)) =
     map V_sp (getSpeedThrustPerformance_v1 (unitScrew_v1 1)) \<and>
   map thrust_sp (getSpeedThrustPerformance_v1 (unitScrew_v1 3)) =
     map (\<lambda>p. js_mul (thrust_sp p) (Fin (real (3 :: nat)))) (getSpeedThrustPerformance_v1 (unitScrew_v1 1)) \<and>
   map torque_sp (getSpeedThrustPerformance_v1 (unitScrew_v1 3)) =
     map (\<lambda>p. js_mul (torque_sp p) (Fin (real (3 :: nat)))) (getSpeedThrustPerformance_v1 (unitScrew_v1 1)) \<and>
   map power_sp (getSpeedThrustPerformance_v1 (unitScrew_v1 3)) =
     map (\<lambda>p. js_mul (power_sp p) (Fin (real (3 :: nat)))) (getSpeedThrustPerformance_v1 (unitScrew_v1 1)) \<and>
   map thrustCoeff_sp (getSpeedThrustPerformance_v1 (unitScrew_v1 3)) =
     map (\<lambda>p. js_mul (thrustCoeff_sp p) (Fin (real (3 :: nat)))) (getSpeedThrustPerformance_v1 (unitScrew_v1 1)) \<and>
   map thrust2power_sp (getSpeedThrustPerformance_v1 (unitScrew_v1 3)) =
     map thrust2power_sp (getSpeedThrustPerformance_v1 (unitScrew_v1 1)) \<and>
   map V_sp (getSpeedThrustPerformance_v1_b64 atn (unitScrew_v1 3)) =
     map V_sp (getSpeedThrustPerformance_v1_b64 atn (unitScrew_v1 1))" for atn
    by (rule blade_count_scaling[OF k disjI1, of _ "unitScrew_v1 1" _ _ atn, unfolded a])
       (intro conjI refl)
  have t2: "map V_sp (getSpeedThrustPerformance_v2 (unitScrew_v2 6)) =
     map V_sp (getSpeedThrustPerformance_v2 (unitScrew_v2 2)) \<and>
   map thrust_sp (getSpeedThrustPerformance_v2 (unitScrew_v2 6)) =
     map (\<lambda>p. js_mul (thrust_sp p) (Fin (real (3 :: nat)))) (getSpeedThrustPerformance_v2 (unitScrew_v2 2)) \<and>
   map torque_sp (getSpeedThrustPerformance_v2 (unitScrew_v2 6)) =
     map (\<lambda>p. js_mul (torque_sp p) (Fin (real (3 :: nat)))) (getSpeedThrustPerformance_v2 (unitScrew_v2 2)) \<and>
   map power_sp (getSpeedThrustPerformance_v2 (unitScrew_v2 6)) =
     map (\<lambda>p. js_mul (power_sp p) (Fin (real (3 :: nat)))) (getSpeedThrustPerformance_v2 (unitScrew_v2 2)) \<and>
   map thrustCoeff_sp (getSpeedThrustPerformance_v2 (unitScrew_v2 6)) =
     map (\<lambda>p. js_mul (thrustCoeff_sp p) (Fin (real (3 :: nat)))) (getSpeedThrustPerformance_v2 (unitScrew_v2 2)) \<and>
   map thrust2power_sp (getSpeedThrustPerformance_v2 (unitScrew_v2 6)) =
     map thrust2power_sp (getSpeedThrustPerformance_v2 (unitScrew_v2 2)) \<and>
   map V_sp (getSpeedThrustPerformance_v2_b64 atn (unitScrew_v2 6)) =
     map V_sp (getSpeedThrustPerformance_v2_b64 atn (unitScrew_v2 2))" for atn
    by (rule blade_count_scaling[OF k disjI2, of _ "unitScrew_v2 2" _ _ atn, unfolded b])
       (intro conjI refl)
  show ?thesis
    using k t1 t2 by simp
qed

text \<open>
  Claim C6, amended. In both variants, for \<open>nV \<ge> 1\<close> and finite speeds \<open>v0\<close>, \<open>v1\<close>, the
  result has \<open>nV + 1\<close> points, the first at \<open>v0 * 3.6\<close>, and when \<open>v0 \<le> v1\<close> the forward
  speeds never decrease: this holds in exact arithmetic (result \<open>P\<close>) and in binary64
  arithmetic (result \<open>Pb\<close>, for \<open>v0\<close> a binary64 value; a speed that has overflowed is an
  infinity). In exact arithmetic, moreover, the last point is at \<open>v1 * 3.6\<close> and
  consecutive points are \<open>(v1 - v0) / nV\<close> apart in meters per second, so that the speeds
  increase when \<open>v0 < v1\<close> and decrease when \<open>v1 < v0\<close>.
\<close>

theorem sweep_forward_speeds:
  assumes "1 \<le> n"
    and "(nV_e (environment c1) = n \<and> v0_e (environment c1) = Fin a \<and>
          v1_e (environment c1) = Fin b \<and> P = getSpeedThrustPerformance_v1 c1 \<and>
          Pb = getSpeedThrustPerformance_v1_b64 atn c1) \<or>
         (nV_e (environment c2) = n \<and> v0_e (environment c2) = Fin a \<and>
          v1_e (environment c2) = Fin b \<and> P = getSpeedThrustPerformance_v2 c2 \<and>
          Pb = getSpeedThrustPerformance_v2_b64 atn c2)"
  shows "length P = n + 1 \<and> V_sp (P ! 0) = Fin (a * 3.6) \<and> V_sp (P ! n) = Fin (b * 3.6) \<and>
         (\<forall>i<n. \<exists>x y. V_sp (P ! i) = Fin (x * 3.6) \<and> V_sp (P ! (i + 1)) = Fin (y * 3.6) \<and>
                   y - x = (b - a) / real n \<and>
                   (a \<le> b \<longrightarrow> x \<le> y) \<and> (a < b \<longrightarrow> x < y) \<and> (b < a \<longrightarrow> y < x)) \<and>
         length Pb = n + 1 \<and> V_sp (Pb ! 0) = f_mul (Fin a) (b64 3.6) \<and>
         (b64 a = Fin a \<and> a \<le> b \<longrightarrow>
            (\<forall>i<n. (\<exists>x y. V_sp (Pb ! i) = Fin x \<and> V_sp (Pb ! (i + 1)) = Fin y \<and> x \<le> y) \<or>
                    V_sp (Pb ! (i + 1)) = PInf \<or> V_sp (Pb ! i) = NInf))"
  using assms(2)
proof
  assume h: "nV_e (environment c1) = n \<and> v0_e (environment c1) = Fin a \<and>
          v1_e (environment c1) = Fin b \<and> P = getSpeedThrustPerformance_v1 c1 \<and>
          Pb = getSpeedThrustPerformance_v1_b64 atn c1"
  have ex: "length P = n + 1 \<and> V_sp (P ! 0) = Fin (a * 3.6) \<and> V_sp (P ! n) = Fin (b * 3.6) \<and>
         (\<forall>i<n. \<exists>x y. V_sp (P ! i) = Fin (x * 3.6) \<and> V_sp (P ! (i + 1)) = Fin (y * 3.6) \<and>
                   y - x = (b - a) / real n \<and>
                   (a \<le> b \<longrightarrow> x \<le> y) \<and> (a < b \<longrightarrow> x < y) \<and> (b < a \<longrightarrow> y < x))"
    by (rule sweep_speeds_order[OF _ assms(1)]) (simp only: h sweep_v1)
  have cf: "length Pb = n + 1 \<and> V_sp (Pb ! 0) = f_mul (Fin a) (b64 3.6)"
    using h sweep_b64_count_first(1,2)[of atn c1] by simp
  have mono: "(\<exists>x y. V_sp (Pb ! i) = Fin x \<and> V_sp (Pb ! (i + 1)) = Fin y \<and> x \<le> y) \<or>
         V_sp (Pb ! (i + 1)) = PInf \<or> V_sp (Pb ! i) = NInf"
    if "b64 a = Fin a" "a \<le> b" "i < n" for i
    using sweep_b64_nondecreasing(1)[OF that, of c1 Pb atn] h by blast
  show ?thesis
    using ex cf mono by blast
next
  assume h: "nV_e (environment c2) = n \<and> v0_e (environment c2) = Fin a \<and>
          v1_e (environment c2) = Fin b \<and> P = getSpeedThrustPerformance_v2 c2 \<and>
          Pb = getSpeedThrustPerformance_v2_b64 atn c2"
  have ex: "length P = n + 1 \<and> V_sp (P ! 0) = Fin (a * 3.6) \<and> V_sp (P ! n) = Fin (b * 3.6) \<and>
         (\<forall>i<n. \<exists>x y. V_sp (P ! i) = Fin (x * 3.6) \<and> V_sp (P ! (i + 1)) = Fin (y * 3.6) \<and>
                   y - x = (b - a) / real n \<and>
                   (a \<le> b \<longrightarrow> x \<le> y) \<and> (a < b \<longrightarrow> x < y) \<and> (b < a \<longrightarrow> y < x))"
    by (rule sweep_speeds_order[OF _ assms(1)]) (simp only: h sweep_v2)
  have cf: "length Pb = n + 1 \<and> V_sp (Pb ! 0) = f_mul (Fin a) (b64 3.6)"
    using h sweep_b64_count_first(3,4)[of atn c2] by simp
  have mono: "(\<exists>x y. V_sp (Pb ! i) = Fin x \<and> V_sp (Pb ! (i + 1)) = Fin y \<and> x \<le> y) \<or>
         V_sp (Pb ! (i + 1)) = PInf \<or> V_sp (Pb ! i) = NInf"
    if "b64 a = Fin a" "a \<le> b" "i < n" for i
    using sweep_b64_nondecreasing(2)[OF that, of c2 Pb atn] h by blast
  show ?thesis
    using ex cf mono by blast
qed

text \<open>
  The claim C6 as stated, for every configuration with \<open>nV \<ge> 1\<close>, fails when \<open>v0 > v1\<close>:
  for the test configuration swept from 45 down to 0 the first point is at 162 km/h and
  the second at 151.2 km/h. And the last point, the spacing and the strict increase are
  facts of exact arithmetic only. In binary64 arithmetic, \<^verbatim>\<open>V += dV\<close> from 0 to 1 m/s in
  ten steps ends at 3.5999999999999996 km/h and not at \<^verbatim>\<open>1 * 3.6\<close>, and the second step
  differs from the first; and from \<open>2 ^ 53\<close> to \<open>2 ^ 53 + 2\<close> m/s in two steps, \<^verbatim>\<open>V + 1\<close>
  rounds back to \<open>V\<close>, so that the three points are at the same speed.
\<close>

theorem sweep_speeds_counterexample:
  "1 \<le> nV_e (environment testAirScrew_reversed) \<and>
   V_sp (getSpeedThrustPerformance_v1 testAirScrew_reversed ! 0) = Fin 162 \<and>
   V_sp (getSpeedThrustPerformance_v1 testAirScrew_reversed ! 1) = Fin (756 / 5) \<and>
   \<not> (162 :: real) \<le> 756 / 5 \<and>
   (\<forall>atn.
      nV_e (environment (staticScrew 1)) = 10 \<and>
      v0_e (environment (staticScrew 1)) = Fin 0 \<and> v1_e (environment (staticScrew 1)) = Fin 1 \<and>
      f_mul (v1_e (environment (staticScrew 1))) (b64 3.6) = Fin (8106479329266893 / 2251799813685248) \<and>
      V_sp (getSpeedThrustPerformance_v1_b64 atn (staticScrew 1) ! 10) =
        Fin (2026619832316723 / 562949953421312) \<and>
      V_sp (getSpeedThrustPerformance_v1_b64 atn (staticScrew 1) ! 10) \<noteq>
        f_mul (v1_e (environment (staticScrew 1))) (b64 3.6) \<and>
      V_sp (getSpeedThrustPerformance_v1_b64 atn (staticScrew 1) ! 1) =
        Fin (6485183463413515 / 18014398509481984) \<and>
      V_sp (getSpeedThrustPerformance_v1_b64 atn (staticScrew 1) ! 2) =
        Fin (6485183463413515 / 9007199254740992) \<and>
      V_sp (getSpeedThrustPerformance_v1_b64 atn (staticScrew 1) ! 3) =
        Fin (4863887597560137 / 4503599627370496) \<and>
      (6485183463413515 / 9007199254740992 - 6485183463413515 / 18014398509481984 :: real) \<noteq>
        4863887597560137 / 4503599627370496 - 6485183463413515 / 9007199254740992 \<and>
      nV_e (environment largeSpeedScrew) = 2 \<and>
      v0_e (environment largeSpeedScrew) = Fin 9007199254740992 \<and>
      v1_e (environment largeSpeedScrew) = Fin 9007199254740994 \<and>
      V_sp (getSpeedThrustPerformance_v1_b64 atn largeSpeedScrew ! 0) = Fin 32425917317067572 \<and>
      V_sp (getSpeedThrustPerformance_v1_b64 atn largeSpeedScrew ! 1) = Fin 32425917317067572 \<and>
      V_sp (getSpeedThrustPerformance_v1_b64 atn largeSpeedScrew ! 2) = Fin 32425917317067572)"
proof -
  have env: "nV_e (environment (staticScrew 1)) = 10"
    "v0_e (environment (staticScrew 1)) = Fin 0" "v1_e (environment (staticScrew 1)) = Fin 1"
    "nV_e (environment largeSpeedScrew) = 2"
    "v0_e (environment largeSpeedScrew) = Fin 9007199254740992"
    "v1_e (environment largeSpeedScrew) = Fin 9007199254740994"
    by (simp_all add: staticScrew_def largeSpeedScrew_def)
  show ?thesis
    unfolding env reversed_V static_V largeSpeed_V
    by (simp add: b64_values)
qed

text \<open>
  The two test configurations of the source and the first one reversed.
\<close>

theorem sweep_forward_speeds_witness:
  "(1 :: nat) \<le> 15 \<and>
   length (getSpeedThrustPerformance_v1 testAirScrew_v1) = 16 \<and>
   V_sp (getSpeedThrustPerformance_v1 testAirScrew_v1 ! 0) = Fin 0 \<and>
   V_sp (getSpeedThrustPerformance_v1 testAirScrew_v1 ! 15) = Fin 162 \<and>
   length (getSpeedThrustPerformance_v2 testAirScrew_v2) = 16 \<and>
   V_sp (getSpeedThrustPerformance_v2 testAirScrew_v2 ! 0) = Fin 0 \<and>
   V_sp (getSpeedThrustPerformance_v2 testAirScrew_v2 ! 15) = Fin 216 \<and>
   length (getSpeedThrustPerformance_v1 testAirScrew_reversed) = 16 \<and>
   V_sp (getSpeedThrustPerformance_v1 testAirScrew_reversed ! 0) = Fin 162 \<and>
   V_sp (getSpeedThrustPerformance_v1 testAirScrew_reversed ! 15) = Fin 0 \<and>
   (\<forall>atn.
      length (getSpeedThrustPerformance_v1_b64 atn testAirScrew_v1) = 16 \<and>
      V_sp (getSpeedThrustPerformance_v1_b64 atn testAirScrew_v1 ! 0) = Fin 0 \<and>
      ((\<exists>x y. V_sp (getSpeedThrustPerformance_v1_b64 atn testAirScrew_v1 ! 14) = Fin x \<and>
              V_sp (getSpeedThrustPerformance_v1_b64 atn testAirScrew_v1 ! (14 + 1)) = Fin y \<and> x \<le> y) \<or>
       V_sp (getSpeedThrustPerformance_v1_b64 atn testAirScrew_v1 ! (14 + 1)) = PInf \<or>
       V_sp (getSpeedThrustPerformance_v1_b64 atn testAirScrew_v1 ! 14) = NInf) \<and>
      length (getSpeedThrustPerformance_v2_b64 atn testAirScrew_v2) = 16 \<and>
      V_sp (getSpeedThrustPerformance_v2_b64 atn testAirScrew_v2 ! 0) = Fin 0 \<and>
      ((\<exists>x y. V_sp (getSpeedThrustPerformance_v2_b64 atn testAirScrew_v2 ! 14) = Fin x \<and>
              V_sp (getSpeedThrustPerformance_v2_b64 atn testAirScrew_v2 ! (14 + 1)) = Fin y \<and> x \<le> y) \<or>
       V_sp (getSpeedThrustPerformance_v2_b64 atn testAirScrew_v2 ! (14 + 1)) = PInf \<or>
       V_sp (getSpeedThrustPerformance_v2_b64 atn testAirScrew_v2 ! 14) = NInf))"
proof -
  have n: "(1 :: nat) \<le> 15"
    by simp
  have h1: "nV_e (environment testAirScrew_v1) = 15 \<and> v0_e (environment testAirScrew_v1) = Fin 0 \<and>
      v1_e (environment testAirScrew_v1) = Fin 45 \<and>
      getSpeedThrustPerformance_v1 testAirScrew_v1 = getSpeedThrustPerformance_v1 testAirScrew_v1 \<and>
      getSpeedThrustPerformance_v1_b64 atn testAirScrew_v1 =
        getSpeedThrustPerformance_v1_b64 atn testAirScrew_v1" for atn
    by (simp add: testAirScrew_v1_env)
  have h2: "nV_e (environment testAirScrew_v2) = 15 \<and> v0_e (environment testAirScrew_v2) = Fin 0 \<and>
      v1_e (environment testAirScrew_v2) = Fin 60 \<and>
      getSpeedThrustPerformance_v2 testAirScrew_v2 = getSpeedThrustPerformance_v2 testAirScrew_v2 \<and>
      getSpeedThrustPerformance_v2_b64 atn testAirScrew_v2 =
        getSpeedThrustPerformance_v2_b64 atn testAirScrew_v2" for atn
    by (simp add: testAirScrew_v2_env)
  have h3: "nV_e (environment testAirScrew_reversed) = 15 \<and>
      v0_e (environment testAirScrew_reversed) = Fin 45 \<and>
      v1_e (environment testAirScrew_reversed) = Fin 0 \<and>
      getSpeedThrustPerformance_v1 testAirScrew_reversed = getSpeedThrustPerformance_v1 testAirScrew_reversed \<and>
      getSpeedThrustPerformance_v1_b64 atn testAirScrew_reversed =
        getSpeedThrustPerformance_v1_b64 atn testAirScrew_reversed" for atn
    by (simp add: testAirScrew_reversed_def testAirScrew_v1_env)
  note t1 = sweep_forward_speeds[OF n disjI1[OF h1]]
  note t2 = sweep_forward_speeds[OF n disjI2[OF h2]]
  note t3 = sweep_forward_speeds[OF n disjI1[OF h3]]
  have i: "(14 :: nat) < 15" by simp
  have z: "b64 0 = Fin 0 \<and> (0 :: real) \<le> 45" "b64 0 = Fin 0 \<and> (0 :: real) \<le> 60"
    by (simp_all add: b64_0)
  have f: "f_mul (Fin 0) (b64 3.6) = Fin 0"
    by (simp add: b64_values b64_0)
  have e1: "length (getSpeedThrustPerformance_v1 testAirScrew_v1) = 16 \<and>
   V_sp (getSpeedThrustPerformance_v1 testAirScrew_v1 ! 0) = Fin 0 \<and>
   V_sp (getSpeedThrustPerformance_v1 testAirScrew_v1 ! 15) = Fin 162"
    using t1[of arctan] by simp
  have e2: "length (getSpeedThrustPerformance_v2 testAirScrew_v2) = 16 \<and>
   V_sp (getSpeedThrustPerformance_v2 testAirScrew_v2 ! 0) = Fin 0 \<and>
   V_sp (getSpeedThrustPerformance_v2 testAirScrew_v2 ! 15) = Fin 216"
    using t2[of arctan] by simp
  have e3: "length (getSpeedThrustPerformance_v1 testAirScrew_reversed) = 16 \<and>
   V_sp (getSpeedThrustPerformance_v1 testAirScrew_reversed ! 0) = Fin 162 \<and>
   V_sp (getSpeedThrustPerformance_v1 testAirScrew_reversed ! 15) = Fin 0"
    using t3[of arctan] by simp
  have b1: "length (getSpeedThrustPerformance_v1_b64 atn testAirScrew_v1) = 16 \<and>
      V_sp (getSpeedThrustPerformance_v1_b64 atn testAirScrew_v1 ! 0) = Fin 0 \<and>
      ((\<exists>x y. V_sp (getSpeedThrustPerformance_v1_b64 atn testAirScrew_v1 ! 14) = Fin x \<and>
              V_sp (getSpeedThrustPerformance_v1_b64 atn testAirScrew_v1 ! (14 + 1)) = Fin y \<and> x \<le> y) \<or>
       V_sp (getSpeedThrustPerformance_v1_b64 atn testAirScrew_v1 ! (14 + 1)) = PInf \<or>
       V_sp (getSpeedThrustPerformance_v1_b64 atn testAirScrew_v1 ! 14) = NInf)" for atn
  proof (intro conjI)
    note c = t1[of atn, THEN conjunct2, THEN conjunct2, THEN conjunct2, THEN conjunct2]
    show "length (getSpeedThrustPerformance_v1_b64 atn testAirScrew_v1) = 16"
      using c[THEN conjunct1] by simp
    show "V_sp (getSpeedThrustPerformance_v1_b64 atn testAirScrew_v1 ! 0) = Fin 0"
      using c[THEN conjunct2, THEN conjunct1] unfolding f .
    show "(\<exists>x y. V_sp (getSpeedThrustPerformance_v1_b64 atn testAirScrew_v1 ! 14) = Fin x \<and>
              V_sp (getSpeedThrustPerformance_v1_b64 atn testAirScrew_v1 ! (14 + 1)) = Fin y \<and> x \<le> y) \<or>
       V_sp (getSpeedThrustPerformance_v1_b64 atn testAirScrew_v1 ! (14 + 1)) = PInf \<or>
       V_sp (getSpeedThrustPerformance_v1_b64 atn testAirScrew_v1 ! 14) = NInf"
      by (rule c[THEN conjunct2, THEN conjunct2, THEN mp, OF z(1), THEN spec, THEN mp, OF i])
  qed
  have b2: "length (getSpeedThrustPerformance_v2_b64 atn testAirScrew_v2) = 16 \<and>
      V_sp (getSpeedThrustPerformance_v2_b64 atn testAirScrew_v2 ! 0) = Fin 0 \<and>
      ((\<exists>x y. V_sp (getSpeedThrustPerformance_v2_b64 atn testAirScrew_v2 ! 14) = Fin x \<and>
              V_sp (getSpeedThrustPerformance_v2_b64 atn testAirScrew_v2 ! (14 + 1)) = Fin y \<and> x \<le> y) \<or>
       V_sp (getSpeedThrustPerformance_v2_b64 atn testAirScrew_v2 ! (14 + 1)) = PInf \<or>
       V_sp (getSpeedThrustPerformance_v2_b64 atn testAirScrew_v2 ! 14) = NInf)" for atn
  proof (intro conjI)
    note c = t2[of atn, THEN conjunct2, THEN conjunct2, THEN conjunct2, THEN conjunct2]
    show "length (getSpeedThrustPerformance_v2_b64 atn testAirScrew_v2) = 16"
      using c[THEN conjunct1] by simp
    show "V_sp (getSpeedThrustPerformance_v2_b64 atn testAirScrew_v2 ! 0) = Fin 0"
      using c[THEN conjunct2, THEN conjunct1] unfolding f .
    show "(\<exists>x y. V_sp (getSpeedThrustPerformance_v2_b64 atn testAirScrew_v2 ! 14) = Fin x \<and>
              V_sp (getSpeedThrustPerformance_v2_b64 atn testAirScrew_v2 ! (14 + 1)) = Fin y \<and> x \<le> y) \<or>
       V_sp (getSpeedThrustPerformance_v2_b64 atn testAirScrew_v2 ! (14 + 1)) = PInf \<or>
       V_sp (getSpeedThrustPerformance_v2_b64 atn testAirScrew_v2 ! 14) = NInf"
      by (rule c[THEN conjunct2, THEN conjunct2, THEN mp, OF z(2), THEN spec, THEN mp, OF i])
  qed
  show ?thesis
    using n e1 e2 e3 b1 b2 by blast
qed

text \<open>
  Claim C8, amended. \<^verbatim>\<open>getSpeedThrustPerformance\<close> validates nothing: for every
  configuration, a degenerate one included, it computes and returns \<open>nV + 1\<close> points.
\<close>

theorem no_validation:
  "length (getSpeedThrustPerformance_v1 c1) = nV_e (environment c1) + 1 \<and>
   length (getSpeedThrustPerformance_v2 c2) = nV_e (environment c2) + 1"
  unfolding sweep_v1 sweep_v2 by (simp only: length_sweep_loop)

text \<open>
  The claim C8 as stated fails on a configuration with zero blade count, zero tip
  radius, and \<open>nV = 0\<close> with \<open>v0 = v1\<close>: the call returns one point, of NaN values.
\<close>

theorem degenerate_computed_counterexample:
  "nBlade_g (geometry degenerateScrew) = 0 \<and> js_last (RX_g (geometry degenerateScrew)) = Fin 0 \<and>
   nV_e (environment degenerateScrew) = 0 \<and> v0_e (environment degenerateScrew) = v1_e (environment degenerateScrew) \<and>
   getSpeedThrustPerformance_v1 degenerateScrew =
     [\<lparr>V_sp = Fin 0, thrust_sp = NaN, torque_sp = NaN, power_sp = NaN,
       thrustCoeff_sp = NaN, thrust2power_sp = NaN\<rparr>]"
  by (simp add: getSpeedThrustPerformance_v1_def degenerateScrew_def getSingleBladeForces_v1_def
      getSpeedDistribution_v1_def Let_def js_last_def js_nth_def
      section_force_v1_def interp_def init_totals_def js_sub_def inf_times_def)

end
